theory Spec2Isabelle
  imports Complex_Main "HOL-Library.Sublist"
begin

section \<open>Python values and the operations the validators apply to them\<close>

text \<open>
  The validators read their documents with \<^verbatim>\<open>json.load\<close> and then work on the
  parsed value with duck-typed Python: \<^verbatim>\<open>isinstance\<close>, \<^verbatim>\<open>in\<close>,
  \<^verbatim>\<open>.get\<close>, subscripts, \<^verbatim>\<open>len\<close>, truthiness, sets and lists. A parsed
  document is a value of \<open>json\<close>. A number is kept by its mathematical value (Python's
  \<^verbatim>\<open>==\<close> and \<^verbatim>\<open>hash\<close> agree on \<^verbatim>\<open>1\<close>, \<^verbatim>\<open>1.0\<close> and
  \<^verbatim>\<open>True\<close>); non-finite floats are left out. An object is the list of its items in
  insertion order; \<^verbatim>\<open>json.load\<close> produces distinct keys, and a lookup takes the
  first binding.
\<close>

datatype json =
    JNull
  | JBool bool
  | JNum rat
  | JStr string
  | JArr "json list"
  | JObj "(string \<times> json) list"

text \<open>The exceptions that the modelled code can raise; \<open>Inl\<close> of a result is a raise.\<close>

datatype exn =
    TypeError
  | AttributeError
  | KeyError
  | ValueError
  | RecursionError
  | OSError
  | JSONDecodeError

definition bnd :: "exn + 'a \<Rightarrow> ('a \<Rightarrow> exn + 'b) \<Rightarrow> exn + 'b" where
  "bnd m f = (case m of Inl e \<Rightarrow> Inl e | Inr x \<Rightarrow> f x)"

text \<open>\<^verbatim>\<open>bool(v)\<close>, as \<^verbatim>\<open>if v\<close> and \<^verbatim>\<open>not v\<close> read it.\<close>

fun truthy :: "json \<Rightarrow> bool" where
  "truthy JNull = False"
| "truthy (JBool b) = b"
| "truthy (JNum n) = (n \<noteq> 0)"
| "truthy (JStr s) = (s \<noteq> [])"
| "truthy (JArr xs) = (xs \<noteq> [])"
| "truthy (JObj kvs) = (kvs \<noteq> [])"

text \<open>\<^verbatim>\<open>a == b\<close> on parsed JSON.\<close>

fun py_eq :: "json \<Rightarrow> json \<Rightarrow> bool"
and py_eq_list :: "json list \<Rightarrow> json list \<Rightarrow> bool"
and py_eq_items :: "(string \<times> json) list \<Rightarrow> (string \<times> json) list \<Rightarrow> bool" where
  "py_eq JNull b = (b = JNull)"
| "py_eq (JBool x) b =
     (case b of JBool y \<Rightarrow> x = y | JNum n \<Rightarrow> n = (if x then 1 else 0) | _ \<Rightarrow> False)"
| "py_eq (JNum m) b =
     (case b of JBool y \<Rightarrow> m = (if y then 1 else 0) | JNum n \<Rightarrow> m = n | _ \<Rightarrow> False)"
| "py_eq (JStr s) b = (b = JStr s)"
| "py_eq (JArr xs) b = (case b of JArr ys \<Rightarrow> py_eq_list xs ys | _ \<Rightarrow> False)"
| "py_eq (JObj kvs) b =
     (case b of JObj kws \<Rightarrow> length kvs = length kws \<and> py_eq_items kvs kws | _ \<Rightarrow> False)"
| "py_eq_list [] ys = (ys = [])"
| "py_eq_list (x # xs) ys =
     (case ys of [] \<Rightarrow> False | y # ys' \<Rightarrow> py_eq x y \<and> py_eq_list xs ys')"
| "py_eq_items [] kws = True"
| "py_eq_items ((k, v) # kvs) kws =
     (case map_of kws k of None \<Rightarrow> False | Some w \<Rightarrow> py_eq v w \<and> py_eq_items kvs kws)"

text \<open>\<^verbatim>\<open>v in xs\<close> for a Python list \<open>xs\<close>: a linear search with \<^verbatim>\<open>==\<close>.\<close>

definition list_member :: "json \<Rightarrow> json list \<Rightarrow> bool" where
  "list_member v xs = list_ex (py_eq v) xs"

text \<open>\<^verbatim>\<open>v in names\<close> for one of the constant tables of strings.\<close>

definition in_table :: "json \<Rightarrow> string list \<Rightarrow> bool" where
  "in_table v names = (case v of JStr s \<Rightarrow> s \<in> set names | _ \<Rightarrow> False)"

text \<open>
  A Python set of parsed values is the list of its members. Hashing a list or a dict
  raises \<^verbatim>\<open>TypeError\<close>, so membership and insertion are partial.
\<close>

fun hashable :: "json \<Rightarrow> bool" where
  "hashable (JArr xs) = False"
| "hashable (JObj kvs) = False"
| "hashable v = True"

definition set_member :: "json \<Rightarrow> json list \<Rightarrow> exn + bool" where
  "set_member v s = (if hashable v then Inr (list_member v s) else Inl TypeError)"

definition set_add :: "json \<Rightarrow> json list \<Rightarrow> json list" where
  "set_add v s = (if list_member v s then s else s @ [v])"

text \<open>\<^verbatim>\<open>key in v\<close> where nothing is known of \<open>v\<close>.\<close>

fun py_in :: "string \<Rightarrow> json \<Rightarrow> exn + bool" where
  "py_in k (JObj kvs) = Inr (map_of kvs k \<noteq> None)"
| "py_in k (JArr xs) = Inr (JStr k \<in> set xs)"
| "py_in k (JStr s) = Inr (sublist k s)"
| "py_in k v = Inl TypeError"

text \<open>\<^verbatim>\<open>v[key]\<close> with a string key.\<close>

fun py_item :: "json \<Rightarrow> string \<Rightarrow> exn + json" where
  "py_item (JObj kvs) k = (case map_of kvs k of None \<Rightarrow> Inl KeyError | Some v \<Rightarrow> Inr v)"
| "py_item v k = Inl TypeError"

text \<open>\<^verbatim>\<open>v.get(key, default)\<close>: only a dict has the method.\<close>

fun py_get :: "json \<Rightarrow> string \<Rightarrow> json \<Rightarrow> exn + json" where
  "py_get (JObj kvs) k d = Inr (case map_of kvs k of None \<Rightarrow> d | Some v \<Rightarrow> v)"
| "py_get v k d = Inl AttributeError"

text \<open>The same on a value already known to be a dict, given by its items.\<close>

definition get_or :: "(string \<times> json) list \<Rightarrow> string \<Rightarrow> json \<Rightarrow> json" where
  "get_or kvs k d = (case map_of kvs k of None \<Rightarrow> d | Some v \<Rightarrow> v)"

fun py_len :: "json \<Rightarrow> exn + nat" where
  "py_len (JStr s) = Inr (length s)"
| "py_len (JArr xs) = Inr (length xs)"
| "py_len (JObj kvs) = Inr (length kvs)"
| "py_len v = Inl TypeError"

text \<open>
  \<^verbatim>\<open>for x in v\<close>: a list gives its elements, a dict its keys and a string its
  characters; anything else is not iterable.
\<close>

fun py_iter :: "json \<Rightarrow> exn + json list" where
  "py_iter (JArr xs) = Inr xs"
| "py_iter (JObj kvs) = Inr (map (\<lambda>kv. JStr (fst kv)) kvs)"
| "py_iter (JStr s) = Inr (map (\<lambda>c. JStr [c]) s)"
| "py_iter v = Inl TypeError"

text \<open>A \<^verbatim>\<open>for idx, x in enumerate(xs)\<close> loop whose body may raise.\<close>

fun for_enum :: "(nat \<Rightarrow> 'a \<Rightarrow> 's \<Rightarrow> exn + 's) \<Rightarrow> nat \<Rightarrow> 'a list \<Rightarrow> 's \<Rightarrow> exn + 's" where
  "for_enum body i [] s = Inr s"
| "for_enum body i (x # xs) s =
     (case body i x s of Inl e \<Rightarrow> Inl e | Inr s' \<Rightarrow> for_enum body (Suc i) xs s')"

section \<open>Findings\<close>

text \<open>
  Every message the validators build is one constructor, carrying the values its f-string
  interpolates. The text itself is formatting. Where the source writes
  \<^verbatim>\<open>x.get('id', 'unknown')\<close> or \<^verbatim>\<open>x.get('id', idx)\<close> the interpolated value is a
  \<open>json\<close>: the id, the string, or the index as a number.
\<close>

datatype lineage_msg =
    ParentFileNotFound string
  | Recommendation string
  | FailedToReadParent
  | ParentMissingTimestamp
  | MissingMetadata
  | ParentTimestampMismatch
  | ExpectedLine json
  | ActualLine json
  | TimestampNotNewer
  | ParentLine json
  | CurrentLine json
  | InvalidTimestampFormat

datatype entity_msg =
    NoEntitiesFound
  | EntityNotObject nat
  | MissingRequiredField nat string
  | InvalidIdFormat json
  | DuplicateId json
  | UnknownType json json
  | RepositoriesNotArray json
  | RepositoriesEmpty json
  | RepositoryNotFound json json
  | ParentEntityNotFound json json
  | AvailableLine "json list"
  | MustBeObject json string
  | MissingSubfield json string
  | UnknownEnvironment json json
  | EmptyFiles json

datatype observation_msg =
    ObservationsNotArray json
  | ObservationNotObject json nat
  | ObservationMissing json nat string
  | DuplicateObservationId json json
  | UnknownCategory json json
  | InvalidSeverity json json
  | ShortObservationDescription json json

datatype relation_msg =
    RelationsNotArray json
  | RelationNotObject json nat
  | RelationMissing json nat string
  | DuplicateRelationId json json
  | UnknownRelationType json json
  | InvalidCoupling json json
  | SelfReference json json
  | SourceNotFound json json
  | TargetNotFound json json
  | ShortRelationDescription json "json option"
  | CircularDependency "json list"
  | HighTightCoupling nat nat

datatype msg =
    Lineage lineage_msg
  | Entity entity_msg
  | Observation observation_msg
  | Relation relation_msg
  | NoObservations json
  | NoRelations json
  | NoChildren json
  | InvalidJSON
  | FailedToReadInput

text \<open>The two accumulators \<^verbatim>\<open>errors\<close> and \<^verbatim>\<open>warnings\<close> of a checker.\<close>

record findings =
  errors :: "msg list"
  warnings :: "msg list"

definition no_findings :: findings where
  "no_findings = \<lparr>errors = [], warnings = []\<rparr>"

definition add_error :: "msg \<Rightarrow> findings \<Rightarrow> findings" where
  "add_error m st = st\<lparr>errors := errors st @ [m]\<rparr>"

definition add_warning :: "msg \<Rightarrow> findings \<Rightarrow> findings" where
  "add_warning m st = st\<lparr>warnings := warnings st @ [m]\<rparr>"

text \<open>
  \<^verbatim>\<open>for field in required_fields: if field not in x: errors.append(...)\<close>, for a dict
  \<open>x\<close> given by its items.
\<close>

definition check_required ::
  "(string \<Rightarrow> msg) \<Rightarrow> string list \<Rightarrow> (string \<times> json) list \<Rightarrow> findings \<Rightarrow> findings" where
  "check_required mk required kvs st =
     fold (\<lambda>f s. if map_of kvs f = None then add_error (mk f) s else s) required st"

text \<open>\<^verbatim>\<open>return len(errors) == 0, errors, warnings\<close>.\<close>

definition finish :: "findings \<Rightarrow> bool \<times> msg list \<times> msg list" where
  "finish st = (errors st = [], errors st, warnings st)"

section \<open>Observations\<close>

definition OBSERVATION_CATEGORIES_C1 :: "string list" where
  "OBSERVATION_CATEGORIES_C1 =
     [''architectural'', ''technical'', ''quality'', ''security'',
      ''performance'', ''scalability'', ''maintainability'', ''integration'',
      ''deployment'', ''data'', ''testing'', ''documentation'']"

definition OBSERVATION_CATEGORIES_C2 :: "string list" where
  "OBSERVATION_CATEGORIES_C2 =
     [''architectural'', ''technical'', ''quality'', ''security'',
      ''performance'', ''scalability'', ''maintainability'', ''integration'',
      ''deployment'', ''data'', ''testing'', ''documentation'', ''technology'',
      ''runtime'', ''communication'', ''data-storage'', ''authentication'',
      ''configuration'', ''monitoring'', ''dependencies'']"

definition OBSERVATION_CATEGORIES_C3 :: "string list" where
  "OBSERVATION_CATEGORIES_C3 =
     [''design-patterns'', ''code-quality'', ''dependencies'', ''testing'',
      ''complexity'', ''maintainability'', ''code-structure'', ''error-handling'',
      ''performance'', ''security'', ''documentation'', ''coupling'', ''cohesion'']"

definition OBSERVATION_SEVERITIES :: "string list" where
  "OBSERVATION_SEVERITIES = [''info'', ''warning'', ''critical'']"

text \<open>
  \<^verbatim>\<open>validate_observations\<close> is the same function in the three scripts but for the
  category table and the word (System, Container, Component) in its messages. Each
  commented block of its inner loop is one definition here; \<open>kvs\<close> is the observation (a
  dict), \<open>eid\<close> the id of the entity and \<open>idx\<close> the index of the observation.
\<close>

text \<open>\<^verbatim>\<open># Validate ID uniqueness\<close>: the state is the accumulators and \<^verbatim>\<open>seen_obs_ids\<close>.\<close>

definition observation_id_check ::
  "json \<Rightarrow> (string \<times> json) list \<Rightarrow> findings \<times> json list \<Rightarrow> exn + findings \<times> json list" where
  "observation_id_check eid kvs acc =
     (case map_of kvs ''id'' of
        None \<Rightarrow> Inr acc
      | Some obs_id \<Rightarrow>
          bnd (set_member obs_id (snd acc)) (\<lambda>dup.
            Inr (if dup then add_error (Observation (DuplicateObservationId eid obs_id)) (fst acc)
                 else fst acc,
                 set_add obs_id (snd acc))))"

text \<open>\<^verbatim>\<open># Validate category\<close>\<close>

definition observation_category_check ::
  "string list \<Rightarrow> json \<Rightarrow> (string \<times> json) list \<Rightarrow> findings \<Rightarrow> findings" where
  "observation_category_check cats eid kvs st =
     (case map_of kvs ''category'' of
        None \<Rightarrow> st
      | Some c \<Rightarrow>
          if \<not> in_table c cats then add_warning (Observation (UnknownCategory eid c)) st
          else st)"

text \<open>\<^verbatim>\<open># Validate severity\<close>\<close>

definition observation_severity_check ::
  "json \<Rightarrow> (string \<times> json) list \<Rightarrow> findings \<Rightarrow> findings" where
  "observation_severity_check eid kvs st =
     (case map_of kvs ''severity'' of
        None \<Rightarrow> st
      | Some sv \<Rightarrow>
          if \<not> in_table sv OBSERVATION_SEVERITIES
          then add_error (Observation (InvalidSeverity eid sv)) st
          else st)"

text \<open>\<^verbatim>\<open># Validate description length\<close>: \<^verbatim>\<open>len\<close> may raise.\<close>

definition observation_description_check ::
  "json \<Rightarrow> nat \<Rightarrow> (string \<times> json) list \<Rightarrow> findings \<Rightarrow> exn + findings" where
  "observation_description_check eid idx kvs st =
     (case map_of kvs ''description'' of
        None \<Rightarrow> Inr st
      | Some d \<Rightarrow>
          bnd (py_len d) (\<lambda>n.
            Inr (if n < 10
                 then add_warning
                        (Observation (ShortObservationDescription eid
                           (get_or kvs ''id'' (JNum (of_nat idx))))) st
                 else st)))"

text \<open>The body of the inner loop.\<close>

definition observation_step ::
  "string list \<Rightarrow> json \<Rightarrow> nat \<Rightarrow> json \<Rightarrow> findings \<times> json list \<Rightarrow> exn + findings \<times> json list" where
  "observation_step cats eid idx obs acc =
     (case obs of
        JObj kvs \<Rightarrow>
          bnd (observation_id_check eid kvs
                 (check_required (\<lambda>f. Observation (ObservationMissing eid idx f))
                    [''id'', ''category'', ''description''] kvs (fst acc), snd acc))
            (\<lambda>acc2.
               bnd (observation_description_check eid idx kvs
                      (observation_severity_check eid kvs
                         (observation_category_check cats eid kvs (fst acc2))))
                 (\<lambda>st5. Inr (st5, snd acc2)))
      | _ \<Rightarrow> Inr (add_error (Observation (ObservationNotObject eid idx)) (fst acc), snd acc))"

text \<open>The body of the outer loop, for one entity.\<close>

definition entity_observations :: "string list \<Rightarrow> json \<Rightarrow> findings \<Rightarrow> exn + findings" where
  "entity_observations cats entity st =
     (case entity of
        JObj kvs \<Rightarrow>
          let eid = get_or kvs ''id'' (JStr ''unknown'');
              observations = get_or kvs ''observations'' (JArr [])
          in (case observations of
                JArr obs \<Rightarrow>
                  bnd (for_enum (observation_step cats eid) 0 obs (st, [])) (\<lambda>r. Inr (fst r))
              | _ \<Rightarrow> Inr (add_error (Observation (ObservationsNotArray eid)) st))
      | _ \<Rightarrow> Inr st)"

definition validate_observations ::
  "string list \<Rightarrow> json \<Rightarrow> exn + bool \<times> msg list \<times> msg list" where
  "validate_observations cats entities =
     bnd (py_iter entities) (\<lambda>es.
     bnd (for_enum (\<lambda>i. entity_observations cats) 0 es no_findings) (\<lambda>st.
     Inr (finish st)))"

definition validate_observations_c1 :: "json \<Rightarrow> exn + bool \<times> msg list \<times> msg list" where
  "validate_observations_c1 systems = validate_observations OBSERVATION_CATEGORIES_C1 systems"

definition validate_observations_c2 :: "json \<Rightarrow> exn + bool \<times> msg list \<times> msg list" where
  "validate_observations_c2 containers =
     validate_observations OBSERVATION_CATEGORIES_C2 containers"

definition validate_observations_c3 :: "json \<Rightarrow> exn + bool \<times> msg list \<times> msg list" where
  "validate_observations_c3 components =
     validate_observations OBSERVATION_CATEGORIES_C3 components"

section \<open>Entities: systems, containers, components\<close>

definition ALLOWED_SYSTEM_TYPES :: "string list" where
  "ALLOWED_SYSTEM_TYPES =
     [''web-application'', ''mobile-application'', ''desktop-application'',
      ''api-service'', ''database'', ''message-broker'', ''cache'', ''cdn'',
      ''external-service'', ''user-facing'', ''internal-service'',
      ''data-store'', ''integration'', ''other'']"

definition ALLOWED_CONTAINER_TYPES :: "string list" where
  "ALLOWED_CONTAINER_TYPES =
     [''web-server'', ''app-server'', ''database'', ''cache'', ''message-broker'',
      ''spa'', ''api'', ''worker'', ''file-storage'', ''web-application'',
      ''application-server'', ''spa-client'', ''mobile-app'', ''desktop-app'']"

definition ALLOWED_ENVIRONMENTS :: "string list" where
  "ALLOWED_ENVIRONMENTS = [''browser'', ''server'', ''cloud'', ''edge'', ''mobile'']"

definition ALLOWED_COMPONENT_TYPES :: "string list" where
  "ALLOWED_COMPONENT_TYPES =
     [''service'', ''controller'', ''repository'', ''model'', ''utility'',
      ''middleware'', ''view'', ''component'', ''config'', ''facade'',
      ''factory'', ''adapter'']"

text \<open>
  \<^verbatim>\<open>ID_PATTERN.match(s)\<close> for \<^verbatim>\<open>^[a-z0-9]+(-[a-z0-9]+)*$\<close>: tokens of lowercase
  letters and digits joined by single hyphens. \<^verbatim>\<open>$\<close> also matches before a final
  newline. The flag says whether the current token already has a character. Matching
  anything but a string raises.
\<close>

definition is_id_char :: "char \<Rightarrow> bool" where
  "is_id_char c = (c \<in> set ''abcdefghijklmnopqrstuvwxyz0123456789'')"

fun id_tokens :: "bool \<Rightarrow> string \<Rightarrow> bool" where
  "id_tokens in_token [] = in_token"
| "id_tokens in_token (c # cs) =
     (if is_id_char c then id_tokens True cs
      else if c = CHR ''-'' \<and> in_token then id_tokens False cs
      else c = CHR 0x0A \<and> in_token \<and> cs = [])"

definition id_pattern_match :: "json \<Rightarrow> exn + bool" where
  "id_pattern_match v = (case v of JStr s \<Rightarrow> Inr (id_tokens False s) | _ \<Rightarrow> Inl TypeError)"

text \<open>
  \<^verbatim>\<open># Validate ID\<close>: the pattern, then the duplicate check against \<^verbatim>\<open>seen_ids\<close>.
  The three scripts share the block.
\<close>

definition entity_id_check ::
  "(string \<times> json) list \<Rightarrow> findings \<times> json list \<Rightarrow> exn + findings \<times> json list" where
  "entity_id_check kvs acc =
     (case map_of kvs ''id'' of
        None \<Rightarrow> Inr acc
      | Some eid \<Rightarrow>
          bnd (id_pattern_match eid) (\<lambda>matches.
          bnd (set_member eid (snd acc)) (\<lambda>dup.
            Inr ((if dup then add_error (Entity (DuplicateId eid)) else id)
                   ((if \<not> matches then add_error (Entity (InvalidIdFormat eid)) else id)
                      (fst acc)),
                 set_add eid (snd acc)))))"

text \<open>\<^verbatim>\<open># Validate type\<close>\<close>

definition entity_type_check ::
  "string list \<Rightarrow> (string \<times> json) list \<Rightarrow> findings \<Rightarrow> findings" where
  "entity_type_check types kvs st =
     (case map_of kvs ''type'' of
        None \<Rightarrow> st
      | Some t \<Rightarrow>
          if \<not> in_table t types
          then add_warning (Entity (UnknownType t (get_or kvs ''id'' (JStr ''unknown'')))) st
          else st)"

text \<open>
  \<^verbatim>\<open># Validate repositories array\<close> (C1): every entry that is not among the names of
  \<^verbatim>\<open>init.json\<close> is appended to \<^verbatim>\<open>warnings\<close>.
\<close>

definition system_repositories_check ::
  "json list \<Rightarrow> nat \<Rightarrow> (string \<times> json) list \<Rightarrow> findings \<Rightarrow> findings" where
  "system_repositories_check init_repos idx kvs st =
     (case map_of kvs ''repositories'' of
        None \<Rightarrow> st
      | Some repos \<Rightarrow>
          (case repos of
             JArr rs \<Rightarrow>
               if rs = []
               then add_error (Entity (RepositoriesEmpty (get_or kvs ''id'' (JNum (of_nat idx))))) st
               else fold (\<lambda>repo s.
                            if \<not> list_member repo init_repos
                            then add_warning
                                   (Entity (RepositoryNotFound
                                      (get_or kvs ''id'' (JNum (of_nat idx))) repo)) s
                            else s) rs st
           | _ \<Rightarrow>
               add_error (Entity (RepositoriesNotArray (get_or kvs ''id'' (JNum (of_nat idx))))) st))"

definition system_step ::
  "json list \<Rightarrow> nat \<Rightarrow> json \<Rightarrow> findings \<times> json list \<Rightarrow> exn + findings \<times> json list" where
  "system_step init_repos idx system acc =
     (case system of
        JObj kvs \<Rightarrow>
          bnd (entity_id_check kvs
                 (check_required (\<lambda>f. Entity (MissingRequiredField idx f))
                    [''id'', ''name'', ''type'', ''repositories'', ''description'',
                     ''observations'', ''relations''] kvs (fst acc), snd acc))
            (\<lambda>acc2.
               Inr (system_repositories_check init_repos idx kvs
                      (entity_type_check ALLOWED_SYSTEM_TYPES kvs (fst acc2)),
                    snd acc2))
      | _ \<Rightarrow> Inr (add_error (Entity (EntityNotObject idx)) (fst acc), snd acc))"

text \<open>
  \<^verbatim>\<open>validate_systems(systems, init_repos)\<close>. A falsy \<^verbatim>\<open>systems\<close> is the early
  return; otherwise \<^verbatim>\<open>enumerate(systems)\<close> iterates it.
\<close>

definition validate_systems :: "json \<Rightarrow> json list \<Rightarrow> exn + bool \<times> msg list \<times> msg list" where
  "validate_systems systems init_repos =
     (if \<not> truthy systems then Inr (False, [Entity NoEntitiesFound], [])
      else bnd (py_iter systems) (\<lambda>xs.
           bnd (for_enum (system_step init_repos) 0 xs (no_findings, [])) (\<lambda>acc.
           Inr (finish (fst acc)))))"

text \<open>
  \<^verbatim>\<open># Validate system_id\<close> (C2) and \<^verbatim>\<open># Validate container_id\<close> (C3): the
  entity's parent id must be in the set of ids read from the parent document; if not, two
  lines go to \<^verbatim>\<open>errors\<close>. The second joins the sorted ids with \<^verbatim>\<open>', '\<close>, which raises
  unless all of them are strings; the message carries the ids, their sorting being part
  of the rendering.
\<close>

fun is_str :: "json \<Rightarrow> bool" where
  "is_str (JStr s) = True"
| "is_str v = False"

definition available_line :: "json list \<Rightarrow> exn + msg" where
  "available_line ids =
     (if list_all is_str ids then Inr (Entity (AvailableLine ids)) else Inl TypeError)"

definition parent_id_check ::
  "string \<Rightarrow> json list \<Rightarrow> nat \<Rightarrow> (string \<times> json) list \<Rightarrow> findings \<Rightarrow> exn + findings" where
  "parent_id_check key parent_ids idx kvs st =
     (case map_of kvs key of
        None \<Rightarrow> Inr st
      | Some pid \<Rightarrow>
          bnd (set_member pid parent_ids) (\<lambda>found.
            if \<not> found
            then bnd (available_line parent_ids) (\<lambda>line.
                   Inr (add_error line
                          (add_error
                             (Entity (ParentEntityNotFound
                                (get_or kvs ''id'' (JNum (of_nat idx))) pid)) st)))
            else Inr st))"

text \<open>\<^verbatim>\<open># Validate technology\<close> (C2)\<close>

definition container_technology_check ::
  "nat \<Rightarrow> (string \<times> json) list \<Rightarrow> findings \<Rightarrow> findings" where
  "container_technology_check idx kvs st =
     (case map_of kvs ''technology'' of
        None \<Rightarrow> st
      | Some tech \<Rightarrow>
          (case tech of
             JObj t \<Rightarrow>
               (if map_of t ''framework'' = None
                then add_error (Entity (MissingSubfield (get_or kvs ''id'' (JNum (of_nat idx)))
                                 ''technology.framework''))
                else id)
                 ((if map_of t ''primary_language'' = None
                   then add_error (Entity (MissingSubfield (get_or kvs ''id'' (JNum (of_nat idx)))
                                    ''technology.primary_language''))
                   else id) st)
           | _ \<Rightarrow>
               add_error (Entity (MustBeObject (get_or kvs ''id'' (JNum (of_nat idx)))
                            ''technology'')) st))"

text \<open>\<^verbatim>\<open># Validate runtime\<close> (C2)\<close>

definition container_runtime_check ::
  "nat \<Rightarrow> (string \<times> json) list \<Rightarrow> findings \<Rightarrow> findings" where
  "container_runtime_check idx kvs st =
     (case map_of kvs ''runtime'' of
        None \<Rightarrow> st
      | Some runtime \<Rightarrow>
          (case runtime of
             JObj r \<Rightarrow>
               (case map_of r ''containerized'' of
                  None \<Rightarrow>
                    add_error (Entity (MissingSubfield (get_or kvs ''id'' (JNum (of_nat idx)))
                                 ''runtime.containerized''))
                | Some c \<Rightarrow>
                    if truthy c \<and> map_of r ''container_technology'' = None
                    then add_error (Entity (MissingSubfield
                                      (get_or kvs ''id'' (JNum (of_nat idx)))
                                      ''runtime.container_technology''))
                    else id)
                 ((if map_of r ''platform'' = None
                   then add_error (Entity (MissingSubfield (get_or kvs ''id'' (JNum (of_nat idx)))
                                    ''runtime.platform''))
                   else id)
                    ((case map_of r ''environment'' of
                        None \<Rightarrow>
                          add_error (Entity (MissingSubfield
                                       (get_or kvs ''id'' (JNum (of_nat idx)))
                                       ''runtime.environment''))
                      | Some e \<Rightarrow>
                          if \<not> in_table e ALLOWED_ENVIRONMENTS
                          then add_warning (Entity (UnknownEnvironment
                                              (get_or kvs ''id'' (JNum (of_nat idx))) e))
                          else id) st))
           | _ \<Rightarrow>
               add_error (Entity (MustBeObject (get_or kvs ''id'' (JNum (of_nat idx)))
                            ''runtime'')) st))"

definition container_step ::
  "json list \<Rightarrow> nat \<Rightarrow> json \<Rightarrow> findings \<times> json list \<Rightarrow> exn + findings \<times> json list" where
  "container_step c1_system_ids idx container acc =
     (case container of
        JObj kvs \<Rightarrow>
          bnd (entity_id_check kvs
                 (check_required (\<lambda>f. Entity (MissingRequiredField idx f))
                    [''id'', ''name'', ''type'', ''system_id'', ''responsibility'',
                     ''technology'', ''runtime''] kvs (fst acc), snd acc))
            (\<lambda>acc2.
               bnd (parent_id_check ''system_id'' c1_system_ids idx kvs
                      (entity_type_check ALLOWED_CONTAINER_TYPES kvs (fst acc2)))
                 (\<lambda>st4.
                    Inr (container_runtime_check idx kvs
                           (container_technology_check idx kvs st4),
                         snd acc2)))
      | _ \<Rightarrow> Inr (add_error (Entity (EntityNotObject idx)) (fst acc), snd acc))"

definition validate_containers ::
  "json \<Rightarrow> json list \<Rightarrow> exn + bool \<times> msg list \<times> msg list" where
  "validate_containers containers c1_system_ids =
     (if \<not> truthy containers then Inr (False, [Entity NoEntitiesFound], [])
      else bnd (py_iter containers) (\<lambda>xs.
           bnd (for_enum (container_step c1_system_ids) 0 xs (no_findings, [])) (\<lambda>acc.
           Inr (finish (fst acc)))))"

text \<open>\<^verbatim>\<open># Validate structure\<close> (C3)\<close>

definition component_structure_check ::
  "nat \<Rightarrow> (string \<times> json) list \<Rightarrow> findings \<Rightarrow> findings" where
  "component_structure_check idx kvs st =
     (case map_of kvs ''structure'' of
        None \<Rightarrow> st
      | Some struct \<Rightarrow>
          (case struct of
             JObj s \<Rightarrow>
               (case map_of s ''files'' of
                  Some (JArr []) \<Rightarrow>
                    add_warning (Entity (EmptyFiles (get_or kvs ''id'' (JNum (of_nat idx)))))
                | _ \<Rightarrow> id)
                 ((if map_of s ''language'' = None
                   then add_error (Entity (MissingSubfield (get_or kvs ''id'' (JNum (of_nat idx)))
                                    ''structure.language''))
                   else id)
                    ((if map_of s ''path'' = None
                      then add_error (Entity (MissingSubfield
                                        (get_or kvs ''id'' (JNum (of_nat idx)))
                                        ''structure.path''))
                      else id) st))
           | _ \<Rightarrow>
               add_error (Entity (MustBeObject (get_or kvs ''id'' (JNum (of_nat idx)))
                            ''structure'')) st))"

definition component_step ::
  "json list \<Rightarrow> nat \<Rightarrow> json \<Rightarrow> findings \<times> json list \<Rightarrow> exn + findings \<times> json list" where
  "component_step c2_container_ids idx component acc =
     (case component of
        JObj kvs \<Rightarrow>
          bnd (entity_id_check kvs
                 (check_required (\<lambda>f. Entity (MissingRequiredField idx f))
                    [''id'', ''name'', ''type'', ''container_id'', ''responsibility'',
                     ''structure''] kvs (fst acc), snd acc))
            (\<lambda>acc2.
               bnd (parent_id_check ''container_id'' c2_container_ids idx kvs
                      (entity_type_check ALLOWED_COMPONENT_TYPES kvs (fst acc2)))
                 (\<lambda>st4. Inr (component_structure_check idx kvs st4, snd acc2)))
      | _ \<Rightarrow> Inr (add_error (Entity (EntityNotObject idx)) (fst acc), snd acc))"

definition validate_components ::
  "json \<Rightarrow> json list \<Rightarrow> exn + bool \<times> msg list \<times> msg list" where
  "validate_components components c2_container_ids =
     (if \<not> truthy components then Inr (False, [Entity NoEntitiesFound], [])
      else bnd (py_iter components) (\<lambda>xs.
           bnd (for_enum (component_step c2_container_ids) 0 xs (no_findings, [])) (\<lambda>acc.
           Inr (finish (fst acc)))))"

section \<open>Relations\<close>

definition RELATION_TYPES_C1 :: "string list" where
  "RELATION_TYPES_C1 =
     [''http-rest'', ''http-graphql'', ''http-soap'', ''grpc'', ''websocket'',
      ''message-queue'', ''event-stream'', ''database-query'', ''database-write'',
      ''file-io'', ''dependency'', ''inheritance'', ''composition'', ''aggregation'',
      ''uses'', ''calls'', ''contains'', ''http'', ''https'', ''graphql'', ''rpc'',
      ''database-connection'', ''file-transfer'', ''authentication'', ''soap'',
      ''smtp'', ''external-api'']"

definition RELATION_TYPES_C2 :: "string list" where
  "RELATION_TYPES_C2 =
     [''http-rest'', ''http-graphql'', ''grpc'', ''websocket'',
      ''database-connection'', ''database-query'', ''database-write'',
      ''database-read-write'', ''cache-access'', ''cache-read'', ''cache-write'',
      ''cache-read-write'', ''message-publish'', ''message-subscribe'',
      ''message-consumer'', ''file-read'', ''file-write'', ''cdn-fetch'', ''stream'',
      ''dependency'', ''uses'', ''calls'', ''contains'']"

definition RELATION_TYPES_C3 :: "string list" where
  "RELATION_TYPES_C3 =
     [''dependency'', ''interface-implementation'', ''event-publisher'',
      ''event-subscriber'', ''uses'', ''calls'', ''imports'', ''injects'', ''observes'',
      ''delegates'', ''provides'', ''consumes'', ''inherits'', ''implements'',
      ''composes'', ''aggregates'', ''notifies'', ''extends'']"

definition COUPLING_TYPES :: "string list" where
  "COUPLING_TYPES = [''loose'', ''tight'']"

text \<open>
  \<^verbatim>\<open>{e.get("id") for e in entities if isinstance(e, dict) and "id" in e}\<close>: the set
  of entity ids, here in the order of first insertion. Building it iterates the entities
  and hashes every id.
\<close>

definition collect_id :: "nat \<Rightarrow> json \<Rightarrow> json list \<Rightarrow> exn + json list" where
  "collect_id i entity ids =
     (case entity of
        JObj kvs \<Rightarrow>
          (case map_of kvs ''id'' of
             None \<Rightarrow> Inr ids
           | Some v \<Rightarrow> if hashable v then Inr (set_add v ids) else Inl TypeError)
      | _ \<Rightarrow> Inr ids)"

definition collect_ids :: "json \<Rightarrow> exn + json list" where
  "collect_ids entities = bnd (py_iter entities) (\<lambda>xs. for_enum collect_id 0 xs [])"

text \<open>\<^verbatim>\<open># Validate ID uniqueness within system\<close> (C1 only)\<close>

definition relation_id_check ::
  "json \<Rightarrow> (string \<times> json) list \<Rightarrow> findings \<times> json list \<Rightarrow> exn + findings \<times> json list" where
  "relation_id_check eid kvs acc =
     (case map_of kvs ''id'' of
        None \<Rightarrow> Inr acc
      | Some rel_id \<Rightarrow>
          bnd (set_member rel_id (snd acc)) (\<lambda>dup.
            Inr (if dup then add_error (Relation (DuplicateRelationId eid rel_id)) (fst acc)
                 else fst acc,
                 set_add rel_id (snd acc))))"

text \<open>\<^verbatim>\<open># Validate type\<close>\<close>

definition relation_type_check ::
  "string list \<Rightarrow> json \<Rightarrow> (string \<times> json) list \<Rightarrow> findings \<Rightarrow> findings" where
  "relation_type_check types eid kvs st =
     (case map_of kvs ''type'' of
        None \<Rightarrow> st
      | Some t \<Rightarrow>
          if \<not> in_table t types then add_warning (Relation (UnknownRelationType eid t)) st
          else st)"

text \<open>
  \<^verbatim>\<open># Validate description length\<close>. The C1 message names the relation
  (\<^verbatim>\<open>rel.get('id', idx)\<close>), the C2 and C3 messages do not.
\<close>

definition relation_description_check ::
  "json \<Rightarrow> json option \<Rightarrow> (string \<times> json) list \<Rightarrow> findings \<Rightarrow> exn + findings" where
  "relation_description_check eid label kvs st =
     (case map_of kvs ''description'' of
        None \<Rightarrow> Inr st
      | Some d \<Rightarrow>
          bnd (py_len d) (\<lambda>n.
            Inr (if n < 10 then add_warning (Relation (ShortRelationDescription eid label)) st
                 else st)))"

subsection \<open>C1: sources, targets and the dependency graph\<close>

text \<open>
  \<^verbatim>\<open>graph\<close> is a dict from each system id to the list of its targets; its keys are
  in the order in which Python iterates the set \<^verbatim>\<open>system_ids\<close>.
\<close>

type_synonym graph = "(json \<times> json list) list"

definition graph_has :: "graph \<Rightarrow> json \<Rightarrow> bool" where
  "graph_has g v = list_ex (\<lambda>kn. py_eq v (fst kn)) g"

definition graph_get :: "graph \<Rightarrow> json \<Rightarrow> json list" where
  "graph_get g v = (case find (\<lambda>kn. py_eq v (fst kn)) g of None \<Rightarrow> [] | Some kn \<Rightarrow> snd kn)"

definition graph_append :: "graph \<Rightarrow> json \<Rightarrow> json \<Rightarrow> graph" where
  "graph_append g source target =
     map (\<lambda>kn. if py_eq source (fst kn) then (fst kn, snd kn @ [target]) else kn) g"

text \<open>
  \<^verbatim>\<open># Validate source and target\<close>: only when both are truthy. A source or target that
  is not a system id is appended to \<^verbatim>\<open>warnings\<close>, whatever it looks like; the edge
  enters the graph when both ends are system ids.
\<close>

definition relation_endpoints_check ::
  "json list \<Rightarrow> json \<Rightarrow> nat \<Rightarrow> (string \<times> json) list \<Rightarrow> findings \<times> graph \<Rightarrow>
   exn + findings \<times> graph" where
  "relation_endpoints_check system_ids eid idx kvs acc =
     (let source = get_or kvs ''source'' JNull; target = get_or kvs ''target'' JNull
      in if truthy source \<and> truthy target
         then bnd (set_member source system_ids) (\<lambda>source_known.
              bnd (set_member target system_ids) (\<lambda>target_known.
                Inr ((if \<not> target_known
                      then add_warning (Relation (TargetNotFound eid target)) else id)
                       ((if \<not> source_known
                         then add_warning (Relation (SourceNotFound eid source)) else id)
                          ((if py_eq source target
                            then add_warning
                                   (Relation (SelfReference eid
                                      (get_or kvs ''id'' (JNum (of_nat idx)))))
                            else id) (fst acc))),
                     if graph_has (snd acc) source \<and> target_known
                     then graph_append (snd acc) source target else snd acc)))
         else Inr acc)"

text \<open>The body of the loop over one system's relations; the state is the accumulators,
  the graph and \<^verbatim>\<open>seen_rel_ids\<close>.\<close>

definition relation_step_c1 ::
  "json list \<Rightarrow> json \<Rightarrow> nat \<Rightarrow> json \<Rightarrow> (findings \<times> graph) \<times> json list \<Rightarrow>
   exn + (findings \<times> graph) \<times> json list" where
  "relation_step_c1 system_ids eid idx rel acc =
     (case rel of
        JObj kvs \<Rightarrow>
          bnd (relation_id_check eid kvs
                 (check_required (\<lambda>f. Relation (RelationMissing eid idx f))
                    [''id'', ''source'', ''target'', ''type'', ''description'']
                    kvs (fst (fst acc)), snd acc))
            (\<lambda>acc2.
               bnd (relation_endpoints_check system_ids eid idx kvs
                      (relation_type_check RELATION_TYPES_C1 eid kvs (fst acc2),
                       snd (fst acc)))
                 (\<lambda>acc3.
                    bnd (relation_description_check eid
                           (Some (get_or kvs ''id'' (JNum (of_nat idx)))) kvs (fst acc3))
                      (\<lambda>st5. Inr ((st5, snd acc3), snd acc2))))
      | _ \<Rightarrow>
          Inr ((add_error (Relation (RelationNotObject eid idx)) (fst (fst acc)),
                snd (fst acc)), snd acc))"

definition entity_relations_c1 ::
  "json list \<Rightarrow> nat \<Rightarrow> json \<Rightarrow> findings \<times> graph \<Rightarrow> exn + findings \<times> graph" where
  "entity_relations_c1 system_ids i system acc =
     (case system of
        JObj kvs \<Rightarrow>
          (case get_or kvs ''relations'' (JArr []) of
             JArr rels \<Rightarrow>
               bnd (for_enum (relation_step_c1 system_ids (get_or kvs ''id'' (JStr ''unknown'')))
                      0 rels (acc, []))
                 (\<lambda>r. Inr (fst r))
           | _ \<Rightarrow>
               Inr (add_error (Relation (RelationsNotArray
                                (get_or kvs ''id'' (JStr ''unknown'')))) (fst acc),
                    snd acc))
      | _ \<Rightarrow> Inr acc)"

text \<open>
  \<^verbatim>\<open>has_cycle(node, visited, rec_stack, path)\<close>: the depth-first search.
  \<^verbatim>\<open>visited\<close> and \<^verbatim>\<open>rec_stack\<close> are sets shared with the caller, so the function
  returns them updated; \<^verbatim>\<open>path\<close> is copied for every call. The result is the cycle
  path, if one was found. Python bounds the depth of the recursion: the first argument is
  the number of frames still available, and running out of them raises
  \<^verbatim>\<open>RecursionError\<close>. \<open>visit_neighbors\<close> is the \<^verbatim>\<open>for neighbor in ...\<close> loop.
\<close>

fun index_of :: "json \<Rightarrow> json list \<Rightarrow> nat option" where
  "index_of v [] = None"
| "index_of v (x # xs) =
     (if py_eq x v then Some 0 else map_option Suc (index_of v xs))"

definition set_remove :: "json \<Rightarrow> json list \<Rightarrow> exn + json list" where
  "set_remove v s =
     (if list_member v s then Inr (filter (\<lambda>x. \<not> py_eq v x) s) else Inl KeyError)"

fun has_cycle ::
  "nat \<Rightarrow> graph \<Rightarrow> json \<Rightarrow> json list \<times> json list \<Rightarrow> json list \<Rightarrow>
   exn + json list option \<times> json list \<times> json list"
and visit_neighbors ::
  "nat \<Rightarrow> graph \<Rightarrow> json \<Rightarrow> json list \<Rightarrow> json list \<times> json list \<Rightarrow> json list \<Rightarrow>
   exn + json list option \<times> json list \<times> json list" where
  "has_cycle 0 g node sets path = Inl RecursionError"
| "has_cycle (Suc d) g node sets path =
     visit_neighbors d g node (graph_get g node)
       (set_add node (fst sets), set_add node (snd sets)) (path @ [node])"
| "visit_neighbors d g node [] sets path =
     bnd (set_remove node (snd sets)) (\<lambda>rec_stack. Inr (None, fst sets, rec_stack))"
| "visit_neighbors d g node (neighbor # rest) sets path =
     (if \<not> list_member neighbor (fst sets)
      then (case has_cycle d g neighbor sets path of
              Inl e \<Rightarrow> Inl e
            | Inr (Some cycle_path, sets') \<Rightarrow> Inr (Some cycle_path, sets')
            | Inr (None, sets') \<Rightarrow> visit_neighbors d g node rest sets' path)
      else if list_member neighbor (snd sets)
      then (case index_of neighbor path of
              None \<Rightarrow> Inl ValueError
            | Some cycle_start \<Rightarrow> Inr (Some (drop cycle_start path @ [neighbor]), sets))
      else visit_neighbors d g node rest sets path)"

text \<open>
  The loop over the roots: \<^verbatim>\<open>for node in graph: if node not in visited: ...\<close>, each
  root with a fresh \<^verbatim>\<open>rec_stack\<close> and an empty path. A cycle found goes to
  \<^verbatim>\<open>warnings\<close>; joining its path raises unless every node is a string.
\<close>

definition cycle_root_step ::
  "nat \<Rightarrow> graph \<Rightarrow> nat \<Rightarrow> json \<Rightarrow> findings \<times> json list \<Rightarrow> exn + findings \<times> json list" where
  "cycle_root_step depth g i node acc =
     (if \<not> list_member node (snd acc)
      then bnd (has_cycle depth g node (snd acc, []) []) (\<lambda>r.
             case fst r of
               None \<Rightarrow> Inr (fst acc, fst (snd r))
             | Some cycle_path \<Rightarrow>
                 if list_all is_str cycle_path
                 then Inr (add_warning (Relation (CircularDependency cycle_path)) (fst acc),
                           fst (snd r))
                 else Inl TypeError)
      else Inr acc)"

text \<open>
  \<^verbatim>\<open>validate_relations(systems)\<close> of the C1 script. \<open>set_order\<close> is the order in which
  Python iterates a set (for strings it depends on the hash seed of the process) and
  \<open>depth\<close> the recursion depth available to \<^verbatim>\<open>has_cycle\<close>.
\<close>

definition validate_relations_c1 ::
  "(json list \<Rightarrow> json list) \<Rightarrow> nat \<Rightarrow> json \<Rightarrow> exn + bool \<times> msg list \<times> msg list" where
  "validate_relations_c1 set_order depth systems =
     bnd (collect_ids systems) (\<lambda>system_ids.
     bnd (py_iter systems) (\<lambda>xs.
     bnd (for_enum (entity_relations_c1 system_ids) 0 xs
            (no_findings, map (\<lambda>sys_id. (sys_id, [])) (set_order system_ids))) (\<lambda>acc.
     bnd (for_enum (cycle_root_step depth (snd acc)) 0 (map fst (snd acc)) (fst acc, []))
       (\<lambda>acc'. Inr (finish (fst acc'))))))"

subsection \<open>C2 and C3: targets only, no graph\<close>

text \<open>\<^verbatim>\<open># Validate target\<close>\<close>

definition relation_target_check ::
  "json list \<Rightarrow> json \<Rightarrow> (string \<times> json) list \<Rightarrow> findings \<Rightarrow> exn + findings" where
  "relation_target_check ids eid kvs st =
     (case map_of kvs ''target'' of
        None \<Rightarrow> Inr st
      | Some target \<Rightarrow>
          bnd (set_member target ids) (\<lambda>known.
            Inr (if \<not> known then add_warning (Relation (TargetNotFound eid target)) st
                 else st)))"

definition relation_step_c2 ::
  "json list \<Rightarrow> json \<Rightarrow> nat \<Rightarrow> json \<Rightarrow> findings \<Rightarrow> exn + findings" where
  "relation_step_c2 container_ids eid idx rel st =
     (case rel of
        JObj kvs \<Rightarrow>
          bnd (relation_target_check container_ids eid kvs
                 (relation_type_check RELATION_TYPES_C2 eid kvs
                    (check_required (\<lambda>f. Relation (RelationMissing eid idx f))
                       [''target'', ''type'', ''description''] kvs st)))
            (\<lambda>st3. relation_description_check eid None kvs st3)
      | _ \<Rightarrow> Inr (add_error (Relation (RelationNotObject eid idx)) st))"

definition entity_relations_c2 :: "json list \<Rightarrow> nat \<Rightarrow> json \<Rightarrow> findings \<Rightarrow> exn + findings" where
  "entity_relations_c2 container_ids i container st =
     (case container of
        JObj kvs \<Rightarrow>
          (case get_or kvs ''relations'' (JArr []) of
             JArr rels \<Rightarrow>
               for_enum (relation_step_c2 container_ids (get_or kvs ''id'' (JStr ''unknown'')))
                 0 rels st
           | _ \<Rightarrow>
               Inr (add_error (Relation (RelationsNotArray
                                (get_or kvs ''id'' (JStr ''unknown'')))) st))
      | _ \<Rightarrow> Inr st)"

definition validate_relations_c2 :: "json \<Rightarrow> exn + bool \<times> msg list \<times> msg list" where
  "validate_relations_c2 containers =
     bnd (collect_ids containers) (\<lambda>container_ids.
     bnd (py_iter containers) (\<lambda>xs.
     bnd (for_enum (entity_relations_c2 container_ids) 0 xs no_findings) (\<lambda>st.
     Inr (finish st))))"

text \<open>
  The C3 loop also counts the relations and the tightly coupled ones; the state is the
  accumulators with \<^verbatim>\<open>(tight_coupling_count, total_relations)\<close>.
  \<^verbatim>\<open># Validate coupling\<close> appends to \<^verbatim>\<open>errors\<close>.
\<close>

definition relation_coupling_check ::
  "json \<Rightarrow> (string \<times> json) list \<Rightarrow> findings \<times> nat \<Rightarrow> findings \<times> nat" where
  "relation_coupling_check eid kvs acc =
     (case map_of kvs ''coupling'' of
        None \<Rightarrow> acc
      | Some c \<Rightarrow>
          if \<not> in_table c COUPLING_TYPES
          then (add_error (Relation (InvalidCoupling eid c)) (fst acc), snd acc)
          else if c = JStr ''tight'' then (fst acc, Suc (snd acc))
          else acc)"

definition relation_step_c3 ::
  "json list \<Rightarrow> json \<Rightarrow> nat \<Rightarrow> json \<Rightarrow> findings \<times> nat \<times> nat \<Rightarrow> exn + findings \<times> nat \<times> nat" where
  "relation_step_c3 component_ids eid idx rel acc =
     (case acc of (st, tight, count) \<Rightarrow>
      (case rel of
         JObj kvs \<Rightarrow>
           (case relation_coupling_check eid kvs
                   (relation_type_check RELATION_TYPES_C3 eid kvs
                      (check_required (\<lambda>f. Relation (RelationMissing eid idx f))
                         [''target'', ''type'', ''coupling'', ''description''] kvs st),
                    tight) of
              (st3, tight') \<Rightarrow>
                bnd (relation_target_check component_ids eid kvs st3) (\<lambda>st4.
                bnd (relation_description_check eid None kvs st4) (\<lambda>st5.
                Inr (st5, tight', Suc count))))
       | _ \<Rightarrow> Inr (add_error (Relation (RelationNotObject eid idx)) st, tight, Suc count)))"

definition entity_relations_c3 ::
  "json list \<Rightarrow> nat \<Rightarrow> json \<Rightarrow> findings \<times> nat \<times> nat \<Rightarrow> exn + findings \<times> nat \<times> nat" where
  "entity_relations_c3 component_ids i component acc =
     (case component of
        JObj kvs \<Rightarrow>
          (case get_or kvs ''relations'' (JArr []) of
             JArr rels \<Rightarrow>
               for_enum (relation_step_c3 component_ids (get_or kvs ''id'' (JStr ''unknown'')))
                 0 rels acc
           | _ \<Rightarrow>
               Inr (add_error (Relation (RelationsNotArray
                                (get_or kvs ''id'' (JStr ''unknown'')))) (fst acc),
                    snd acc))
      | _ \<Rightarrow> Inr acc)"

text \<open>
  \<^verbatim>\<open>tight_coupling_count > total_relations * 0.3\<close> compares an int with a double. For
  counts below \<open>2\<^sup>5\<^sup>0\<close> the product rounds to the exact value whenever that is an
  integer and is otherwise at least \<open>0.1\<close> away from every integer, so the comparison
  is that of the exact values, \<open>10 * tight > 3 * count\<close>.
\<close>

definition validate_relations_c3 :: "json \<Rightarrow> exn + bool \<times> msg list \<times> msg list" where
  "validate_relations_c3 components =
     bnd (collect_ids components) (\<lambda>component_ids.
     bnd (py_iter components) (\<lambda>xs.
     bnd (for_enum (entity_relations_c3 component_ids) 0 xs (no_findings, 0, 0)) (\<lambda>acc.
     case acc of (st, tight, count) \<Rightarrow>
       Inr (finish (if 0 < count \<and> 3 * count < 10 * tight
                    then add_warning (Relation (HighTightCoupling tight count)) st
                    else st)))))"

section \<open>The environment of a run\<close>

text \<open>
  A run reads its document from standard input and the parent document from a file.
  What \<^verbatim>\<open>open\<close> and \<^verbatim>\<open>json.load\<close> make of a source is an \<open>input\<close>: it cannot be
  read, it is not JSON, or it parses to a document. The file system maps a path to the
  input found there, \<open>None\<close> where \<^verbatim>\<open>os.path.exists\<close> is false; it does not change
  during a run.
\<close>

datatype input = Unreadable | Malformed | Document json

text \<open>
  A \<^verbatim>\<open>datetime\<close>: naive (no offset) or aware, both in microseconds, the aware one as
  the UTC instant. Python orders two naive or two aware values and raises
  \<^verbatim>\<open>TypeError\<close> on a mixed pair.
\<close>

datatype datetime = Naive int | Aware int

fun datetime_le :: "datetime \<Rightarrow> datetime \<Rightarrow> exn + bool" where
  "datetime_le (Naive a) (Naive b) = Inr (a \<le> b)"
| "datetime_le (Aware a) (Aware b) = Inr (a \<le> b)"
| "datetime_le a b = Inl TypeError"

text \<open>
  The environment: standard input, the file system, the working directory, the library
  function \<^verbatim>\<open>datetime.fromisoformat\<close> (\<open>None\<close> is its \<^verbatim>\<open>ValueError\<close>), the order in
  which Python iterates a set, and the recursion depth left for \<^verbatim>\<open>has_cycle\<close>.
\<close>

record env =
  stdin :: input
  fs :: "string \<Rightarrow> input option"
  cwd :: string
  fromisoformat :: "string \<Rightarrow> datetime option"
  set_order :: "json list \<Rightarrow> json list"
  recursion_depth :: nat

text \<open>\<^verbatim>\<open>with open(path) as f: json.load(f)\<close>\<close>

definition load_json :: "(string \<Rightarrow> input option) \<Rightarrow> string \<Rightarrow> exn + json" where
  "load_json files path =
     (case files path of
        None \<Rightarrow> Inl OSError
      | Some Unreadable \<Rightarrow> Inl OSError
      | Some Malformed \<Rightarrow> Inl JSONDecodeError
      | Some (Document d) \<Rightarrow> Inr d)"

text \<open>\<^verbatim>\<open>os.path.join(a, b)\<close> for a relative \<open>b\<close>.\<close>

definition os_path_join :: "string \<Rightarrow> string \<Rightarrow> string" where
  "os_path_join a b = (if a = [] \<or> last a = CHR ''/'' then a @ b else a @ ''/'' @ b)"

text \<open>
  The path of a document under \<^verbatim>\<open>knowledge-base/\<close>: the relative path, or, where that
  does not exist, the one under \<^verbatim>\<open>os.getcwd()\<close>.
\<close>

definition knowledge_base_path :: "env \<Rightarrow> string \<Rightarrow> string" where
  "knowledge_base_path e name =
     (if fs e (''knowledge-base/'' @ name) \<noteq> None then ''knowledge-base/'' @ name
      else os_path_join (os_path_join (cwd e) ''knowledge-base'') name)"

section \<open>Lineage: \<^verbatim>\<open>validate_parent_reference\<close>\<close>

text \<open>
  The first part is the same in the three scripts: the parent file must exist, load, and
  have a truthy \<^verbatim>\<open>metadata.timestamp\<close>. The result is the early return's errors or the
  parent's timestamp. The two \<^verbatim>\<open>.get\<close> calls stand outside the \<^verbatim>\<open>try\<close>.
\<close>

definition parent_timestamp ::
  "(string \<Rightarrow> input option) \<Rightarrow> string \<Rightarrow> string \<Rightarrow> exn + (msg list + json)" where
  "parent_timestamp files path hint =
     (if files path = None
      then Inr (Inl [Lineage (ParentFileNotFound path), Lineage (Recommendation hint)])
      else case load_json files path of
             Inl e \<Rightarrow> Inr (Inl [Lineage FailedToReadParent])
           | Inr parent_data \<Rightarrow>
               bnd (py_get parent_data ''metadata'' (JObj [])) (\<lambda>parent_metadata.
               bnd (py_get parent_metadata ''timestamp'' JNull) (\<lambda>parent_timestamp_str.
                 Inr (if \<not> truthy parent_timestamp_str
                      then Inl [Lineage ParentMissingTimestamp]
                      else Inr parent_timestamp_str))))"

text \<open>
  \<^verbatim>\<open># Check metadata.parent structure\<close> (C1 only): a declared
  \<^verbatim>\<open>metadata.parent.timestamp\<close> must equal the parent's timestamp. The result is the
  errors of the early return, empty when the block falls through.
\<close>

definition declared_parent_check :: "json \<Rightarrow> json \<Rightarrow> exn + msg list" where
  "declared_parent_check metadata parent_timestamp_str =
     bnd (py_in ''parent'' metadata) (\<lambda>has_parent.
       if has_parent
       then bnd (py_item metadata ''parent'') (\<lambda>parent.
            bnd (py_in ''timestamp'' parent) (\<lambda>has_timestamp.
              if has_timestamp
              then bnd (py_item parent ''timestamp'') (\<lambda>declared.
                     Inr (if \<not> py_eq declared parent_timestamp_str
                          then [Lineage ParentTimestampMismatch,
                                Lineage (ExpectedLine parent_timestamp_str),
                                Lineage (ActualLine declared)]
                          else []))
              else Inr []))
       else Inr [])"

text \<open>
  \<^verbatim>\<open>datetime.fromisoformat(v.replace('Z', '+00:00'))\<close>: \<^verbatim>\<open>AttributeError\<close> unless \<open>v\<close>
  is a string, \<^verbatim>\<open>ValueError\<close> when the string is no ISO timestamp.
\<close>

definition replace_Z :: "string \<Rightarrow> string" where
  "replace_Z s = concat (map (\<lambda>c. if c = CHR ''Z'' then ''+00:00'' else [c]) s)"

definition parse_timestamp :: "(string \<Rightarrow> datetime option) \<Rightarrow> json \<Rightarrow> exn + datetime" where
  "parse_timestamp isoparse v =
     (case v of
        JStr s \<Rightarrow> (case isoparse (replace_Z s) of None \<Rightarrow> Inl ValueError | Some t \<Rightarrow> Inr t)
      | _ \<Rightarrow> Inl AttributeError)"

text \<open>
  \<^verbatim>\<open># Check timestamp ordering\<close>, guarded by \<^verbatim>\<open>if "timestamp" in metadata\<close>. The
  \<^verbatim>\<open>try\<close> catches \<^verbatim>\<open>ValueError\<close> and \<^verbatim>\<open>AttributeError\<close> only. \<open>tail\<close> is what the
  script appends after the three lines of the ordering error.
\<close>

definition timestamp_order_check ::
  "(string \<Rightarrow> datetime option) \<Rightarrow> json \<Rightarrow> json \<Rightarrow> msg list \<Rightarrow> exn + msg list" where
  "timestamp_order_check isoparse metadata parent_timestamp_str tail =
     bnd (py_in ''timestamp'' metadata) (\<lambda>has_timestamp.
       if has_timestamp
       then (case bnd (py_item metadata ''timestamp'') (\<lambda>ts.
                   bnd (parse_timestamp isoparse ts) (\<lambda>current_ts.
                   bnd (parse_timestamp isoparse parent_timestamp_str) (\<lambda>parent_ts.
                   bnd (datetime_le current_ts parent_ts) (\<lambda>not_newer.
                     Inr (if not_newer
                          then [Lineage TimestampNotNewer,
                                Lineage (ParentLine parent_timestamp_str),
                                Lineage (CurrentLine ts)] @ tail
                          else []))))) of
               Inl e \<Rightarrow>
                 if e = ValueError \<or> e = AttributeError
                 then Inr [Lineage InvalidTimestampFormat] else Inl e
             | Inr errs \<Rightarrow> Inr errs)
       else Inr [])"

text \<open>The C1 script: parent \<^verbatim>\<open>init.json\<close>.\<close>

definition validate_parent_reference_c1 ::
  "env \<Rightarrow> json \<Rightarrow> string \<Rightarrow> exn + bool \<times> msg list" where
  "validate_parent_reference_c1 e data init_file_path =
     bnd (parent_timestamp (fs e) init_file_path ''Run /melly-init first'') (\<lambda>r.
       case r of
         Inl errs \<Rightarrow> Inr (False, errs)
       | Inr parent_timestamp_str \<Rightarrow>
           bnd (py_in ''metadata'' data) (\<lambda>has_metadata.
             if \<not> has_metadata then Inr (False, [Lineage MissingMetadata])
             else bnd (py_item data ''metadata'') (\<lambda>metadata.
                  bnd (declared_parent_check metadata parent_timestamp_str) (\<lambda>mismatch.
                    if mismatch \<noteq> [] then Inr (False, mismatch)
                    else bnd (timestamp_order_check (fromisoformat e) metadata
                                parent_timestamp_str
                                [Lineage (Recommendation
                                   ''Ensure file is generated after parent'')])
                           (\<lambda>errs. Inr (errs = [], errs))))))"

text \<open>
  The C2 and C3 scripts have no \<^verbatim>\<open>metadata.parent\<close> block and no recommendation
  after the ordering error. The C2 function also returns the parent's timestamp (or
  \<^verbatim>\<open>""\<close>), which its caller ignores.
\<close>

definition validate_parent_reference_c2 ::
  "env \<Rightarrow> json \<Rightarrow> string \<Rightarrow> exn + bool \<times> msg list \<times> json" where
  "validate_parent_reference_c2 e data c1_file_path =
     bnd (parent_timestamp (fs e) c1_file_path ''Run /melly-c1-systems first'') (\<lambda>r.
       case r of
         Inl errs \<Rightarrow> Inr (False, errs, JStr [])
       | Inr parent_timestamp_str \<Rightarrow>
           bnd (py_in ''metadata'' data) (\<lambda>has_metadata.
             if \<not> has_metadata then Inr (False, [Lineage MissingMetadata], JStr [])
             else bnd (py_item data ''metadata'') (\<lambda>metadata.
                  bnd (timestamp_order_check (fromisoformat e) metadata
                         parent_timestamp_str [])
                    (\<lambda>errs. Inr (if errs = [] then (True, [], parent_timestamp_str)
                                  else (False, errs, JStr []))))))"

definition validate_parent_reference_c3 ::
  "env \<Rightarrow> json \<Rightarrow> string \<Rightarrow> exn + bool \<times> msg list" where
  "validate_parent_reference_c3 e data c2_file_path =
     bnd (parent_timestamp (fs e) c2_file_path ''Run /melly-c2-containers first'') (\<lambda>r.
       case r of
         Inl errs \<Rightarrow> Inr (False, errs)
       | Inr parent_timestamp_str \<Rightarrow>
           bnd (py_in ''metadata'' data) (\<lambda>has_metadata.
             if \<not> has_metadata then Inr (False, [Lineage MissingMetadata])
             else bnd (py_item data ''metadata'') (\<lambda>metadata.
                  bnd (timestamp_order_check (fromisoformat e) metadata
                         parent_timestamp_str [])
                    (\<lambda>errs. Inr (errs = [], errs)))))"

section \<open>The scripts' \<^verbatim>\<open>main\<close>\<close>

text \<open>
  What a run prints to the error stream: \<^verbatim>\<open>error(message, location=...)\<close>,
  \<^verbatim>\<open>warning(message)\<close>, and the plain lines (the summary). A \<^verbatim>\<open>main\<close> returns the
  exit code with everything printed, or raises; an exception that leaves \<^verbatim>\<open>main\<close> ends
  the process with a traceback.
\<close>

datatype out = PrintError msg string | PrintWarning msg | PrintLine string

text \<open>
  After a failed lineage check: \<^verbatim>\<open>error(err)\<close>, but \<^verbatim>\<open>warning(...)\<close> for a line that
  starts with \<^verbatim>\<open>RECOMMENDATION:\<close>.
\<close>

fun lineage_output :: "msg \<Rightarrow> out" where
  "lineage_output (Lineage (Recommendation hint)) = PrintWarning (Lineage (Recommendation hint))"
| "lineage_output m = PrintError m []"

text \<open>
  After each checker: \<^verbatim>\<open>if not valid: ... for err in errors: error(err, location=...)\<close>,
  then \<^verbatim>\<open>for warn in warns: ... warning(warn)\<close>.
\<close>

definition stage_output :: "string \<Rightarrow> bool \<times> msg list \<times> msg list \<Rightarrow> out list" where
  "stage_output location r =
     (if \<not> fst r then map (\<lambda>m. PrintError m location) (fst (snd r)) else []) @
     map PrintWarning (snd (snd r))"

text \<open>The last lines of every \<^verbatim>\<open>main\<close>.\<close>

definition exit_code :: "bool \<Rightarrow> bool \<Rightarrow> nat \<times> out list" where
  "exit_code has_errors has_warnings =
     (if has_errors then (2, [PrintLine ''FAILED with errors''])
      else if has_warnings then (1, [PrintLine ''PASSED with warnings''])
      else (0, [PrintLine ''PASSED'']))"

text \<open>A list comprehension whose element expression may raise.\<close>

definition map_raising :: "('a \<Rightarrow> exn + 'b) \<Rightarrow> 'a list \<Rightarrow> exn + 'b list" where
  "map_raising f xs = for_enum (\<lambda>i x ys. bnd (f x) (\<lambda>y. Inr (ys @ [y]))) 0 xs []"

subsection \<open>C1\<close>

text \<open>
  \<^verbatim>\<open>init_repos\<close>: the names (or paths) of the repositories of \<^verbatim>\<open>init.json\<close>, and
  \<^verbatim>\<open>[]\<close> when anything in the \<^verbatim>\<open>try\<close> raises.
\<close>

definition repository_name :: "json \<Rightarrow> exn + json" where
  "repository_name repo =
     bnd (py_get repo ''path'' (JStr [])) (\<lambda>path. py_get repo ''name'' path)"

definition load_init_repos :: "(string \<Rightarrow> input option) \<Rightarrow> string \<Rightarrow> json list" where
  "load_init_repos files init_file_path =
     (case bnd (load_json files init_file_path) (\<lambda>init_data.
           bnd (py_get init_data ''repositories'' (JArr [])) (\<lambda>repos.
           bnd (py_iter repos) (map_raising repository_name))) of
        Inl e \<Rightarrow> []
      | Inr names \<Rightarrow> names)"

text \<open>\<^verbatim>\<open># Check for empty observations/relations (warning)\<close>\<close>

definition empty_collections :: "json \<Rightarrow> msg list" where
  "empty_collections system =
     (case system of
        JObj kvs \<Rightarrow>
          (if \<not> truthy (get_or kvs ''observations'' (JArr []))
           then [NoObservations (get_or kvs ''id'' (JStr ''unknown''))] else []) @
          (if \<not> truthy (get_or kvs ''relations'' (JArr []))
           then [NoRelations (get_or kvs ''id'' (JStr ''unknown''))] else [])
      | _ \<Rightarrow> [])"

text \<open>
  Steps 2 to 4 of \<^verbatim>\<open>main\<close>, its last loop and the exit code: what a run does once
  the lineage check has passed.
\<close>

definition checks_c1 :: "env \<Rightarrow> json \<Rightarrow> exn + nat \<times> out list" where
  "checks_c1 e data =
     bnd (py_get data ''systems'' (JArr [])) (\<lambda>systems.
     bnd (validate_systems systems
            (load_init_repos (fs e) (knowledge_base_path e ''init.json''))) (\<lambda>r1.
     bnd (validate_observations_c1 systems) (\<lambda>r2.
     bnd (validate_relations_c1 (set_order e) (recursion_depth e) systems) (\<lambda>r3.
     bnd (py_iter systems) (\<lambda>xs.
       let extra = concat (map empty_collections xs);
           has_errors = (\<not> fst r1 \<or> \<not> fst r2 \<or> \<not> fst r3);
           has_warnings = (snd (snd r1) \<noteq> [] \<or> snd (snd r2) \<noteq> [] \<or>
                           snd (snd r3) \<noteq> [] \<or> extra \<noteq> [])
       in Inr (fst (exit_code has_errors has_warnings),
               stage_output ''systems'' r1 @ stage_output ''observations'' r2 @
               stage_output ''relations'' r3 @ map PrintWarning extra @
               snd (exit_code has_errors has_warnings)))))))"

definition main_c1 :: "env \<Rightarrow> exn + nat \<times> out list" where
  "main_c1 e =
     (case stdin e of
        Malformed \<Rightarrow> Inr (2, [PrintError InvalidJSON []])
      | Unreadable \<Rightarrow> Inr (2, [PrintError FailedToReadInput []])
      | Document data \<Rightarrow>
          bnd (validate_parent_reference_c1 e data (knowledge_base_path e ''init.json''))
            (\<lambda>lineage.
               if \<not> fst lineage then Inr (2, map lineage_output (snd lineage))
               else checks_c1 e data))"

subsection \<open>C2 and C3\<close>

text \<open>
  The ids of the parent layer's entities, read again from the parent file. The C2 script
  swallows every exception of the \<^verbatim>\<open>try\<close>, the C3 script only \<^verbatim>\<open>OSError\<close> and
  \<^verbatim>\<open>json.JSONDecodeError\<close>.
\<close>

definition load_parent_ids :: "(string \<Rightarrow> input option) \<Rightarrow> string \<Rightarrow> string \<Rightarrow> exn + json list" where
  "load_parent_ids files path key =
     bnd (load_json files path) (\<lambda>parent_data.
     bnd (py_get parent_data key (JArr [])) collect_ids)"

definition load_c1_system_ids :: "(string \<Rightarrow> input option) \<Rightarrow> string \<Rightarrow> json list" where
  "load_c1_system_ids files c1_file_path =
     (case load_parent_ids files c1_file_path ''systems'' of Inl e \<Rightarrow> [] | Inr ids \<Rightarrow> ids)"

definition load_c2_container_ids ::
  "(string \<Rightarrow> input option) \<Rightarrow> string \<Rightarrow> exn + json list" where
  "load_c2_container_ids files c2_file_path =
     (case load_parent_ids files c2_file_path ''containers'' of
        Inl e \<Rightarrow> if e = OSError \<or> e = JSONDecodeError then Inr [] else Inl e
      | Inr ids \<Rightarrow> Inr ids)"

text \<open>
  \<^verbatim>\<open># Check for systems with no containers (warning)\<close>, and the same for containers
  without components: the keys of \<^verbatim>\<open>containers_by_system\<close> are the truthy parent ids
  of the entities (hashed by \<^verbatim>\<open>setdefault\<close>); every parent id that is not among them
  is warned about, in the iteration order of the set.
\<close>

definition collect_parent :: "string \<Rightarrow> nat \<Rightarrow> json \<Rightarrow> json list \<Rightarrow> exn + json list" where
  "collect_parent key i entity keys =
     (case entity of
        JObj kvs \<Rightarrow>
          let parent_id = get_or kvs key JNull
          in if truthy parent_id
             then (if hashable parent_id then Inr (set_add parent_id keys) else Inl TypeError)
             else Inr keys
      | _ \<Rightarrow> Inr keys)"

definition childless_parents ::
  "(json list \<Rightarrow> json list) \<Rightarrow> string \<Rightarrow> json \<Rightarrow> json list \<Rightarrow> exn + msg list" where
  "childless_parents order key entities parent_ids =
     bnd (py_iter entities) (\<lambda>xs.
     bnd (for_enum (collect_parent key) 0 xs []) (\<lambda>by_parent.
     Inr (map NoChildren (filter (\<lambda>p. \<not> list_member p by_parent) (order parent_ids)))))"

definition checks_c2 :: "env \<Rightarrow> json \<Rightarrow> exn + nat \<times> out list" where
  "checks_c2 e data =
     (let c1_system_ids =
            load_c1_system_ids (fs e) (knowledge_base_path e ''c1-systems.json'')
      in
      bnd (py_get data ''containers'' (JArr [])) (\<lambda>containers.
      bnd (validate_containers containers c1_system_ids) (\<lambda>r1.
      bnd (validate_observations_c2 containers) (\<lambda>r2.
      bnd (validate_relations_c2 containers) (\<lambda>r3.
      bnd (childless_parents (set_order e) ''system_id'' containers c1_system_ids)
        (\<lambda>extra.
        let has_errors = (\<not> fst r1 \<or> \<not> fst r2 \<or> \<not> fst r3);
            has_warnings = (snd (snd r1) \<noteq> [] \<or> snd (snd r2) \<noteq> [] \<or>
                            snd (snd r3) \<noteq> [] \<or> extra \<noteq> [])
        in Inr (fst (exit_code has_errors has_warnings),
                stage_output ''containers'' r1 @ stage_output ''observations'' r2 @
                stage_output ''relations'' r3 @ map PrintWarning extra @
                snd (exit_code has_errors has_warnings))))))))"

definition main_c2 :: "env \<Rightarrow> exn + nat \<times> out list" where
  "main_c2 e =
     (case stdin e of
        Malformed \<Rightarrow> Inr (2, [PrintError InvalidJSON []])
      | Unreadable \<Rightarrow> Inr (2, [PrintError FailedToReadInput []])
      | Document data \<Rightarrow>
          bnd (validate_parent_reference_c2 e data (knowledge_base_path e ''c1-systems.json''))
            (\<lambda>lineage.
               if \<not> fst lineage then Inr (2, map lineage_output (fst (snd lineage)))
               else checks_c2 e data))"

definition checks_c3 :: "env \<Rightarrow> json \<Rightarrow> exn + nat \<times> out list" where
  "checks_c3 e data =
     bnd (load_c2_container_ids (fs e)
            (knowledge_base_path e ''c2-containers.json'')) (\<lambda>c2_container_ids.
     bnd (py_get data ''components'' (JArr [])) (\<lambda>components.
     bnd (validate_components components c2_container_ids) (\<lambda>r1.
     bnd (validate_observations_c3 components) (\<lambda>r2.
     bnd (validate_relations_c3 components) (\<lambda>r3.
     bnd (childless_parents (set_order e) ''container_id'' components c2_container_ids)
       (\<lambda>extra.
       let has_errors = (\<not> fst r1 \<or> \<not> fst r2 \<or> \<not> fst r3);
           has_warnings = (snd (snd r1) \<noteq> [] \<or> snd (snd r2) \<noteq> [] \<or>
                           snd (snd r3) \<noteq> [] \<or> extra \<noteq> [])
       in Inr (fst (exit_code has_errors has_warnings),
               stage_output ''components'' r1 @ stage_output ''observations'' r2 @
               stage_output ''relations'' r3 @ map PrintWarning extra @
               snd (exit_code has_errors has_warnings))))))))"

definition main_c3 :: "env \<Rightarrow> exn + nat \<times> out list" where
  "main_c3 e =
     (case stdin e of
        Malformed \<Rightarrow> Inr (2, [PrintError InvalidJSON []])
      | Unreadable \<Rightarrow> Inr (2, [PrintError FailedToReadInput []])
      | Document data \<Rightarrow>
          bnd (validate_parent_reference_c3 e data
                 (knowledge_base_path e ''c2-containers.json''))
            (\<lambda>lineage.
               if \<not> fst lineage then Inr (2, map lineage_output (snd lineage))
               else checks_c3 e data))"

subsection \<open>The init script\<close>

text \<open>
  \<^verbatim>\<open>main\<close> of \<^verbatim>\<open>validate-init.py\<close> up to the loaded document. With no
  \<^verbatim>\<open>init.json\<close> at either path it prints that it skips validation and returns 0. The
  checks on a loaded document (schema, repository paths on disk, manifests, the clock) are
  the parameter \<open>checks\<close>: they read the real file system and the time, and nothing
  below depends on them.
\<close>

definition main_init :: "(json \<Rightarrow> exn + nat \<times> out list) \<Rightarrow> env \<Rightarrow> exn + nat \<times> out list" where
  "main_init checks e =
     (if fs e (knowledge_base_path e ''init.json'') = None
      then Inr (0, [PrintLine ''No init.json file found - skipping validation''])
      else case load_json (fs e) (knowledge_base_path e ''init.json'') of
             Inl err \<Rightarrow>
               if err = JSONDecodeError
               then Inr (2, [PrintError InvalidJSON (knowledge_base_path e ''init.json'')])
               else Inr (2, [PrintError FailedToReadInput
                               (knowledge_base_path e ''init.json'')])
           | Inr data \<Rightarrow> checks data)"

subsection \<open>The status of the process\<close>

text \<open>
  \<^verbatim>\<open>sys.exit(main())\<close>: the process ends with the value \<^verbatim>\<open>main\<close> returns. When an
  exception leaves \<^verbatim>\<open>main\<close>, the interpreter prints the traceback and the process ends
  with status 1.
\<close>

definition exit_status :: "exn + nat \<times> out list \<Rightarrow> nat" where
  "exit_status r = (case r of Inl e \<Rightarrow> 1 | Inr result \<Rightarrow> fst result)"

section \<open>The aggregation rule of the specification\<close>

text \<open>
  The rule as the specification words it, to be compared with what the scripts return:
  any error gives exit code 2; no error but at least one warning gives 1; no finding
  gives 0.
\<close>

definition aggregate :: "msg list \<Rightarrow> msg list \<Rightarrow> nat" where
  "aggregate errs warns = (if errs \<noteq> [] then 2 else if warns \<noteq> [] then 1 else 0)"

section \<open>Kinds of messages\<close>

text \<open>The messages that \<^verbatim>\<open>validate_parent_reference\<close> builds.\<close>

fun is_lineage :: "msg \<Rightarrow> bool" where
  "is_lineage (Lineage m) = True"
| "is_lineage m = False"

section \<open>The words of the lineage claims\<close>

text \<open>
  The parent file exists, parses to an object and carries \<^verbatim>\<open>metadata.timestamp\<close>: an
  object \<^verbatim>\<open>metadata\<close> with a \<^verbatim>\<open>timestamp\<close> that the script does not take for missing
  (it is truthy).
\<close>

definition parent_carries_timestamp ::
  "(string \<Rightarrow> input option) \<Rightarrow> string \<Rightarrow> json \<Rightarrow> bool" where
  "parent_carries_timestamp files path pts =
     (case files path of
        Some (Document (JObj p)) \<Rightarrow>
          (case map_of p ''metadata'' of
             Some (JObj pm) \<Rightarrow> map_of pm ''timestamp'' = Some pts \<and> truthy pts
           | _ \<Rightarrow> False)
      | _ \<Rightarrow> False)"

text \<open>The \<^verbatim>\<open>metadata\<close> object of a document that is an object and has one.\<close>

definition document_metadata :: "json \<Rightarrow> (string \<times> json) list option" where
  "document_metadata data =
     (case data of
        JObj d \<Rightarrow> (case map_of d ''metadata'' of Some (JObj m) \<Rightarrow> Some m | _ \<Rightarrow> None)
      | _ \<Rightarrow> None)"

text \<open>
  The condition on \<^verbatim>\<open>metadata.parent\<close> under which the C1 script reaches its
  timestamp comparison: the metadata has no \<^verbatim>\<open>parent\<close>, or its \<^verbatim>\<open>parent\<close> is an
  object that has no \<^verbatim>\<open>timestamp\<close> or has one equal to the parent's. Every other
  \<^verbatim>\<open>metadata.parent\<close> (a value that is no object, or an object whose timestamp differs)
  is not covered by it.
\<close>

definition parent_absent_or_agrees :: "(string \<times> json) list \<Rightarrow> json \<Rightarrow> bool" where
  "parent_absent_or_agrees m pts =
     (case map_of m ''parent'' of
        None \<Rightarrow> True
      | Some (JObj pr) \<Rightarrow>
          (case map_of pr ''timestamp'' of None \<Rightarrow> True | Some t \<Rightarrow> py_eq t pts)
      | Some _ \<Rightarrow> False)"

text \<open>Two datetimes that Python can order, and the number each stands for.\<close>

fun same_kind :: "datetime \<Rightarrow> datetime \<Rightarrow> bool" where
  "same_kind (Naive a) (Naive b) = True"
| "same_kind (Aware a) (Aware b) = True"
| "same_kind a b = False"

fun instant :: "datetime \<Rightarrow> int" where
  "instant (Naive a) = a"
| "instant (Aware a) = a"

text \<open>
  The messages that the checkers append to \<^verbatim>\<open>warnings\<close>; every other message of a
  checker is appended to \<^verbatim>\<open>errors\<close>. No message is built for both lists.
\<close>

fun is_entity_warning :: "entity_msg \<Rightarrow> bool" where
  "is_entity_warning (UnknownType t label) = True"
| "is_entity_warning (RepositoryNotFound label repo) = True"
| "is_entity_warning (UnknownEnvironment label e) = True"
| "is_entity_warning (EmptyFiles label) = True"
| "is_entity_warning m = False"

fun is_observation_warning :: "observation_msg \<Rightarrow> bool" where
  "is_observation_warning (UnknownCategory eid c) = True"
| "is_observation_warning (ShortObservationDescription eid label) = True"
| "is_observation_warning m = False"

fun is_relation_warning :: "relation_msg \<Rightarrow> bool" where
  "is_relation_warning (UnknownRelationType eid t) = True"
| "is_relation_warning (SelfReference eid label) = True"
| "is_relation_warning (SourceNotFound eid v) = True"
| "is_relation_warning (TargetNotFound eid v) = True"
| "is_relation_warning (ShortRelationDescription eid label) = True"
| "is_relation_warning (CircularDependency path) = True"
| "is_relation_warning (HighTightCoupling tight n) = True"
| "is_relation_warning m = False"

fun is_warning :: "msg \<Rightarrow> bool" where
  "is_warning (Entity m) = is_entity_warning m"
| "is_warning (Observation m) = is_observation_warning m"
| "is_warning (Relation m) = is_relation_warning m"
| "is_warning m = False"

fun is_cycle :: "msg \<Rightarrow> bool" where
  "is_cycle (Relation (CircularDependency path)) = True"
| "is_cycle m = False"

text \<open>
  Accumulators are tidy when \<^verbatim>\<open>errors\<close> holds no warning message and \<^verbatim>\<open>warnings\<close>
  nothing else (and, unless \<open>cyc\<close>, no cycle). One state extends another when it has kept
  every finding and is tidy if the other was.
\<close>

definition tidy :: "bool \<Rightarrow> findings \<Rightarrow> bool" where
  "tidy cyc st \<longleftrightarrow>
     list_all (\<lambda>m. \<not> is_warning m) (errors st) \<and>
     list_all (\<lambda>m. is_warning m \<and> (cyc \<or> \<not> is_cycle m)) (warnings st)"

definition extends :: "bool \<Rightarrow> findings \<Rightarrow> findings \<Rightarrow> bool" where
  "extends cyc st st' \<longleftrightarrow>
     set (errors st) \<subseteq> set (errors st') \<and> set (warnings st) \<subseteq> set (warnings st') \<and>
     (tidy cyc st \<longrightarrow> tidy cyc st')"

section \<open>Example documents\<close>

text \<open>An entity whose two observations carry the same id.\<close>

definition demo_observation_items :: "(string \<times> json) list" where
  "demo_observation_items =
     [(''id'', JStr ''obs-1''), (''category'', JStr ''security''),
      (''description'', JStr ''uses TLS everywhere'')]"

definition demo_observation :: json where
  "demo_observation = JObj demo_observation_items"

definition demo_entity_items :: "(string \<times> json) list" where
  "demo_entity_items =
     [(''id'', JStr ''web''),
      (''observations'', JArr [demo_observation, demo_observation])]"

definition demo_entities_duplicate_observation :: json where
  "demo_entities_duplicate_observation =
     JArr [JObj demo_entity_items]"

text \<open>
  A run of the C1 script: \<^verbatim>\<open>init.json\<close> lists one repository, and the document on
  standard input, stamped one second later, has the three systems a, b and c, each in
  that repository and each calling the next, c calling a. The table gives
  \<^verbatim>\<open>datetime.fromisoformat\<close> on the two timestamps.
\<close>

definition demo_init :: json where
  "demo_init =
     JObj [(''metadata'', JObj [(''timestamp'', JStr ''2025-01-01T00:00:00Z'')]),
           (''repositories'', JArr [JObj [(''path'', JStr ''/repo-a'')]])]"

definition demo_system :: "string \<Rightarrow> string \<Rightarrow> json" where
  "demo_system name target =
     JObj [(''id'', JStr name), (''name'', JStr name), (''type'', JStr ''api-service''),
           (''repositories'', JArr [JStr ''/repo-a'']),
           (''description'', JStr ''one of three systems''),
           (''observations'', JArr [demo_observation]),
           (''relations'',
            JArr [JObj [(''id'', JStr ''rel-1''), (''source'', JStr name),
                        (''target'', JStr target), (''type'', JStr ''http-rest''),
                        (''description'', JStr ''calls the next system'')]])]"

definition demo_systems :: json where
  "demo_systems = JArr [demo_system ''a'' ''b'', demo_system ''b'' ''c'', demo_system ''c'' ''a'']"

definition demo_c1 :: json where
  "demo_c1 =
     JObj [(''metadata'', JObj [(''timestamp'', JStr ''2025-01-01T00:00:01Z'')]),
           (''systems'', demo_systems)]"

definition demo_fromisoformat :: "string \<Rightarrow> datetime option" where
  "demo_fromisoformat =
     map_of [(''2025-01-01T00:00:00+00:00'', Aware 1735689600000000),
             (''2025-01-01T00:00:01+00:00'', Aware 1735689601000000)]"

definition demo_env :: "input \<Rightarrow> (string \<times> input) list \<Rightarrow> env" where
  "demo_env doc files =
     \<lparr>stdin = doc, fs = map_of files, cwd = ''/work'',
      fromisoformat = demo_fromisoformat, set_order = (\<lambda>ids. ids), recursion_depth = 1000\<rparr>"

definition demo_env_c1 :: env where
  "demo_env_c1 = demo_env (Document demo_c1) [(''knowledge-base/init.json'', Document demo_init)]"

text \<open>
  Scenario B: the same run with the document stamped exactly as its parent. And a run
  with no \<^verbatim>\<open>init.json\<close> at either path.
\<close>

definition demo_c1_same_timestamp :: json where
  "demo_c1_same_timestamp =
     JObj [(''metadata'', JObj [(''timestamp'', JStr ''2025-01-01T00:00:00Z'')]),
           (''systems'', demo_systems)]"

definition demo_env_same_timestamp :: env where
  "demo_env_same_timestamp =
     demo_env (Document demo_c1_same_timestamp)
       [(''knowledge-base/init.json'', Document demo_init)]"

definition demo_env_no_parent :: env where
  "demo_env_no_parent = demo_env (Document demo_c1) []"

text \<open>
  Two more documents for the lineage check, both against the same \<^verbatim>\<open>init.json\<close> (and,
  for the C2 script, against the C1 example as \<^verbatim>\<open>c1-systems.json\<close>): one stamped a
  second after its parent but declaring another \<^verbatim>\<open>metadata.parent.timestamp\<close>, and one
  whose metadata has no timestamp.
\<close>

definition demo_c1_stale_parent :: json where
  "demo_c1_stale_parent =
     JObj [(''metadata'',
            JObj [(''timestamp'', JStr ''2025-01-01T00:00:01Z''),
                  (''parent'', JObj [(''timestamp'', JStr ''2024-12-31T00:00:00Z'')])]),
           (''systems'', demo_systems)]"

definition demo_metadata_without_timestamp :: "(string \<times> json) list" where
  "demo_metadata_without_timestamp = [(''generator'', JStr ''melly'')]"

definition demo_document_without_timestamp :: json where
  "demo_document_without_timestamp =
     JObj [(''metadata'', JObj demo_metadata_without_timestamp), (''containers'', JArr [])]"

definition demo_env_lineage :: "json \<Rightarrow> env" where
  "demo_env_lineage doc =
     demo_env (Document doc)
       [(''knowledge-base/init.json'', Document demo_init),
        (''knowledge-base/c1-systems.json'', Document demo_c1)]"

text \<open>
  Scenario D: a component whose \<^verbatim>\<open>container_id\<close> names no container. And a system that
  lists a repository which \<^verbatim>\<open>init.json\<close> does not have.
\<close>

definition demo_component_items :: "(string \<times> json) list" where
  "demo_component_items =
     [(''id'', JStr ''auth-service''), (''name'', JStr ''Auth service''),
      (''type'', JStr ''service''), (''container_id'', JStr ''ghost''),
      (''responsibility'', JStr ''authenticates users''),
      (''structure'', JObj [(''path'', JStr ''src/auth''), (''language'', JStr ''python'')])]"

definition demo_system_unknown_repository :: json where
  "demo_system_unknown_repository =
     JObj [(''id'', JStr ''a''), (''name'', JStr ''a''), (''type'', JStr ''api-service''),
           (''repositories'', JArr [JStr ''/ghost'']),
           (''description'', JStr ''a system in no known repository''),
           (''observations'', JArr [demo_observation]),
           (''relations'', JArr [])]"

text \<open>
  Three more documents for the C1 script, each against the same \<^verbatim>\<open>init.json\<close>: one
  whose \<^verbatim>\<open>systems\<close> is \<^verbatim>\<open>null\<close>, one whose \<^verbatim>\<open>systems\<close> is the empty list, and
  one without a timestamp whose \<^verbatim>\<open>metadata.parent\<close> is \<^verbatim>\<open>null\<close>.
\<close>

definition demo_c1_null_systems :: json where
  "demo_c1_null_systems =
     JObj [(''metadata'', JObj [(''timestamp'', JStr ''2025-01-01T00:00:01Z'')]),
           (''systems'', JNull)]"

definition demo_c1_no_systems :: json where
  "demo_c1_no_systems =
     JObj [(''metadata'', JObj [(''timestamp'', JStr ''2025-01-01T00:00:01Z'')]),
           (''systems'', JArr [])]"

definition demo_c1_null_parent :: json where
  "demo_c1_null_parent =
     JObj [(''metadata'', JObj [(''parent'', JNull)]), (''systems'', demo_systems)]"

section \<open>Helper lemmas\<close>

lemma bnd_simps [simp]: "bnd (Inl e) f = Inl e" "bnd (Inr x) f = f x"
  by (simp_all add: bnd_def)

lemma bnd_eq_Inr: "bnd m f = Inr y \<longleftrightarrow> (\<exists>x. m = Inr x \<and> f x = Inr y)"
  by (cases m) simp_all

lemma for_enum_append:
  "for_enum body i (xs @ ys) s = bnd (for_enum body i xs s) (for_enum body (i + length xs) ys)"
  by (induction xs arbitrary: i s) (auto split: sum.splits)

lemma for_enum_append_Inr:
  "for_enum body i (xs @ ys) s = Inr s' \<longleftrightarrow>
     (\<exists>t. for_enum body i xs s = Inr t \<and> for_enum body (i + length xs) ys t = Inr s')"
  by (simp add: for_enum_append bnd_eq_Inr)

lemma for_enum_single: "for_enum body i [x] s = body i x s"
  by (simp split: sum.splits)

lemma for_enum_invariant:
  assumes "for_enum body i xs s = Inr s'" and "P s"
    and "\<And>k x t t'. x \<in> set xs \<Longrightarrow> P t \<Longrightarrow> body k x t = Inr t' \<Longrightarrow> P t'"
  shows "P s'"
  using assms
proof (induction xs arbitrary: i s)
  case Nil
  then show ?case by simp
next
  case (Cons x xs)
  from Cons.prems(1) obtain t where t: "body i x s = Inr t" and rest: "for_enum body (Suc i) xs t = Inr s'"
    by (auto split: sum.splits)
  have "P t" using Cons.prems(3)[of x s i t] Cons.prems(2) t by simp
  show ?case
  proof (rule Cons.IH[OF rest \<open>P t\<close>])
    fix k y u u' assume "y \<in> set xs" "P u" "body k y u = Inr u'"
    then show "P u'" using Cons.prems(3)[of y u k u'] by simp
  qed
qed

lemma py_eq_refl_hashable: "hashable x \<Longrightarrow> py_eq x x"
  by (cases x) simp_all

lemma py_eq_hashable_trans:
  "hashable x \<Longrightarrow> py_eq x y \<Longrightarrow> py_eq x z \<Longrightarrow> py_eq y z"
  by (cases x; cases y; cases z) (auto split: if_splits)

lemma errors_add [simp]:
  "errors (add_error m st) = errors st @ [m]" "warnings (add_error m st) = warnings st"
  "errors (add_warning m st) = errors st" "warnings (add_warning m st) = warnings st @ [m]"
  by (simp_all add: add_error_def add_warning_def)

lemma check_required_errors: "set (errors st) \<subseteq> set (errors (check_required mk req kvs st))"
  unfolding check_required_def by (induction req arbitrary: st) (auto, fastforce)

lemma check_required_warnings [simp]: "warnings (check_required mk req kvs st) = warnings st"
  unfolding check_required_def by (induction req arbitrary: st) auto


lemma observation_id_check_mono:
  assumes "observation_id_check eid kvs (st, seen) = Inr (st', seen')"
  shows "set (errors st) \<subseteq> set (errors st')" and "warnings st' = warnings st"
    and "list_member z seen \<Longrightarrow> list_member z seen'"
  using assms unfolding observation_id_check_def
  by (auto simp: bnd_eq_Inr set_add_def list_member_def list_ex_iff
      split: option.splits if_splits)

lemma observation_id_check_records:
  assumes "observation_id_check eid kvs (st, seen) = Inr (st', seen')"
    and "map_of kvs ''id'' = Some x"
  shows "hashable x" and "list_member x seen'"
  using assms unfolding observation_id_check_def
  by (auto simp: bnd_eq_Inr set_add_def set_member_def list_member_def list_ex_iff
      py_eq_refl_hashable split: if_splits)

lemma observation_id_check_reports:
  assumes "observation_id_check eid kvs (st, seen) = Inr (st', seen')"
    and "map_of kvs ''id'' = Some y" and "list_member y seen"
  shows "Observation (DuplicateObservationId eid y) \<in> set (errors st')"
proof -
  have "hashable y" using assms(1,2) by (rule observation_id_check_records(1))
  then have "set_member y seen = Inr True"
    using assms(3) by (simp add: set_member_def)
  then have "st' = add_error (Observation (DuplicateObservationId eid y)) st"
    using assms(1,2) unfolding observation_id_check_def by simp
  then show ?thesis by simp
qed

lemma observation_category_check_mono [simp]:
  "errors (observation_category_check cats eid kvs st) = errors st"
  unfolding observation_category_check_def by (simp split: option.splits)

lemma observation_severity_check_mono:
  "set (errors st) \<subseteq> set (errors (observation_severity_check eid kvs st))"
  "warnings (observation_severity_check eid kvs st) = warnings st"
  unfolding observation_severity_check_def by (auto split: option.splits)

lemma observation_description_check_mono:
  "observation_description_check eid idx kvs st = Inr st' \<Longrightarrow> errors st' = errors st"
  unfolding observation_description_check_def
  by (auto simp: bnd_eq_Inr split: option.splits if_splits)


lemma observation_step_split:
  assumes "observation_step cats eid idx (JObj kvs) (st, seen) = Inr (st', seen')"
  obtains st2 where
    "observation_id_check eid kvs
       (check_required (\<lambda>f. Observation (ObservationMissing eid idx f))
          [''id'', ''category'', ''description''] kvs st, seen) = Inr (st2, seen')"
    "observation_description_check eid idx kvs
       (observation_severity_check eid kvs (observation_category_check cats eid kvs st2)) = Inr st'"
  using assms unfolding observation_step_def
  by (auto simp: bnd_eq_Inr)

lemma observation_step_mono:
  assumes "observation_step cats eid idx obs (st, seen) = Inr (st', seen')"
  shows "set (errors st) \<subseteq> set (errors st')"
    and "list_member z seen \<Longrightarrow> list_member z seen'"
proof -
  show "set (errors st) \<subseteq> set (errors st')"
  proof (cases obs)
    case (JObj kvs)
    from assms[unfolded JObj] obtain st2 where
      a: "observation_id_check eid kvs
           (check_required (\<lambda>f. Observation (ObservationMissing eid idx f))
              [''id'', ''category'', ''description''] kvs st, seen) = Inr (st2, seen')"
      and b: "observation_description_check eid idx kvs
           (observation_severity_check eid kvs (observation_category_check cats eid kvs st2)) = Inr st'"
      by (rule observation_step_split)
    have "set (errors st) \<subseteq> set (errors st2)"
      using observation_id_check_mono(1)[OF a] check_required_errors by blast
    moreover have "set (errors st2) \<subseteq> set (errors st')"
      using observation_description_check_mono[OF b]
        observation_severity_check_mono(1)[of "observation_category_check cats eid kvs st2" eid kvs]
      by simp
    ultimately show ?thesis by blast
  qed (use assms in \<open>auto simp: observation_step_def\<close>)
  show "list_member z seen \<Longrightarrow> list_member z seen'"
  proof (cases obs)
    case (JObj kvs)
    assume z: "list_member z seen"
    from assms[unfolded JObj] obtain st2 where
      a: "observation_id_check eid kvs
           (check_required (\<lambda>f. Observation (ObservationMissing eid idx f))
              [''id'', ''category'', ''description''] kvs st, seen) = Inr (st2, seen')"
      by (rule observation_step_split)
    show ?thesis using observation_id_check_mono(3)[OF a z] .
  qed (use assms in \<open>auto simp: observation_step_def\<close>)
qed

lemma observation_step_records:
  assumes "observation_step cats eid idx (JObj kvs) (st, seen) = Inr (st', seen')"
    and "map_of kvs ''id'' = Some x"
  shows "hashable x" and "list_member x seen'"
proof -
  from assms(1) obtain st2 where
    a: "observation_id_check eid kvs
         (check_required (\<lambda>f. Observation (ObservationMissing eid idx f))
            [''id'', ''category'', ''description''] kvs st, seen) = Inr (st2, seen')"
    by (rule observation_step_split)
  show "hashable x" "list_member x seen'"
    using observation_id_check_records[OF a assms(2)] by simp_all
qed

lemma observation_step_reports:
  assumes "observation_step cats eid idx (JObj kvs) (st, seen) = Inr (st', seen')"
    and "map_of kvs ''id'' = Some y" and "list_member y seen"
  shows "Observation (DuplicateObservationId eid y) \<in> set (errors st')"
proof -
  from assms(1) obtain st2 where
    a: "observation_id_check eid kvs
         (check_required (\<lambda>f. Observation (ObservationMissing eid idx f))
            [''id'', ''category'', ''description''] kvs st, seen) = Inr (st2, seen')"
    and b: "observation_description_check eid idx kvs
         (observation_severity_check eid kvs (observation_category_check cats eid kvs st2)) = Inr st'"
    by (rule observation_step_split)
  have "Observation (DuplicateObservationId eid y) \<in> set (errors st2)"
    using observation_id_check_reports[OF a assms(2,3)] .
  moreover have "set (errors st2) \<subseteq> set (errors st')"
    using observation_description_check_mono[OF b]
      observation_severity_check_mono(1)[of "observation_category_check cats eid kvs st2" eid kvs]
    by simp
  ultimately show ?thesis by blast
qed

lemma observation_loop_mono:
  assumes "for_enum (observation_step cats eid) i obs acc = Inr acc'"
  shows "set (errors (fst acc)) \<subseteq> set (errors (fst acc')) \<and>
         (list_member z (snd acc) \<longrightarrow> list_member z (snd acc'))"
proof (rule for_enum_invariant[OF assms,
      where P = "\<lambda>t. set (errors (fst acc)) \<subseteq> set (errors (fst t)) \<and>
                     (list_member z (snd acc) \<longrightarrow> list_member z (snd t))"])
  show "set (errors (fst acc)) \<subseteq> set (errors (fst acc)) \<and>
        (list_member z (snd acc) \<longrightarrow> list_member z (snd acc))" by simp
next
  fix k x t t'
  assume p: "set (errors (fst acc)) \<subseteq> set (errors (fst t)) \<and>
        (list_member z (snd acc) \<longrightarrow> list_member z (snd t))"
    and step: "observation_step cats eid k x t = Inr t'"
  have step': "observation_step cats eid k x (fst t, snd t) = Inr (fst t', snd t')"
    using step by simp
  show "set (errors (fst acc)) \<subseteq> set (errors (fst t')) \<and>
        (list_member z (snd acc) \<longrightarrow> list_member z (snd t'))"
    using p observation_step_mono[OF step'] by blast
qed

lemma observation_loop_reports:
  assumes loop: "for_enum (observation_step cats eid) n obs acc = Inr acc'"
    and ij: "i < j" "j < length obs"
    and oi: "obs ! i = JObj a" "map_of a ''id'' = Some x"
    and oj: "obs ! j = JObj b" "map_of b ''id'' = Some y"
    and eq: "py_eq x y"
  shows "Observation (DuplicateObservationId eid y) \<in> set (errors (fst acc'))"
proof -
  have i: "i < length obs" using ij by simp
  have obs: "obs = (take i obs @ [JObj a]) @ (take (j - Suc i) (drop (Suc i) obs) @ [JObj b]) @ drop (Suc j) obs"
  proof -
    have 1: "obs = take i obs @ JObj a # drop (Suc i) obs"
      using id_take_nth_drop[OF i] oi(1) by simp
    have j': "j - Suc i < length (drop (Suc i) obs)" using ij by simp
    have nth: "drop (Suc i) obs ! (j - Suc i) = JObj b" using ij oj(1) by simp
    have 2: "drop (Suc i) obs = take (j - Suc i) (drop (Suc i) obs) @ JObj b # drop (Suc (j - Suc i)) (drop (Suc i) obs)"
      using id_take_nth_drop[OF j'] nth by simp
    have 3: "drop (Suc (j - Suc i)) (drop (Suc i) obs) = drop (Suc j) obs"
      using ij by simp
    show ?thesis using 1 2 3 by simp
  qed
  define pre where "pre = take i obs"
  define mid where "mid = take (j - Suc i) (drop (Suc i) obs)"
  define post where "post = drop (Suc j) obs"
  have obs': "obs = (pre @ [JObj a]) @ (mid @ [JObj b]) @ post"
    using obs by (simp add: pre_def mid_def post_def)
  from loop obtain t2 where
    l12: "for_enum (observation_step cats eid) n (pre @ [JObj a]) acc = Inr t2"
    and l345: "for_enum (observation_step cats eid) (n + length (pre @ [JObj a]))
                 ((mid @ [JObj b]) @ post) t2 = Inr acc'"
    unfolding obs' for_enum_append_Inr by blast
  from l12 obtain s1 where
    l1: "for_enum (observation_step cats eid) n pre acc = Inr s1"
    and l2: "observation_step cats eid (n + length pre) (JObj a) s1 = Inr t2"
    unfolding for_enum_append_Inr for_enum_single by blast
  from l345 obtain s4 where
    l34: "for_enum (observation_step cats eid) (n + length (pre @ [JObj a]))
            (mid @ [JObj b]) t2 = Inr s4"
    and l5: "for_enum (observation_step cats eid)
            (n + length (pre @ [JObj a]) + length (mid @ [JObj b])) post s4 = Inr acc'"
    unfolding for_enum_append_Inr by blast
  from l34 obtain s3 where
    l3: "for_enum (observation_step cats eid) (n + length (pre @ [JObj a])) mid t2 = Inr s3"
    and l4: "observation_step cats eid (n + length (pre @ [JObj a]) + length mid) (JObj b) s3 = Inr s4"
    unfolding for_enum_append_Inr for_enum_single by blast
  define s2 where "s2 = t2"
  note l2 = l2[folded s2_def] and l3 = l3[folded s2_def]
  have l2': "observation_step cats eid (n + length pre) (JObj a) (fst s1, snd s1) = Inr (fst s2, snd s2)"
    using l2 by simp
  have l4': "observation_step cats eid (n + length (pre @ [JObj a]) + length mid) (JObj b) (fst s3, snd s3) = Inr (fst s4, snd s4)"
    using l4 by simp
  have hx: "hashable x" and mx: "list_member x (snd s2)"
    using observation_step_records[OF l2' oi(2)] by simp_all
  have "list_member x (snd s3)"
    using observation_loop_mono[OF l3, of x] mx by simp
  then obtain z where z: "z \<in> set (snd s3)" "py_eq x z"
    by (auto simp: list_member_def list_ex_iff)
  have "py_eq y z" using py_eq_hashable_trans[OF hx eq z(2)] .
  then have "list_member y (snd s3)" using z(1) by (auto simp: list_member_def list_ex_iff)
  then have "Observation (DuplicateObservationId eid y) \<in> set (errors (fst s4))"
    using observation_step_reports[OF l4' oj(2)] by simp
  then show ?thesis using observation_loop_mono[OF l5, of y] by blast
qed


lemma entity_observations_mono:
  assumes "entity_observations cats entity st = Inr st'"
  shows "set (errors st) \<subseteq> set (errors st')"
proof (cases entity)
  case (JObj kvs)
  show ?thesis
  proof (cases "get_or kvs ''observations'' (JArr [])")
    case (JArr obs)
    from assms obtain r where
      r: "for_enum (observation_step cats (get_or kvs ''id'' (JStr ''unknown''))) 0 obs (st, []) = Inr r"
      and st': "st' = fst r"
      unfolding entity_observations_def JObj by (auto simp: JArr Let_def bnd_eq_Inr)
    show ?thesis using observation_loop_mono[OF r] st' by simp
  qed (use assms JObj in \<open>auto simp: entity_observations_def Let_def\<close>)
qed (use assms in \<open>auto simp: entity_observations_def\<close>)

lemma entity_observations_reports:
  assumes run: "entity_observations cats (JObj kvs) st = Inr st'"
    and obs: "map_of kvs ''observations'' = Some (JArr obs)"
    and ij: "i < j" "j < length obs"
    and oi: "obs ! i = JObj a" "map_of a ''id'' = Some x"
    and oj: "obs ! j = JObj b" "map_of b ''id'' = Some y"
    and eq: "py_eq x y"
  shows "Observation (DuplicateObservationId (get_or kvs ''id'' (JStr ''unknown'')) y)
           \<in> set (errors st')"
proof -
  have g: "get_or kvs ''observations'' (JArr []) = JArr obs"
    using obs by (simp add: get_or_def)
  from run obtain r where
    r: "for_enum (observation_step cats (get_or kvs ''id'' (JStr ''unknown''))) 0 obs (st, []) = Inr r"
    and st': "st' = fst r"
    unfolding entity_observations_def by (auto simp: g Let_def bnd_eq_Inr)
  show ?thesis
    using observation_loop_reports[OF r ij oi oj eq] st' by simp
qed

lemma entities_loop_mono:
  assumes "for_enum (\<lambda>i. entity_observations cats) n es st = Inr st'"
  shows "set (errors st) \<subseteq> set (errors st')"
proof (rule for_enum_invariant[OF assms, where P = "\<lambda>t. set (errors st) \<subseteq> set (errors t)"])
  show "set (errors st) \<subseteq> set (errors st)" by simp
next
  fix k x t t'
  assume "set (errors st) \<subseteq> set (errors t)" "entity_observations cats x t = Inr t'"
  then show "set (errors st) \<subseteq> set (errors t')"
    using entity_observations_mono by blast
qed

lemma validate_observations_reports_duplicate:
  assumes run: "validate_observations cats (JArr es) = Inr (ok, errs, warns)"
    and ent: "JObj kvs \<in> set es"
    and obs: "map_of kvs ''observations'' = Some (JArr obs)"
    and ij: "i < j" "j < length obs"
    and oi: "obs ! i = JObj a" "map_of a ''id'' = Some x"
    and oj: "obs ! j = JObj b" "map_of b ''id'' = Some y"
    and eq: "py_eq x y"
  shows "Observation (DuplicateObservationId (get_or kvs ''id'' (JStr ''unknown'')) y) \<in> set errs
         \<and> \<not> ok"
proof -
  from run obtain st where
    loop: "for_enum (\<lambda>i. entity_observations cats) 0 es no_findings = Inr st"
    and fin: "finish st = (ok, errs, warns)"
    unfolding validate_observations_def by (auto simp: bnd_eq_Inr)
  from ent obtain pre post where es: "es = pre @ [JObj kvs] @ post"
    by (auto dest: split_list)
  from loop obtain s1 where
    l1: "for_enum (\<lambda>i. entity_observations cats) 0 pre no_findings = Inr s1"
    and l23: "for_enum (\<lambda>i. entity_observations cats) (0 + length pre) ([JObj kvs] @ post) s1 = Inr st"
    unfolding es for_enum_append_Inr by blast
  from l23 obtain s2 where
    l2: "entity_observations cats (JObj kvs) s1 = Inr s2"
    and l3: "for_enum (\<lambda>i. entity_observations cats) (0 + length pre + length [JObj kvs]) post s2 = Inr st"
    unfolding for_enum_append_Inr for_enum_single by blast
  have "Observation (DuplicateObservationId (get_or kvs ''id'' (JStr ''unknown'')) y) \<in> set (errors s2)"
    using entity_observations_reports[OF l2 obs ij oi oj eq] .
  then have m: "Observation (DuplicateObservationId (get_or kvs ''id'' (JStr ''unknown'')) y) \<in> set (errors st)"
    using entities_loop_mono[OF l3] by blast
  have "errs = errors st" "ok = (errors st = [])"
    using fin by (auto simp: finish_def)
  then show ?thesis using m by auto
qed

section \<open>Duplicate observation ids\<close>

text \<open>
  C9 (as amended). The claim says that only the C1 validator reports a duplicated
  observation id and that the C2 and C3 validators emit no finding for it. All three
  scripts keep \<^verbatim>\<open>seen_obs_ids\<close> and append to \<^verbatim>\<open>errors\<close>: whenever one of the
  three \<^verbatim>\<open>validate_observations\<close> returns, and an entity of the list has two
  observations (both dicts) at positions \<open>i < j\<close> whose ids are equal under \<^verbatim>\<open>==\<close>,
  the errors contain the duplicate-observation-id message for that entity and the checker
  reports the list as invalid.
\<close>

theorem duplicate_observation_ids_are_errors_in_every_layer:
  assumes "V = validate_observations_c1 \<or> V = validate_observations_c2 \<or>
           V = validate_observations_c3"
    and "V (JArr es) = Inr (ok, errs, warns)"
    and "JObj kvs \<in> set es"
    and "map_of kvs ''observations'' = Some (JArr obs)"
    and "i < j" and "j < length obs"
    and "obs ! i = JObj a" and "map_of a ''id'' = Some x"
    and "obs ! j = JObj b" and "map_of b ''id'' = Some y"
    and "py_eq x y"
  shows "Observation (DuplicateObservationId (get_or kvs ''id'' (JStr ''unknown'')) y) \<in> set errs
         \<and> \<not> ok"
proof -
  from assms(1,2) obtain cats where "validate_observations cats (JArr es) = Inr (ok, errs, warns)"
    unfolding validate_observations_c1_def validate_observations_c2_def
      validate_observations_c3_def by blast
  then show ?thesis
    by (rule validate_observations_reports_duplicate) (use assms in simp_all)
qed


text \<open>The theorem at the example entity, for the C3 validator.\<close>

theorem duplicate_observation_ids_are_errors_witness:
  "\<exists>errs warns.
     validate_observations_c3 demo_entities_duplicate_observation = Inr (False, errs, warns) \<and>
     Observation (DuplicateObservationId (JStr ''web'') (JStr ''obs-1'')) \<in> set errs"
proof -
  have run: "validate_observations_c3 (JArr [JObj demo_entity_items]) =
      Inr (False, [Observation (DuplicateObservationId (JStr ''web'') (JStr ''obs-1''))], [])"
    by code_simp
  have "Observation (DuplicateObservationId (get_or demo_entity_items ''id'' (JStr ''unknown''))
          (JStr ''obs-1''))
        \<in> set [Observation (DuplicateObservationId (JStr ''web'') (JStr ''obs-1''))] \<and> \<not> False"
    by (rule duplicate_observation_ids_are_errors_in_every_layer
          [where V = validate_observations_c3 and obs = "[demo_observation, demo_observation]"
             and i = 0 and j = 1 and a = demo_observation_items and b = demo_observation_items
             and x = "JStr ''obs-1''", OF _ run])
       (simp_all add: demo_entity_items_def demo_observation_items_def demo_observation_def)
  then show ?thesis
    using run by (simp add: demo_entities_duplicate_observation_def)
qed

text \<open>
  C9 as stated fails: on the example entity the C2 and the C3 validator each return the
  duplicate-observation-id error.
\<close>

theorem c2_c3_report_duplicate_observation_id:
  "validate_observations_c2 demo_entities_duplicate_observation =
     Inr (False, [Observation (DuplicateObservationId (JStr ''web'') (JStr ''obs-1''))], []) \<and>
   validate_observations_c3 demo_entities_duplicate_observation =
     Inr (False, [Observation (DuplicateObservationId (JStr ''web'') (JStr ''obs-1''))], [])"
  by code_simp


subsection \<open>What \<^verbatim>\<open>main\<close> returns\<close>

lemma finish_valid: "finish st = (v, es, ws) \<Longrightarrow> v = (es = [])"
  by (auto simp: finish_def)

lemma validate_observations_valid:
  "validate_observations cats xs = Inr (v, es, ws) \<Longrightarrow> v = (es = [])"
  unfolding validate_observations_def by (auto simp: bnd_eq_Inr dest: finish_valid)

lemma validate_systems_valid:
  "validate_systems xs repos = Inr (v, es, ws) \<Longrightarrow> v = (es = [])"
  unfolding validate_systems_def by (auto simp: bnd_eq_Inr dest: finish_valid split: if_splits)

lemma validate_containers_valid:
  "validate_containers xs ids = Inr (v, es, ws) \<Longrightarrow> v = (es = [])"
  unfolding validate_containers_def by (auto simp: bnd_eq_Inr dest: finish_valid split: if_splits)

lemma validate_components_valid:
  "validate_components xs ids = Inr (v, es, ws) \<Longrightarrow> v = (es = [])"
  unfolding validate_components_def by (auto simp: bnd_eq_Inr dest: finish_valid split: if_splits)

lemma validate_relations_c1_valid:
  "validate_relations_c1 ord d xs = Inr (v, es, ws) \<Longrightarrow> v = (es = [])"
  unfolding validate_relations_c1_def by (auto simp: bnd_eq_Inr dest: finish_valid)

lemma validate_relations_c2_valid:
  "validate_relations_c2 xs = Inr (v, es, ws) \<Longrightarrow> v = (es = [])"
  unfolding validate_relations_c2_def by (auto simp: bnd_eq_Inr dest: finish_valid)

lemma validate_relations_c3_valid:
  "validate_relations_c3 xs = Inr (v, es, ws) \<Longrightarrow> v = (es = [])"
  unfolding validate_relations_c3_def
  by (auto simp: bnd_eq_Inr dest: finish_valid split: prod.splits)

lemma exit_code_aggregate:
  "fst (exit_code (\<not> (e1 = []) \<or> \<not> (e2 = []) \<or> \<not> (e3 = []))
          (w1 \<noteq> [] \<or> w2 \<noteq> [] \<or> w3 \<noteq> [] \<or> w4 \<noteq> [])) =
   aggregate (e1 @ e2 @ e3) (w1 @ w2 @ w3 @ w4)"
  by (simp add: exit_code_def aggregate_def)

lemma main_c1_after_lineage:
  assumes "stdin e = Document data"
    and "validate_parent_reference_c1 e data (knowledge_base_path e ''init.json'') = Inr (True, l)"
    and "py_get data ''systems'' (JArr []) = Inr systems"
    and "validate_systems systems (load_init_repos (fs e) (knowledge_base_path e ''init.json''))
           = Inr (v1, e1, w1)"
    and "validate_observations_c1 systems = Inr (v2, e2, w2)"
    and "validate_relations_c1 (set_order e) (recursion_depth e) systems = Inr (v3, e3, w3)"
    and "py_iter systems = Inr xs"
  shows "main_c1 e =
     Inr (aggregate (e1 @ e2 @ e3) (w1 @ w2 @ w3 @ concat (map empty_collections xs)),
          stage_output ''systems'' (v1, e1, w1) @ stage_output ''observations'' (v2, e2, w2) @
          stage_output ''relations'' (v3, e3, w3) @
          map PrintWarning (concat (map empty_collections xs)) @
          snd (exit_code (e1 @ e2 @ e3 \<noteq> [])
                 (w1 @ w2 @ w3 @ concat (map empty_collections xs) \<noteq> [])))"
proof -
  have v: "v1 = (e1 = [])" "v2 = (e2 = [])" "v3 = (e3 = [])"
    using assms(4,5,6) validate_systems_valid validate_observations_valid
      validate_relations_c1_valid unfolding validate_observations_c1_def by blast+
  show ?thesis
    unfolding main_c1_def checks_c1_def
    by (simp add: assms Let_def v exit_code_aggregate[symmetric] del: append_is_Nil_conv)
       (simp add: exit_code_def)
qed

lemma main_c2_after_lineage:
  assumes "stdin e = Document data"
    and "validate_parent_reference_c2 e data (knowledge_base_path e ''c1-systems.json'')
           = Inr (True, l, ts)"
    and "py_get data ''containers'' (JArr []) = Inr containers"
    and "validate_containers containers
           (load_c1_system_ids (fs e) (knowledge_base_path e ''c1-systems.json''))
           = Inr (v1, e1, w1)"
    and "validate_observations_c2 containers = Inr (v2, e2, w2)"
    and "validate_relations_c2 containers = Inr (v3, e3, w3)"
    and "childless_parents (set_order e) ''system_id'' containers
           (load_c1_system_ids (fs e) (knowledge_base_path e ''c1-systems.json'')) = Inr extra"
  shows "main_c2 e =
     Inr (aggregate (e1 @ e2 @ e3) (w1 @ w2 @ w3 @ extra),
          stage_output ''containers'' (v1, e1, w1) @ stage_output ''observations'' (v2, e2, w2) @
          stage_output ''relations'' (v3, e3, w3) @ map PrintWarning extra @
          snd (exit_code (e1 @ e2 @ e3 \<noteq> []) (w1 @ w2 @ w3 @ extra \<noteq> [])))"
proof -
  have v: "v1 = (e1 = [])" "v2 = (e2 = [])" "v3 = (e3 = [])"
    using assms(4,5,6) validate_containers_valid validate_observations_valid
      validate_relations_c2_valid unfolding validate_observations_c2_def by blast+
  show ?thesis
    unfolding main_c2_def checks_c2_def
    by (simp add: assms Let_def v exit_code_aggregate[symmetric] del: append_is_Nil_conv)
       (simp add: exit_code_def)
qed

lemma main_c3_after_lineage:
  assumes "stdin e = Document data"
    and "validate_parent_reference_c3 e data (knowledge_base_path e ''c2-containers.json'')
           = Inr (True, l)"
    and "load_c2_container_ids (fs e) (knowledge_base_path e ''c2-containers.json'') = Inr ids"
    and "py_get data ''components'' (JArr []) = Inr components"
    and "validate_components components ids = Inr (v1, e1, w1)"
    and "validate_observations_c3 components = Inr (v2, e2, w2)"
    and "validate_relations_c3 components = Inr (v3, e3, w3)"
    and "childless_parents (set_order e) ''container_id'' components ids = Inr extra"
  shows "main_c3 e =
     Inr (aggregate (e1 @ e2 @ e3) (w1 @ w2 @ w3 @ extra),
          stage_output ''components'' (v1, e1, w1) @ stage_output ''observations'' (v2, e2, w2) @
          stage_output ''relations'' (v3, e3, w3) @ map PrintWarning extra @
          snd (exit_code (e1 @ e2 @ e3 \<noteq> []) (w1 @ w2 @ w3 @ extra \<noteq> [])))"
proof -
  have v: "v1 = (e1 = [])" "v2 = (e2 = [])" "v3 = (e3 = [])"
    using assms(5,6,7) validate_components_valid validate_observations_valid
      validate_relations_c3_valid unfolding validate_observations_c3_def by blast+
  show ?thesis
    unfolding main_c3_def checks_c3_def
    by (simp add: assms Let_def v exit_code_aggregate[symmetric] del: append_is_Nil_conv)
       (simp add: exit_code_def)
qed

lemma main_c1_lineage_failed:
  assumes "stdin e = Document data"
    and "validate_parent_reference_c1 e data (knowledge_base_path e ''init.json'')
           = Inr (False, errs)"
  shows "main_c1 e = Inr (2, map lineage_output errs)"
  unfolding main_c1_def by (simp add: assms)

lemma main_c2_lineage_failed:
  assumes "stdin e = Document data"
    and "validate_parent_reference_c2 e data (knowledge_base_path e ''c1-systems.json'')
           = Inr (False, errs, ts)"
  shows "main_c2 e = Inr (2, map lineage_output errs)"
  unfolding main_c2_def by (simp add: assms)

lemma main_c3_lineage_failed:
  assumes "stdin e = Document data"
    and "validate_parent_reference_c3 e data (knowledge_base_path e ''c2-containers.json'')
           = Inr (False, errs)"
  shows "main_c3 e = Inr (2, map lineage_output errs)"
  unfolding main_c3_def by (simp add: assms)

section \<open>The exit code\<close>

text \<open>
  The aggregation on the runs in which every checker returns. The document on standard
  input parses, \<^verbatim>\<open>validate_parent_reference\<close> returns valid, and the three checkers
  return their accumulators \<open>(e1, w1)\<close>, \<open>(e2, w2)\<close>, \<open>(e3, w3)\<close>; then \<^verbatim>\<open>main\<close>
  returns, and its exit code is the specification's \<open>aggregate\<close> of all the errors and of
  all the warnings, those that \<^verbatim>\<open>main\<close> itself adds in its last loop included. The same
  holds in the three scripts. A run in which a checker raises is not covered: see below.
\<close>

theorem exit_code_is_aggregate_of_findings:
  "(\<forall>e data l systems v1 e1 w1 v2 e2 w2 v3 e3 w3 xs.
      stdin e = Document data \<and>
      validate_parent_reference_c1 e data (knowledge_base_path e ''init.json'') = Inr (True, l) \<and>
      py_get data ''systems'' (JArr []) = Inr systems \<and>
      validate_systems systems (load_init_repos (fs e) (knowledge_base_path e ''init.json''))
        = Inr (v1, e1, w1) \<and>
      validate_observations_c1 systems = Inr (v2, e2, w2) \<and>
      validate_relations_c1 (set_order e) (recursion_depth e) systems = Inr (v3, e3, w3) \<and>
      py_iter systems = Inr xs
      \<longrightarrow> (\<exists>printed. main_c1 e =
             Inr (aggregate (e1 @ e2 @ e3) (w1 @ w2 @ w3 @ concat (map empty_collections xs)),
                  printed))) \<and>
   (\<forall>e data l ts containers v1 e1 w1 v2 e2 w2 v3 e3 w3 extra.
      stdin e = Document data \<and>
      validate_parent_reference_c2 e data (knowledge_base_path e ''c1-systems.json'')
        = Inr (True, l, ts) \<and>
      py_get data ''containers'' (JArr []) = Inr containers \<and>
      validate_containers containers
        (load_c1_system_ids (fs e) (knowledge_base_path e ''c1-systems.json''))
        = Inr (v1, e1, w1) \<and>
      validate_observations_c2 containers = Inr (v2, e2, w2) \<and>
      validate_relations_c2 containers = Inr (v3, e3, w3) \<and>
      childless_parents (set_order e) ''system_id'' containers
        (load_c1_system_ids (fs e) (knowledge_base_path e ''c1-systems.json'')) = Inr extra
      \<longrightarrow> (\<exists>printed. main_c2 e =
             Inr (aggregate (e1 @ e2 @ e3) (w1 @ w2 @ w3 @ extra), printed))) \<and>
   (\<forall>e data l ids components v1 e1 w1 v2 e2 w2 v3 e3 w3 extra.
      stdin e = Document data \<and>
      validate_parent_reference_c3 e data (knowledge_base_path e ''c2-containers.json'')
        = Inr (True, l) \<and>
      load_c2_container_ids (fs e) (knowledge_base_path e ''c2-containers.json'') = Inr ids \<and>
      py_get data ''components'' (JArr []) = Inr components \<and>
      validate_components components ids = Inr (v1, e1, w1) \<and>
      validate_observations_c3 components = Inr (v2, e2, w2) \<and>
      validate_relations_c3 components = Inr (v3, e3, w3) \<and>
      childless_parents (set_order e) ''container_id'' components ids = Inr extra
      \<longrightarrow> (\<exists>printed. main_c3 e =
             Inr (aggregate (e1 @ e2 @ e3) (w1 @ w2 @ w3 @ extra), printed)))"
proof (intro conjI allI impI; elim conjE)
  fix e :: env and data l systems v1 e1 w1 v2 e2 w2 v3 e3 w3 xs
  assume "stdin e = Document data"
    and "validate_parent_reference_c1 e data (knowledge_base_path e ''init.json'') = Inr (True, l)"
    and "py_get data ''systems'' (JArr []) = Inr systems"
    and "validate_systems systems (load_init_repos (fs e) (knowledge_base_path e ''init.json''))
           = Inr (v1, e1, w1)"
    and "validate_observations_c1 systems = Inr (v2, e2, w2)"
    and "validate_relations_c1 (set_order e) (recursion_depth e) systems = Inr (v3, e3, w3)"
    and "py_iter systems = Inr xs"
  then show "\<exists>printed. main_c1 e =
      Inr (aggregate (e1 @ e2 @ e3) (w1 @ w2 @ w3 @ concat (map empty_collections xs)), printed)"
    by (simp add: main_c1_after_lineage)
next
  fix e :: env and data l ts containers v1 e1 w1 v2 e2 w2 v3 e3 w3 extra
  assume "stdin e = Document data"
    and "validate_parent_reference_c2 e data (knowledge_base_path e ''c1-systems.json'')
           = Inr (True, l, ts)"
    and "py_get data ''containers'' (JArr []) = Inr containers"
    and "validate_containers containers
           (load_c1_system_ids (fs e) (knowledge_base_path e ''c1-systems.json''))
           = Inr (v1, e1, w1)"
    and "validate_observations_c2 containers = Inr (v2, e2, w2)"
    and "validate_relations_c2 containers = Inr (v3, e3, w3)"
    and "childless_parents (set_order e) ''system_id'' containers
           (load_c1_system_ids (fs e) (knowledge_base_path e ''c1-systems.json'')) = Inr extra"
  then show "\<exists>printed. main_c2 e =
      Inr (aggregate (e1 @ e2 @ e3) (w1 @ w2 @ w3 @ extra), printed)"
    by (simp add: main_c2_after_lineage)
next
  fix e :: env and data l ids components v1 e1 w1 v2 e2 w2 v3 e3 w3 extra
  assume "stdin e = Document data"
    and "validate_parent_reference_c3 e data (knowledge_base_path e ''c2-containers.json'')
           = Inr (True, l)"
    and "load_c2_container_ids (fs e) (knowledge_base_path e ''c2-containers.json'') = Inr ids"
    and "py_get data ''components'' (JArr []) = Inr components"
    and "validate_components components ids = Inr (v1, e1, w1)"
    and "validate_observations_c3 components = Inr (v2, e2, w2)"
    and "validate_relations_c3 components = Inr (v3, e3, w3)"
    and "childless_parents (set_order e) ''container_id'' components ids = Inr extra"
  then show "\<exists>printed. main_c3 e =
      Inr (aggregate (e1 @ e2 @ e3) (w1 @ w2 @ w3 @ extra), printed)"
    by (simp add: main_c3_after_lineage)
qed

text \<open>
  At the example run of the C1 script: no errors, one warning (the cycle), exit code 1.
\<close>

theorem exit_code_is_aggregate_witness:
  "\<exists>printed. main_c1 demo_env_c1 = Inr (1, printed)"
proof -
  let ?w = "[Relation (CircularDependency [JStr ''a'', JStr ''b'', JStr ''c'', JStr ''a''])]"
  have h: "stdin demo_env_c1 = Document demo_c1 \<and>
      validate_parent_reference_c1 demo_env_c1 demo_c1
        (knowledge_base_path demo_env_c1 ''init.json'') = Inr (True, []) \<and>
      py_get demo_c1 ''systems'' (JArr []) = Inr demo_systems \<and>
      validate_systems demo_systems
        (load_init_repos (fs demo_env_c1) (knowledge_base_path demo_env_c1 ''init.json''))
        = Inr (True, [], []) \<and>
      validate_observations_c1 demo_systems = Inr (True, [], []) \<and>
      validate_relations_c1 (set_order demo_env_c1) (recursion_depth demo_env_c1) demo_systems
        = Inr (True, [], ?w) \<and>
      py_iter demo_systems =
        Inr [demo_system ''a'' ''b'', demo_system ''b'' ''c'', demo_system ''c'' ''a'']"
    by code_simp
  have x: "concat (map empty_collections
             [demo_system ''a'' ''b'', demo_system ''b'' ''c'', demo_system ''c'' ''a'']) = []"
    by code_simp
  from exit_code_is_aggregate_of_findings[THEN conjunct1, rule_format, OF h]
  show ?thesis by (simp add: x aggregate_def)
qed

text \<open>
  C1. For every validation run that passes the lineage stage, the process exit code is 2
  if any checker accumulated at least one error, else 1 if at least one warning was
  accumulated, else 0, and the mapping is the same for the C1, C2 and C3 validators. The
  C1 script breaks this on a document whose \<^verbatim>\<open>systems\<close> is \<^verbatim>\<open>null\<close>: the lineage
  check passes, \<^verbatim>\<open>validate_systems\<close> takes its early return with the error that no
  systems were found (and \<^verbatim>\<open>main\<close> prints it), then \<^verbatim>\<open>validate_observations\<close>
  iterates \<^verbatim>\<open>None\<close> and raises \<^verbatim>\<open>TypeError\<close>, which nothing catches: the process
  ends with status 1, where the aggregate of the error found is 2. With \<^verbatim>\<open>systems\<close> the
  empty list, the same early return is followed by exit code 2.
\<close>

theorem null_systems_run_exits_1:
  "validate_parent_reference_c1 (demo_env_lineage demo_c1_null_systems) demo_c1_null_systems
     (knowledge_base_path (demo_env_lineage demo_c1_null_systems) ''init.json'')
     = Inr (True, []) \<and>
   validate_systems JNull
     (load_init_repos (fs (demo_env_lineage demo_c1_null_systems))
        (knowledge_base_path (demo_env_lineage demo_c1_null_systems) ''init.json''))
     = Inr (False, [Entity NoEntitiesFound], []) \<and>
   validate_observations_c1 JNull = Inl TypeError \<and>
   main_c1 (demo_env_lineage demo_c1_null_systems) = Inl TypeError \<and>
   exit_status (main_c1 (demo_env_lineage demo_c1_null_systems)) = 1 \<and>
   aggregate [Entity NoEntitiesFound] [] = 2 \<and>
   exit_status (main_c1 (demo_env_lineage demo_c1_no_systems)) = 2"
  by code_simp

subsection \<open>The lineage check builds lineage messages only\<close>

lemma parent_timestamp_lineage:
  "parent_timestamp files path hint = Inr (Inl errs) \<Longrightarrow> list_all is_lineage errs"
  unfolding parent_timestamp_def
  by (auto simp: bnd_eq_Inr split: if_splits sum.splits)

lemma declared_parent_check_lineage:
  "declared_parent_check metadata pts = Inr errs \<Longrightarrow> list_all is_lineage errs"
  unfolding declared_parent_check_def
  by (auto simp: bnd_eq_Inr split: if_splits)

lemma timestamp_order_check_lineage:
  assumes "timestamp_order_check isoparse metadata pts tail = Inr errs"
    and "list_all is_lineage tail"
  shows "list_all is_lineage errs"
proof -
  from assms(1) obtain has where has: "py_in ''timestamp'' metadata = Inr has"
    unfolding timestamp_order_check_def by (auto simp: bnd_eq_Inr)
  show ?thesis
  proof (cases has)
    case False
    then show ?thesis using assms(1) has unfolding timestamp_order_check_def by simp
  next
    case True
    then show ?thesis
      using assms has unfolding timestamp_order_check_def
      by (auto simp: bnd_eq_Inr split: sum.splits if_splits)
  qed
qed

lemma validate_parent_reference_c1_lineage:
  assumes "validate_parent_reference_c1 e data path = Inr (ok, errs)"
  shows "list_all is_lineage errs"
proof -
  from assms obtain r where r: "parent_timestamp (fs e) path ''Run /melly-init first'' = Inr r"
    unfolding validate_parent_reference_c1_def by (auto simp: bnd_eq_Inr)
  show ?thesis
  proof (cases r)
    case (Inl x)
    then show ?thesis
      using assms r parent_timestamp_lineage[of "fs e" path _ x]
      unfolding validate_parent_reference_c1_def by auto
  next
    case (Inr pts)
    then show ?thesis
      using assms r unfolding validate_parent_reference_c1_def
      by (auto simp: bnd_eq_Inr split: if_splits
          dest: declared_parent_check_lineage timestamp_order_check_lineage)
  qed
qed

lemma validate_parent_reference_c2_lineage:
  assumes "validate_parent_reference_c2 e data path = Inr (ok, errs, ts)"
  shows "list_all is_lineage errs"
proof -
  from assms obtain r where
    r: "parent_timestamp (fs e) path ''Run /melly-c1-systems first'' = Inr r"
    unfolding validate_parent_reference_c2_def by (auto simp: bnd_eq_Inr)
  show ?thesis
  proof (cases r)
    case (Inl x)
    then show ?thesis
      using assms r parent_timestamp_lineage[of "fs e" path _ x]
      unfolding validate_parent_reference_c2_def by auto
  next
    case (Inr pts)
    then show ?thesis
      using assms r unfolding validate_parent_reference_c2_def
      by (auto simp: bnd_eq_Inr split: if_splits dest: timestamp_order_check_lineage)
  qed
qed

lemma validate_parent_reference_c3_lineage:
  assumes "validate_parent_reference_c3 e data path = Inr (ok, errs)"
  shows "list_all is_lineage errs"
proof -
  from assms obtain r where
    r: "parent_timestamp (fs e) path ''Run /melly-c2-containers first'' = Inr r"
    unfolding validate_parent_reference_c3_def by (auto simp: bnd_eq_Inr)
  show ?thesis
  proof (cases r)
    case (Inl x)
    then show ?thesis
      using assms r parent_timestamp_lineage[of "fs e" path _ x]
      unfolding validate_parent_reference_c3_def by auto
  next
    case (Inr pts)
    then show ?thesis
      using assms r unfolding validate_parent_reference_c3_def
      by (auto simp: bnd_eq_Inr split: if_splits dest: timestamp_order_check_lineage)
  qed
qed

subsection \<open>A parent file that is missing or does not load\<close>

lemma parent_timestamp_no_parent:
  assumes "files path = None \<or> files path = Some Unreadable \<or> files path = Some Malformed"
  shows "\<exists>errs. parent_timestamp files path hint = Inr (Inl errs) \<and> errs \<noteq> []"
  using assms unfolding parent_timestamp_def load_json_def by auto

section \<open>Lineage failure stops the run\<close>

text \<open>
  C3. For every validation run in which the lineage check fails, the run terminates with
  exit code 2 and the schema, referential-integrity and cycle checks produce no findings
  at all; lineage is the only stage that short-circuits the rest. Here, for each of the
  three scripts: when \<^verbatim>\<open>validate_parent_reference\<close> returns invalid, \<^verbatim>\<open>main\<close> returns 2
  and has printed the lineage check's lines and nothing else, all of them lineage
  messages. And when it returns valid and the three checkers return, everything each of
  them found is printed, in order, whatever the earlier ones found: no other stage cuts
  the run short.
\<close>

theorem lineage_failure_short_circuits:
  "(\<forall>e data errs.
      stdin e = Document data \<and>
      validate_parent_reference_c1 e data (knowledge_base_path e ''init.json'')
        = Inr (False, errs)
      \<longrightarrow> main_c1 e = Inr (2, map lineage_output errs) \<and> list_all is_lineage errs) \<and>
   (\<forall>e data errs ts.
      stdin e = Document data \<and>
      validate_parent_reference_c2 e data (knowledge_base_path e ''c1-systems.json'')
        = Inr (False, errs, ts)
      \<longrightarrow> main_c2 e = Inr (2, map lineage_output errs) \<and> list_all is_lineage errs) \<and>
   (\<forall>e data errs.
      stdin e = Document data \<and>
      validate_parent_reference_c3 e data (knowledge_base_path e ''c2-containers.json'')
        = Inr (False, errs)
      \<longrightarrow> main_c3 e = Inr (2, map lineage_output errs) \<and> list_all is_lineage errs) \<and>
   (\<forall>e data l systems r1 r2 r3 xs.
      stdin e = Document data \<and>
      validate_parent_reference_c1 e data (knowledge_base_path e ''init.json'') = Inr (True, l) \<and>
      py_get data ''systems'' (JArr []) = Inr systems \<and>
      validate_systems systems (load_init_repos (fs e) (knowledge_base_path e ''init.json''))
        = Inr r1 \<and>
      validate_observations_c1 systems = Inr r2 \<and>
      validate_relations_c1 (set_order e) (recursion_depth e) systems = Inr r3 \<and>
      py_iter systems = Inr xs
      \<longrightarrow> (\<exists>code summary. main_c1 e =
             Inr (code, stage_output ''systems'' r1 @ stage_output ''observations'' r2 @
                        stage_output ''relations'' r3 @
                        map PrintWarning (concat (map empty_collections xs)) @ summary))) \<and>
   (\<forall>e data l ts containers r1 r2 r3 extra.
      stdin e = Document data \<and>
      validate_parent_reference_c2 e data (knowledge_base_path e ''c1-systems.json'')
        = Inr (True, l, ts) \<and>
      py_get data ''containers'' (JArr []) = Inr containers \<and>
      validate_containers containers
        (load_c1_system_ids (fs e) (knowledge_base_path e ''c1-systems.json'')) = Inr r1 \<and>
      validate_observations_c2 containers = Inr r2 \<and>
      validate_relations_c2 containers = Inr r3 \<and>
      childless_parents (set_order e) ''system_id'' containers
        (load_c1_system_ids (fs e) (knowledge_base_path e ''c1-systems.json'')) = Inr extra
      \<longrightarrow> (\<exists>code summary. main_c2 e =
             Inr (code, stage_output ''containers'' r1 @ stage_output ''observations'' r2 @
                        stage_output ''relations'' r3 @ map PrintWarning extra @ summary))) \<and>
   (\<forall>e data l ids components r1 r2 r3 extra.
      stdin e = Document data \<and>
      validate_parent_reference_c3 e data (knowledge_base_path e ''c2-containers.json'')
        = Inr (True, l) \<and>
      load_c2_container_ids (fs e) (knowledge_base_path e ''c2-containers.json'') = Inr ids \<and>
      py_get data ''components'' (JArr []) = Inr components \<and>
      validate_components components ids = Inr r1 \<and>
      validate_observations_c3 components = Inr r2 \<and>
      validate_relations_c3 components = Inr r3 \<and>
      childless_parents (set_order e) ''container_id'' components ids = Inr extra
      \<longrightarrow> (\<exists>code summary. main_c3 e =
             Inr (code, stage_output ''components'' r1 @ stage_output ''observations'' r2 @
                        stage_output ''relations'' r3 @ map PrintWarning extra @ summary)))"
proof (intro conjI allI impI; elim conjE)
  fix e :: env and data errs
  assume "stdin e = Document data"
    and "validate_parent_reference_c1 e data (knowledge_base_path e ''init.json'')
           = Inr (False, errs)"
  then show "main_c1 e = Inr (2, map lineage_output errs)"
    by (rule main_c1_lineage_failed)
next
  fix e :: env and data errs
  assume "stdin e = Document data"
    and "validate_parent_reference_c1 e data (knowledge_base_path e ''init.json'')
           = Inr (False, errs)"
  then show "list_all is_lineage errs"
    using validate_parent_reference_c1_lineage by blast
next
  fix e :: env and data errs ts
  assume "stdin e = Document data"
    and "validate_parent_reference_c2 e data (knowledge_base_path e ''c1-systems.json'')
           = Inr (False, errs, ts)"
  then show "main_c2 e = Inr (2, map lineage_output errs)"
    by (rule main_c2_lineage_failed)
next
  fix e :: env and data errs ts
  assume "stdin e = Document data"
    and "validate_parent_reference_c2 e data (knowledge_base_path e ''c1-systems.json'')
           = Inr (False, errs, ts)"
  then show "list_all is_lineage errs"
    using validate_parent_reference_c2_lineage by blast
next
  fix e :: env and data errs
  assume "stdin e = Document data"
    and "validate_parent_reference_c3 e data (knowledge_base_path e ''c2-containers.json'')
           = Inr (False, errs)"
  then show "main_c3 e = Inr (2, map lineage_output errs)"
    by (rule main_c3_lineage_failed)
next
  fix e :: env and data errs
  assume "stdin e = Document data"
    and "validate_parent_reference_c3 e data (knowledge_base_path e ''c2-containers.json'')
           = Inr (False, errs)"
  then show "list_all is_lineage errs"
    using validate_parent_reference_c3_lineage by blast
next
  fix e :: env and data l systems r1 r2 r3 xs
  assume a: "stdin e = Document data"
    "validate_parent_reference_c1 e data (knowledge_base_path e ''init.json'') = Inr (True, l)"
    "py_get data ''systems'' (JArr []) = Inr systems"
    "validate_systems systems (load_init_repos (fs e) (knowledge_base_path e ''init.json''))
       = Inr r1"
    "validate_observations_c1 systems = Inr r2"
    "validate_relations_c1 (set_order e) (recursion_depth e) systems = Inr r3"
    "py_iter systems = Inr xs"
  obtain v1 e1 w1 v2 e2 w2 v3 e3 w3 where
    r: "r1 = (v1, e1, w1)" "r2 = (v2, e2, w2)" "r3 = (v3, e3, w3)"
    by (metis prod_cases3)
  show "\<exists>code summary. main_c1 e =
      Inr (code, stage_output ''systems'' r1 @ stage_output ''observations'' r2 @
                 stage_output ''relations'' r3 @
                 map PrintWarning (concat (map empty_collections xs)) @ summary)"
    using main_c1_after_lineage[OF a(1,2,3) a(4)[unfolded r] a(5)[unfolded r] a(6)[unfolded r] a(7)]
    unfolding r by blast
next
  fix e :: env and data l ts containers r1 r2 r3 extra
  assume a: "stdin e = Document data"
    "validate_parent_reference_c2 e data (knowledge_base_path e ''c1-systems.json'')
       = Inr (True, l, ts)"
    "py_get data ''containers'' (JArr []) = Inr containers"
    "validate_containers containers
       (load_c1_system_ids (fs e) (knowledge_base_path e ''c1-systems.json'')) = Inr r1"
    "validate_observations_c2 containers = Inr r2"
    "validate_relations_c2 containers = Inr r3"
    "childless_parents (set_order e) ''system_id'' containers
       (load_c1_system_ids (fs e) (knowledge_base_path e ''c1-systems.json'')) = Inr extra"
  obtain v1 e1 w1 v2 e2 w2 v3 e3 w3 where
    r: "r1 = (v1, e1, w1)" "r2 = (v2, e2, w2)" "r3 = (v3, e3, w3)"
    by (metis prod_cases3)
  show "\<exists>code summary. main_c2 e =
      Inr (code, stage_output ''containers'' r1 @ stage_output ''observations'' r2 @
                 stage_output ''relations'' r3 @ map PrintWarning extra @ summary)"
    using main_c2_after_lineage[OF a(1,2,3) a(4)[unfolded r] a(5)[unfolded r] a(6)[unfolded r] a(7)]
    unfolding r by blast
next
  fix e :: env and data l ids components r1 r2 r3 extra
  assume a: "stdin e = Document data"
    "validate_parent_reference_c3 e data (knowledge_base_path e ''c2-containers.json'')
       = Inr (True, l)"
    "load_c2_container_ids (fs e) (knowledge_base_path e ''c2-containers.json'') = Inr ids"
    "py_get data ''components'' (JArr []) = Inr components"
    "validate_components components ids = Inr r1"
    "validate_observations_c3 components = Inr r2"
    "validate_relations_c3 components = Inr r3"
    "childless_parents (set_order e) ''container_id'' components ids = Inr extra"
  obtain v1 e1 w1 v2 e2 w2 v3 e3 w3 where
    r: "r1 = (v1, e1, w1)" "r2 = (v2, e2, w2)" "r3 = (v3, e3, w3)"
    by (metis prod_cases3)
  show "\<exists>code summary. main_c3 e =
      Inr (code, stage_output ''components'' r1 @ stage_output ''observations'' r2 @
                 stage_output ''relations'' r3 @ map PrintWarning extra @ summary)"
    using main_c3_after_lineage[OF a(1,2,3,4) a(5)[unfolded r] a(6)[unfolded r] a(7)[unfolded r] a(8)]
    unfolding r by blast
qed

text \<open>
  The theorem at scenario B: the document carries its parent's timestamp, the lineage
  check fails with the ordering error, and the run prints its four lines and exits 2.
\<close>

theorem lineage_failure_short_circuits_witness:
  "main_c1 demo_env_same_timestamp =
     Inr (2, [PrintError (Lineage TimestampNotNewer) [],
              PrintError (Lineage (ParentLine (JStr ''2025-01-01T00:00:00Z''))) [],
              PrintError (Lineage (CurrentLine (JStr ''2025-01-01T00:00:00Z''))) [],
              PrintWarning (Lineage (Recommendation ''Ensure file is generated after parent''))])"
proof -
  have h: "stdin demo_env_same_timestamp = Document demo_c1_same_timestamp \<and>
      validate_parent_reference_c1 demo_env_same_timestamp demo_c1_same_timestamp
        (knowledge_base_path demo_env_same_timestamp ''init.json'')
      = Inr (False, [Lineage TimestampNotNewer,
                     Lineage (ParentLine (JStr ''2025-01-01T00:00:00Z'')),
                     Lineage (CurrentLine (JStr ''2025-01-01T00:00:00Z'')),
                     Lineage (Recommendation ''Ensure file is generated after parent'')])"
    by code_simp
  from lineage_failure_short_circuits[THEN conjunct1, rule_format, OF h]
  show ?thesis by simp
qed

section \<open>Input errors\<close>

text \<open>
  C4 (as amended). The claim says that every input error, a missing \<^verbatim>\<open>init.json\<close> of
  the init validator included, ends the run at once with exit code 2. The init script
  returns 0 when it finds no \<^verbatim>\<open>init.json\<close> (it prints that it skips validation). What
  holds: in the C1, C2 and C3 scripts a standard input that cannot be read or is not JSON
  gives exit code 2 with that one error printed; with a document on standard input, a
  parent file that is missing, unreadable or not JSON gives exit code 2 with the lineage
  check's lines only; the init script gives exit code 2 with one error for an
  \<^verbatim>\<open>init.json\<close> that is unreadable or not JSON, and exit code 0 for a missing one.
\<close>

theorem input_errors_exit_2_but_missing_init_exits_0:
  "(\<forall>e. stdin e = Malformed \<or> stdin e = Unreadable
      \<longrightarrow> (\<exists>m. main_c1 e = Inr (2, [PrintError m []]) \<and>
               main_c2 e = Inr (2, [PrintError m []]) \<and>
               main_c3 e = Inr (2, [PrintError m []]))) \<and>
   (\<forall>e data.
      stdin e = Document data \<and>
      (fs e (knowledge_base_path e ''init.json'') = None \<or>
       fs e (knowledge_base_path e ''init.json'') = Some Unreadable \<or>
       fs e (knowledge_base_path e ''init.json'') = Some Malformed)
      \<longrightarrow> (\<exists>errs. main_c1 e = Inr (2, map lineage_output errs) \<and>
                  errs \<noteq> [] \<and> list_all is_lineage errs)) \<and>
   (\<forall>e data.
      stdin e = Document data \<and>
      (fs e (knowledge_base_path e ''c1-systems.json'') = None \<or>
       fs e (knowledge_base_path e ''c1-systems.json'') = Some Unreadable \<or>
       fs e (knowledge_base_path e ''c1-systems.json'') = Some Malformed)
      \<longrightarrow> (\<exists>errs. main_c2 e = Inr (2, map lineage_output errs) \<and>
                  errs \<noteq> [] \<and> list_all is_lineage errs)) \<and>
   (\<forall>e data.
      stdin e = Document data \<and>
      (fs e (knowledge_base_path e ''c2-containers.json'') = None \<or>
       fs e (knowledge_base_path e ''c2-containers.json'') = Some Unreadable \<or>
       fs e (knowledge_base_path e ''c2-containers.json'') = Some Malformed)
      \<longrightarrow> (\<exists>errs. main_c3 e = Inr (2, map lineage_output errs) \<and>
                  errs \<noteq> [] \<and> list_all is_lineage errs)) \<and>
   (\<forall>checks e.
      fs e (knowledge_base_path e ''init.json'') = Some Unreadable \<or>
      fs e (knowledge_base_path e ''init.json'') = Some Malformed
      \<longrightarrow> (\<exists>m. main_init checks e =
                 Inr (2, [PrintError m (knowledge_base_path e ''init.json'')]))) \<and>
   (\<forall>checks e.
      fs e (knowledge_base_path e ''init.json'') = None
      \<longrightarrow> main_init checks e =
            Inr (0, [PrintLine ''No init.json file found - skipping validation'']))"
proof (intro conjI allI impI)
  fix e :: env assume "stdin e = Malformed \<or> stdin e = Unreadable"
  then show "\<exists>m. main_c1 e = Inr (2, [PrintError m []]) \<and>
               main_c2 e = Inr (2, [PrintError m []]) \<and>
               main_c3 e = Inr (2, [PrintError m []])"
    unfolding main_c1_def main_c2_def main_c3_def by auto
next
  fix e :: env and data
  assume a: "stdin e = Document data \<and>
      (fs e (knowledge_base_path e ''init.json'') = None \<or>
       fs e (knowledge_base_path e ''init.json'') = Some Unreadable \<or>
       fs e (knowledge_base_path e ''init.json'') = Some Malformed)"
  then obtain errs where
    p: "parent_timestamp (fs e) (knowledge_base_path e ''init.json'') ''Run /melly-init first''
          = Inr (Inl errs)" and ne: "errs \<noteq> []"
    using parent_timestamp_no_parent by blast
  have v: "validate_parent_reference_c1 e data (knowledge_base_path e ''init.json'')
             = Inr (False, errs)"
    unfolding validate_parent_reference_c1_def by (simp add: p)
  show "\<exists>errs. main_c1 e = Inr (2, map lineage_output errs) \<and>
                  errs \<noteq> [] \<and> list_all is_lineage errs"
    using main_c1_lineage_failed[OF _ v] validate_parent_reference_c1_lineage[OF v] a ne
    by blast
next
  fix e :: env and data
  assume a: "stdin e = Document data \<and>
      (fs e (knowledge_base_path e ''c1-systems.json'') = None \<or>
       fs e (knowledge_base_path e ''c1-systems.json'') = Some Unreadable \<or>
       fs e (knowledge_base_path e ''c1-systems.json'') = Some Malformed)"
  then obtain errs where
    p: "parent_timestamp (fs e) (knowledge_base_path e ''c1-systems.json'')
          ''Run /melly-c1-systems first'' = Inr (Inl errs)" and ne: "errs \<noteq> []"
    using parent_timestamp_no_parent by blast
  have v: "validate_parent_reference_c2 e data (knowledge_base_path e ''c1-systems.json'')
             = Inr (False, errs, JStr [])"
    unfolding validate_parent_reference_c2_def by (simp add: p)
  show "\<exists>errs. main_c2 e = Inr (2, map lineage_output errs) \<and>
                  errs \<noteq> [] \<and> list_all is_lineage errs"
    using main_c2_lineage_failed[OF _ v] validate_parent_reference_c2_lineage[OF v] a ne
    by blast
next
  fix e :: env and data
  assume a: "stdin e = Document data \<and>
      (fs e (knowledge_base_path e ''c2-containers.json'') = None \<or>
       fs e (knowledge_base_path e ''c2-containers.json'') = Some Unreadable \<or>
       fs e (knowledge_base_path e ''c2-containers.json'') = Some Malformed)"
  then obtain errs where
    p: "parent_timestamp (fs e) (knowledge_base_path e ''c2-containers.json'')
          ''Run /melly-c2-containers first'' = Inr (Inl errs)" and ne: "errs \<noteq> []"
    using parent_timestamp_no_parent by blast
  have v: "validate_parent_reference_c3 e data (knowledge_base_path e ''c2-containers.json'')
             = Inr (False, errs)"
    unfolding validate_parent_reference_c3_def by (simp add: p)
  show "\<exists>errs. main_c3 e = Inr (2, map lineage_output errs) \<and>
                  errs \<noteq> [] \<and> list_all is_lineage errs"
    using main_c3_lineage_failed[OF _ v] validate_parent_reference_c3_lineage[OF v] a ne
    by blast
next
  fix checks and e :: env
  assume "fs e (knowledge_base_path e ''init.json'') = Some Unreadable \<or>
      fs e (knowledge_base_path e ''init.json'') = Some Malformed"
  then show "\<exists>m. main_init checks e =
                 Inr (2, [PrintError m (knowledge_base_path e ''init.json'')])"
    unfolding main_init_def load_json_def by auto
next
  fix checks and e :: env
  assume "fs e (knowledge_base_path e ''init.json'') = None"
  then show "main_init checks e =
            Inr (0, [PrintLine ''No init.json file found - skipping validation''])"
    unfolding main_init_def by simp
qed

text \<open>
  The theorem at the run of the C1 script with no \<^verbatim>\<open>init.json\<close>: exit code 2, and the
  two lines of the lineage check.
\<close>

theorem input_errors_witness:
  "main_c1 demo_env_no_parent =
     Inr (2, [PrintError (Lineage (ParentFileNotFound ''/work/knowledge-base/init.json'')) [],
              PrintWarning (Lineage (Recommendation ''Run /melly-init first''))])"
proof -
  have h: "stdin demo_env_no_parent = Document demo_c1 \<and>
      (fs demo_env_no_parent (knowledge_base_path demo_env_no_parent ''init.json'') = None \<or>
       fs demo_env_no_parent (knowledge_base_path demo_env_no_parent ''init.json'')
         = Some Unreadable \<or>
       fs demo_env_no_parent (knowledge_base_path demo_env_no_parent ''init.json'')
         = Some Malformed)"
    by code_simp
  from input_errors_exit_2_but_missing_init_exits_0
         [THEN conjunct2, THEN conjunct1, rule_format, OF h]
  obtain errs where "main_c1 demo_env_no_parent = Inr (2, map lineage_output errs)" by blast
  moreover have "main_c1 demo_env_no_parent =
     Inr (2, [PrintError (Lineage (ParentFileNotFound ''/work/knowledge-base/init.json'')) [],
              PrintWarning (Lineage (Recommendation ''Run /melly-init first''))])"
    by code_simp
  ultimately show ?thesis by simp
qed

text \<open>
  C4 as stated fails for the init validator: with no \<^verbatim>\<open>init.json\<close> the run exits 0,
  whatever the checks on a loaded document would return.
\<close>

theorem missing_init_exits_0:
  "main_init (\<lambda>data. Inr (2, [])) demo_env_no_parent =
     Inr (0, [PrintLine ''No init.json file found - skipping validation''])"
  by code_simp

subsection \<open>The blocks of the lineage check on a well-formed document\<close>

lemma parent_carries_timestampD:
  assumes "parent_carries_timestamp files path pts"
  obtains p pm where "files path = Some (Document (JObj p))"
    and "map_of p ''metadata'' = Some (JObj pm)"
    and "map_of pm ''timestamp'' = Some pts" and "truthy pts"
proof -
  from assms obtain i where i: "files path = Some i"
    unfolding parent_carries_timestamp_def by (cases "files path") simp_all
  from assms i obtain d where d: "i = Document d"
    unfolding parent_carries_timestamp_def by (cases i) simp_all
  from assms i d obtain p where p: "d = JObj p"
    unfolding parent_carries_timestamp_def by (cases d) simp_all
  from assms i d p obtain x where x: "map_of p ''metadata'' = Some x"
    unfolding parent_carries_timestamp_def by (cases "map_of p ''metadata''") simp_all
  from assms i d p x obtain pm where pm: "x = JObj pm"
    unfolding parent_carries_timestamp_def by (cases x) simp_all
  from assms i d p x pm have "map_of pm ''timestamp'' = Some pts" "truthy pts"
    unfolding parent_carries_timestamp_def by simp_all
  then show thesis using that i d p x pm by simp
qed

lemma parent_timestamp_ok:
  assumes "parent_carries_timestamp files path pts"
  shows "parent_timestamp files path hint = Inr (Inr pts)"
proof -
  from assms obtain p pm where "files path = Some (Document (JObj p))"
    and "map_of p ''metadata'' = Some (JObj pm)"
    and "map_of pm ''timestamp'' = Some pts" and "truthy pts"
    by (rule parent_carries_timestampD)
  then show ?thesis
    unfolding parent_timestamp_def load_json_def by simp
qed

lemma document_metadata_item:
  assumes "document_metadata data = Some m"
  shows "py_in ''metadata'' data = Inr True" and "py_item data ''metadata'' = Inr (JObj m)"
proof -
  from assms obtain d where d: "data = JObj d"
    unfolding document_metadata_def by (cases data) simp_all
  from assms d obtain x where x: "map_of d ''metadata'' = Some x"
    unfolding document_metadata_def by (cases "map_of d ''metadata''") simp_all
  from assms d x have "x = JObj m"
    unfolding document_metadata_def by (cases x) simp_all
  then show "py_in ''metadata'' data = Inr True" "py_item data ''metadata'' = Inr (JObj m)"
    using d x by simp_all
qed

lemma declared_parent_check_ok:
  assumes "parent_absent_or_agrees m pts"
  shows "declared_parent_check (JObj m) pts = Inr []"
proof (cases "map_of m ''parent''")
  case None
  then show ?thesis unfolding declared_parent_check_def by simp
next
  case (Some x)
  from assms Some obtain pr where pr: "x = JObj pr"
    unfolding parent_absent_or_agrees_def by (cases x) simp_all
  show ?thesis
  proof (cases "map_of pr ''timestamp''")
    case None
    then show ?thesis using Some pr unfolding declared_parent_check_def by simp
  next
    case (Some t)
    then have "py_eq t pts"
      using assms \<open>map_of m ''parent'' = Some x\<close> pr
      unfolding parent_absent_or_agrees_def by simp
    then show ?thesis
      using Some \<open>map_of m ''parent'' = Some x\<close> pr
      unfolding declared_parent_check_def by simp
  qed
qed

lemma timestamp_order_check_absent:
  assumes "map_of m ''timestamp'' = None"
  shows "timestamp_order_check isoparse (JObj m) pts tail = Inr []"
  using assms unfolding timestamp_order_check_def by simp

lemma datetime_le_same_kind:
  "same_kind a b \<Longrightarrow> datetime_le a b = Inr (instant a \<le> instant b)"
  by (cases a; cases b) simp_all

lemma timestamp_order_check_present:
  assumes "map_of m ''timestamp'' = Some ts"
    and "parse_timestamp isoparse ts = Inr a"
    and "parse_timestamp isoparse pts = Inr b"
    and "same_kind a b"
  shows "timestamp_order_check isoparse (JObj m) pts tail =
     Inr (if instant a \<le> instant b
          then [Lineage TimestampNotNewer, Lineage (ParentLine pts), Lineage (CurrentLine ts)] @ tail
          else [])"
  using assms unfolding timestamp_order_check_def
  by (simp add: datetime_le_same_kind)

lemma validate_parent_reference_c1_ordered:
  assumes "parent_carries_timestamp (fs e) path pts"
    and "document_metadata data = Some m"
    and "map_of m ''timestamp'' = Some ts"
    and "parent_absent_or_agrees m pts"
    and "parse_timestamp (fromisoformat e) ts = Inr a"
    and "parse_timestamp (fromisoformat e) pts = Inr b"
    and "same_kind a b"
  shows "\<exists>errs. validate_parent_reference_c1 e data path = Inr (instant b < instant a, errs)"
  unfolding validate_parent_reference_c1_def
  by (simp add: parent_timestamp_ok[OF assms(1)] document_metadata_item[OF assms(2)]
      declared_parent_check_ok[OF assms(4)]
      timestamp_order_check_present[OF assms(3,5,6,7)] not_less)

lemma validate_parent_reference_c2_ordered:
  assumes "parent_carries_timestamp (fs e) path pts"
    and "document_metadata data = Some m"
    and "map_of m ''timestamp'' = Some ts"
    and "parse_timestamp (fromisoformat e) ts = Inr a"
    and "parse_timestamp (fromisoformat e) pts = Inr b"
    and "same_kind a b"
  shows "\<exists>errs t. validate_parent_reference_c2 e data path = Inr (instant b < instant a, errs, t)"
  unfolding validate_parent_reference_c2_def
  by (simp add: parent_timestamp_ok[OF assms(1)] document_metadata_item[OF assms(2)]
      timestamp_order_check_present[OF assms(3,4,5,6)] not_less)

lemma validate_parent_reference_c3_ordered:
  assumes "parent_carries_timestamp (fs e) path pts"
    and "document_metadata data = Some m"
    and "map_of m ''timestamp'' = Some ts"
    and "parse_timestamp (fromisoformat e) ts = Inr a"
    and "parse_timestamp (fromisoformat e) pts = Inr b"
    and "same_kind a b"
  shows "\<exists>errs. validate_parent_reference_c3 e data path = Inr (instant b < instant a, errs)"
  unfolding validate_parent_reference_c3_def
  by (simp add: parent_timestamp_ok[OF assms(1)] document_metadata_item[OF assms(2)]
      timestamp_order_check_present[OF assms(3,4,5,6)] not_less)

lemma validate_parent_reference_c1_unstamped:
  assumes "parent_carries_timestamp (fs e) path pts"
    and "document_metadata data = Some m"
    and "map_of m ''timestamp'' = None"
    and "parent_absent_or_agrees m pts"
  shows "validate_parent_reference_c1 e data path = Inr (True, [])"
  unfolding validate_parent_reference_c1_def
  by (simp add: parent_timestamp_ok[OF assms(1)] document_metadata_item[OF assms(2)]
      declared_parent_check_ok[OF assms(4)] timestamp_order_check_absent[OF assms(3)])

lemma validate_parent_reference_c2_unstamped:
  assumes "parent_carries_timestamp (fs e) path pts"
    and "document_metadata data = Some m"
    and "map_of m ''timestamp'' = None"
  shows "validate_parent_reference_c2 e data path = Inr (True, [], pts)"
  unfolding validate_parent_reference_c2_def
  by (simp add: parent_timestamp_ok[OF assms(1)] document_metadata_item[OF assms(2)]
      timestamp_order_check_absent[OF assms(3)])

lemma validate_parent_reference_c3_unstamped:
  assumes "parent_carries_timestamp (fs e) path pts"
    and "document_metadata data = Some m"
    and "map_of m ''timestamp'' = None"
  shows "validate_parent_reference_c3 e data path = Inr (True, [])"
  unfolding validate_parent_reference_c3_def
  by (simp add: parent_timestamp_ok[OF assms(1)] document_metadata_item[OF assms(2)]
      timestamp_order_check_absent[OF assms(3)])

lemma main_c1_lineage_passed:
  assumes "stdin e = Document data"
    and "validate_parent_reference_c1 e data (knowledge_base_path e ''init.json'') = Inr (True, l)"
  shows "main_c1 e = checks_c1 e data"
  unfolding main_c1_def by (simp add: assms)

lemma main_c2_lineage_passed:
  assumes "stdin e = Document data"
    and "validate_parent_reference_c2 e data (knowledge_base_path e ''c1-systems.json'')
           = Inr (True, l, t)"
  shows "main_c2 e = checks_c2 e data"
  unfolding main_c2_def by (simp add: assms)

lemma main_c3_lineage_passed:
  assumes "stdin e = Document data"
    and "validate_parent_reference_c3 e data (knowledge_base_path e ''c2-containers.json'')
           = Inr (True, l)"
  shows "main_c3 e = checks_c3 e data"
  unfolding main_c3_def by (simp add: assms)

lemma main_c1_unstamped:
  assumes "parent_carries_timestamp (fs e) (knowledge_base_path e ''init.json'') pts"
    and "document_metadata data = Some m"
    and "map_of m ''timestamp'' = None"
    and "parent_absent_or_agrees m pts"
    and "stdin e = Document data"
  shows "main_c1 e = checks_c1 e data"
  using main_c1_lineage_passed[OF assms(5) validate_parent_reference_c1_unstamped[OF assms(1-4)]] .

lemma main_c2_unstamped:
  assumes "parent_carries_timestamp (fs e) (knowledge_base_path e ''c1-systems.json'') pts"
    and "document_metadata data = Some m"
    and "map_of m ''timestamp'' = None"
    and "stdin e = Document data"
  shows "main_c2 e = checks_c2 e data"
  using main_c2_lineage_passed[OF assms(4) validate_parent_reference_c2_unstamped[OF assms(1-3)]] .

lemma main_c3_unstamped:
  assumes "parent_carries_timestamp (fs e) (knowledge_base_path e ''c2-containers.json'') pts"
    and "document_metadata data = Some m"
    and "map_of m ''timestamp'' = None"
    and "stdin e = Document data"
  shows "main_c3 e = checks_c3 e data"
  using main_c3_lineage_passed[OF assms(4) validate_parent_reference_c3_unstamped[OF assms(1-3)]] .

lemma main_c1_not_newer:
  assumes "parent_carries_timestamp (fs e) (knowledge_base_path e ''init.json'') pts"
    and "document_metadata data = Some m"
    and "map_of m ''timestamp'' = Some ts"
    and "parent_absent_or_agrees m pts"
    and "parse_timestamp (fromisoformat e) ts = Inr a"
    and "parse_timestamp (fromisoformat e) pts = Inr b"
    and "same_kind a b"
    and "stdin e = Document data"
    and "instant a \<le> instant b"
  shows "\<exists>printed. main_c1 e = Inr (2, printed)"
proof -
  from validate_parent_reference_c1_ordered[OF assms(1-7)] obtain errs where
    "validate_parent_reference_c1 e data (knowledge_base_path e ''init.json'')
       = Inr (instant b < instant a, errs)" by blast
  then have "validate_parent_reference_c1 e data (knowledge_base_path e ''init.json'')
       = Inr (False, errs)" using assms(9) by simp
  from main_c1_lineage_failed[OF assms(8) this] show ?thesis by blast
qed

lemma main_c2_not_newer:
  assumes "parent_carries_timestamp (fs e) (knowledge_base_path e ''c1-systems.json'') pts"
    and "document_metadata data = Some m"
    and "map_of m ''timestamp'' = Some ts"
    and "parse_timestamp (fromisoformat e) ts = Inr a"
    and "parse_timestamp (fromisoformat e) pts = Inr b"
    and "same_kind a b"
    and "stdin e = Document data"
    and "instant a \<le> instant b"
  shows "\<exists>printed. main_c2 e = Inr (2, printed)"
proof -
  from validate_parent_reference_c2_ordered[OF assms(1-6)] obtain errs t where
    "validate_parent_reference_c2 e data (knowledge_base_path e ''c1-systems.json'')
       = Inr (instant b < instant a, errs, t)" by blast
  then have "validate_parent_reference_c2 e data (knowledge_base_path e ''c1-systems.json'')
       = Inr (False, errs, t)" using assms(8) by simp
  from main_c2_lineage_failed[OF assms(7) this] show ?thesis by blast
qed

lemma main_c3_not_newer:
  assumes "parent_carries_timestamp (fs e) (knowledge_base_path e ''c2-containers.json'') pts"
    and "document_metadata data = Some m"
    and "map_of m ''timestamp'' = Some ts"
    and "parse_timestamp (fromisoformat e) ts = Inr a"
    and "parse_timestamp (fromisoformat e) pts = Inr b"
    and "same_kind a b"
    and "stdin e = Document data"
    and "instant a \<le> instant b"
  shows "\<exists>printed. main_c3 e = Inr (2, printed)"
proof -
  from validate_parent_reference_c3_ordered[OF assms(1-6)] obtain errs where
    "validate_parent_reference_c3 e data (knowledge_base_path e ''c2-containers.json'')
       = Inr (instant b < instant a, errs)" by blast
  then have "validate_parent_reference_c3 e data (knowledge_base_path e ''c2-containers.json'')
       = Inr (False, errs)" using assms(8) by simp
  from main_c3_lineage_failed[OF assms(7) this] show ?thesis by blast
qed

lemma declared_parent_check_mismatch:
  assumes "map_of m ''parent'' = Some (JObj pr)"
    and "map_of pr ''timestamp'' = Some t" and "\<not> py_eq t pts"
  shows "declared_parent_check (JObj m) pts =
     Inr [Lineage ParentTimestampMismatch, Lineage (ExpectedLine pts), Lineage (ActualLine t)]"
  using assms unfolding declared_parent_check_def by simp

lemma validate_parent_reference_c1_mismatch:
  assumes "parent_carries_timestamp (fs e) path pts"
    and "document_metadata data = Some m"
    and "map_of m ''parent'' = Some (JObj pr)"
    and "map_of pr ''timestamp'' = Some t" and "\<not> py_eq t pts"
  shows "validate_parent_reference_c1 e data path =
     Inr (False, [Lineage ParentTimestampMismatch, Lineage (ExpectedLine pts),
                  Lineage (ActualLine t)])"
  unfolding validate_parent_reference_c1_def
  by (simp add: parent_timestamp_ok[OF assms(1)] document_metadata_item[OF assms(2)]
      declared_parent_check_mismatch[OF assms(3,4,5)])

lemma main_c1_mismatch:
  assumes "parent_carries_timestamp (fs e) (knowledge_base_path e ''init.json'') pts"
    and "document_metadata data = Some m"
    and "map_of m ''parent'' = Some (JObj pr)"
    and "map_of pr ''timestamp'' = Some t" and "\<not> py_eq t pts"
    and "stdin e = Document data"
  shows "\<exists>printed. main_c1 e = Inr (2, printed)"
  using main_c1_lineage_failed[OF assms(6) validate_parent_reference_c1_mismatch[OF assms(1-5)]]
  by blast

section \<open>A document without a timestamp\<close>

text \<open>
  The scripts compare timestamps only under \<^verbatim>\<open>if "timestamp" in metadata\<close>. For each
  script, a document whose metadata object has no \<^verbatim>\<open>timestamp\<close> key, against a parent
  that exists, parses and carries \<^verbatim>\<open>metadata.timestamp\<close>, and, for the C1 script, with
  a \<^verbatim>\<open>metadata.parent\<close> that is absent or is an object with no timestamp or an equal
  one: \<^verbatim>\<open>validate_parent_reference\<close> returns valid with no errors, and a run on that
  document is the run of the checks after the lineage stage.
\<close>

theorem unstamped_document_passes_lineage:
  "(\<forall>e data m pts.
      parent_carries_timestamp (fs e) (knowledge_base_path e ''init.json'') pts \<and>
      document_metadata data = Some m \<and> map_of m ''timestamp'' = None \<and>
      parent_absent_or_agrees m pts
      \<longrightarrow> validate_parent_reference_c1 e data (knowledge_base_path e ''init.json'')
            = Inr (True, []) \<and>
          (stdin e = Document data \<longrightarrow> main_c1 e = checks_c1 e data)) \<and>
   (\<forall>e data m pts.
      parent_carries_timestamp (fs e) (knowledge_base_path e ''c1-systems.json'') pts \<and>
      document_metadata data = Some m \<and> map_of m ''timestamp'' = None
      \<longrightarrow> validate_parent_reference_c2 e data (knowledge_base_path e ''c1-systems.json'')
            = Inr (True, [], pts) \<and>
          (stdin e = Document data \<longrightarrow> main_c2 e = checks_c2 e data)) \<and>
   (\<forall>e data m pts.
      parent_carries_timestamp (fs e) (knowledge_base_path e ''c2-containers.json'') pts \<and>
      document_metadata data = Some m \<and> map_of m ''timestamp'' = None
      \<longrightarrow> validate_parent_reference_c3 e data (knowledge_base_path e ''c2-containers.json'')
            = Inr (True, []) \<and>
          (stdin e = Document data \<longrightarrow> main_c3 e = checks_c3 e data))"
  by (intro conjI allI impI; elim conjE)
     ((rule validate_parent_reference_c1_unstamped validate_parent_reference_c2_unstamped
         validate_parent_reference_c3_unstamped main_c1_unstamped main_c2_unstamped
         main_c3_unstamped; assumption)+)

text \<open>
  At the C2 script and the example document without a timestamp: the lineage check
  returns valid and hands back the parent's timestamp.
\<close>

theorem unstamped_document_passes_lineage_witness:
  "validate_parent_reference_c2 (demo_env_lineage demo_document_without_timestamp)
     demo_document_without_timestamp ''knowledge-base/c1-systems.json''
   = Inr (True, [], JStr ''2025-01-01T00:00:01Z'')"
proof -
  let ?e = "demo_env_lineage demo_document_without_timestamp"
  have p: "knowledge_base_path ?e ''c1-systems.json'' = ''knowledge-base/c1-systems.json''"
    by code_simp
  have h: "parent_carries_timestamp (fs ?e) (knowledge_base_path ?e ''c1-systems.json'')
             (JStr ''2025-01-01T00:00:01Z'') \<and>
           document_metadata demo_document_without_timestamp
             = Some demo_metadata_without_timestamp \<and>
           map_of demo_metadata_without_timestamp ''timestamp'' = None"
    by code_simp
  from unstamped_document_passes_lineage[THEN conjunct2, THEN conjunct1, rule_format, OF h]
  show ?thesis by (simp add: p)
qed

text \<open>
  C10. For every C1, C2 or C3 document that has a metadata object but no
  \<^verbatim>\<open>metadata.timestamp\<close> key, the lineage check succeeds, provided the parent file
  exists, parses and carries \<^verbatim>\<open>metadata.timestamp\<close> and, for C1, no mismatching
  \<^verbatim>\<open>metadata.parent.timestamp\<close> is declared; the document then proceeds to the
  downstream checks. The C1 script breaks this on a document whose \<^verbatim>\<open>metadata.parent\<close>
  is \<^verbatim>\<open>null\<close>: the metadata is an object without a timestamp, the parent carries one,
  no parent timestamp is declared at all, and \<^verbatim>\<open>"timestamp" in parent\<close> raises
  \<^verbatim>\<open>TypeError\<close>, which nothing catches. The lineage check returns nothing, no
  downstream check runs, and the process ends with status 1. The C2 script, which has no
  \<^verbatim>\<open>metadata.parent\<close> block, passes the same document.
\<close>

theorem null_parent_unstamped_document_raises:
  "parent_carries_timestamp (fs (demo_env_lineage demo_c1_null_parent))
     (knowledge_base_path (demo_env_lineage demo_c1_null_parent) ''init.json'')
     (JStr ''2025-01-01T00:00:00Z'') \<and>
   document_metadata demo_c1_null_parent = Some [(''parent'', JNull)] \<and>
   map_of [(''parent'', JNull)] ''timestamp'' = None \<and>
   validate_parent_reference_c1 (demo_env_lineage demo_c1_null_parent) demo_c1_null_parent
     (knowledge_base_path (demo_env_lineage demo_c1_null_parent) ''init.json'')
     = Inl TypeError \<and>
   main_c1 (demo_env_lineage demo_c1_null_parent) = Inl TypeError \<and>
   exit_status (main_c1 (demo_env_lineage demo_c1_null_parent)) = 1 \<and>
   validate_parent_reference_c2 (demo_env_lineage demo_c1_null_parent) demo_c1_null_parent
     (knowledge_base_path (demo_env_lineage demo_c1_null_parent) ''c1-systems.json'')
     = Inr (True, [], JStr ''2025-01-01T00:00:01Z'')"
  by code_simp

section \<open>Timestamp order\<close>

text \<open>
  C2 (as amended). The claim says that, for a parent that exists, parses and carries
  \<^verbatim>\<open>metadata.timestamp\<close>, the lineage check returns ok if and only if the document's
  timestamp is strictly greater than the parent's. The scripts compare only when the
  document has a \<^verbatim>\<open>metadata.timestamp\<close>, and the C1 script first rejects a declared
  \<^verbatim>\<open>metadata.parent.timestamp\<close> that differs from the parent's. What holds, for each
  script: when the document's metadata object carries a timestamp, the parent exists,
  parses and carries \<^verbatim>\<open>metadata.timestamp\<close>, both timestamps parse to datetimes that
  Python can order (both naive or both aware), and, for the C1 script,
  \<^verbatim>\<open>metadata.parent\<close> is absent or is an object with no timestamp or with one equal to
  the parent's, the check returns ok exactly when the document's timestamp is strictly
  greater, and a run whose timestamp is not strictly greater, equal included, exits
  with code 2. And in the C1 script a \<^verbatim>\<open>metadata.parent\<close> object whose timestamp
  differs from the parent's makes the check fail with the mismatch error, and the run
  exit with code 2, whatever the order of the timestamps.
\<close>

theorem lineage_ok_iff_strictly_newer:
  "(\<forall>e data m ts pts a b.
      parent_carries_timestamp (fs e) (knowledge_base_path e ''init.json'') pts \<and>
      document_metadata data = Some m \<and> map_of m ''timestamp'' = Some ts \<and>
      parent_absent_or_agrees m pts \<and>
      parse_timestamp (fromisoformat e) ts = Inr a \<and>
      parse_timestamp (fromisoformat e) pts = Inr b \<and> same_kind a b
      \<longrightarrow> (\<exists>errs. validate_parent_reference_c1 e data (knowledge_base_path e ''init.json'')
                    = Inr (instant b < instant a, errs)) \<and>
          (stdin e = Document data \<and> instant a \<le> instant b
             \<longrightarrow> (\<exists>printed. main_c1 e = Inr (2, printed)))) \<and>
   (\<forall>e data m ts pts a b.
      parent_carries_timestamp (fs e) (knowledge_base_path e ''c1-systems.json'') pts \<and>
      document_metadata data = Some m \<and> map_of m ''timestamp'' = Some ts \<and>
      parse_timestamp (fromisoformat e) ts = Inr a \<and>
      parse_timestamp (fromisoformat e) pts = Inr b \<and> same_kind a b
      \<longrightarrow> (\<exists>errs t. validate_parent_reference_c2 e data
                      (knowledge_base_path e ''c1-systems.json'')
                    = Inr (instant b < instant a, errs, t)) \<and>
          (stdin e = Document data \<and> instant a \<le> instant b
             \<longrightarrow> (\<exists>printed. main_c2 e = Inr (2, printed)))) \<and>
   (\<forall>e data m ts pts a b.
      parent_carries_timestamp (fs e) (knowledge_base_path e ''c2-containers.json'') pts \<and>
      document_metadata data = Some m \<and> map_of m ''timestamp'' = Some ts \<and>
      parse_timestamp (fromisoformat e) ts = Inr a \<and>
      parse_timestamp (fromisoformat e) pts = Inr b \<and> same_kind a b
      \<longrightarrow> (\<exists>errs. validate_parent_reference_c3 e data
                    (knowledge_base_path e ''c2-containers.json'')
                    = Inr (instant b < instant a, errs)) \<and>
          (stdin e = Document data \<and> instant a \<le> instant b
             \<longrightarrow> (\<exists>printed. main_c3 e = Inr (2, printed)))) \<and>
   (\<forall>e data m pr t pts.
      parent_carries_timestamp (fs e) (knowledge_base_path e ''init.json'') pts \<and>
      document_metadata data = Some m \<and> map_of m ''parent'' = Some (JObj pr) \<and>
      map_of pr ''timestamp'' = Some t \<and> \<not> py_eq t pts
      \<longrightarrow> validate_parent_reference_c1 e data (knowledge_base_path e ''init.json'')
            = Inr (False, [Lineage ParentTimestampMismatch, Lineage (ExpectedLine pts),
                           Lineage (ActualLine t)]) \<and>
          (stdin e = Document data \<longrightarrow> (\<exists>printed. main_c1 e = Inr (2, printed))))"
  by (intro conjI allI impI; elim conjE)
     ((rule validate_parent_reference_c1_ordered validate_parent_reference_c2_ordered
         validate_parent_reference_c3_ordered main_c1_not_newer main_c2_not_newer
         main_c3_not_newer validate_parent_reference_c1_mismatch main_c1_mismatch;
       assumption)+)

text \<open>
  The theorem at the example run of the C1 script, whose document is stamped one second
  after \<^verbatim>\<open>init.json\<close>: the lineage check returns ok.
\<close>

theorem lineage_ok_iff_strictly_newer_witness:
  "\<exists>errs. validate_parent_reference_c1 demo_env_c1 demo_c1 ''knowledge-base/init.json''
           = Inr (True, errs)"
proof -
  have p: "knowledge_base_path demo_env_c1 ''init.json'' = ''knowledge-base/init.json''"
    by code_simp
  have h: "parent_carries_timestamp (fs demo_env_c1) (knowledge_base_path demo_env_c1 ''init.json'')
             (JStr ''2025-01-01T00:00:00Z'') \<and>
      document_metadata demo_c1 = Some [(''timestamp'', JStr ''2025-01-01T00:00:01Z'')] \<and>
      map_of [(''timestamp'', JStr ''2025-01-01T00:00:01Z'')] ''timestamp''
        = Some (JStr ''2025-01-01T00:00:01Z'') \<and>
      parent_absent_or_agrees [(''timestamp'', JStr ''2025-01-01T00:00:01Z'')]
        (JStr ''2025-01-01T00:00:00Z'') \<and>
      parse_timestamp (fromisoformat demo_env_c1) (JStr ''2025-01-01T00:00:01Z'')
        = Inr (Aware 1735689601000000) \<and>
      parse_timestamp (fromisoformat demo_env_c1) (JStr ''2025-01-01T00:00:00Z'')
        = Inr (Aware 1735689600000000) \<and>
      same_kind (Aware 1735689601000000) (Aware 1735689600000000)"
    by code_simp
  from lineage_ok_iff_strictly_newer[THEN conjunct1, rule_format, OF h, THEN conjunct1]
  show ?thesis by (simp add: p)
qed

text \<open>
  C2 as stated fails in both directions. The C1 script rejects a document stamped after
  its parent when the document declares another parent timestamp; and the C2 script
  accepts a document that has no timestamp at all.
\<close>

theorem lineage_is_not_timestamp_order:
  "validate_parent_reference_c1 (demo_env_lineage demo_c1_stale_parent) demo_c1_stale_parent
     ''knowledge-base/init.json''
   = Inr (False, [Lineage ParentTimestampMismatch,
                  Lineage (ExpectedLine (JStr ''2025-01-01T00:00:00Z'')),
                  Lineage (ActualLine (JStr ''2024-12-31T00:00:00Z''))]) \<and>
   validate_parent_reference_c2 (demo_env_lineage demo_document_without_timestamp)
     demo_document_without_timestamp ''knowledge-base/c1-systems.json''
   = Inr (True, [], JStr ''2025-01-01T00:00:01Z'')"
  by code_simp

subsection \<open>Every block of a checker extends the accumulators\<close>

lemma extends_refl [simp]: "extends cyc st st"
  by (simp add: extends_def)

lemma extends_trans: "extends cyc a b \<Longrightarrow> extends cyc b c \<Longrightarrow> extends cyc a c"
  unfolding extends_def by blast

lemma extends_add_error:
  "\<not> is_warning m \<Longrightarrow> extends cyc st st1 \<Longrightarrow> extends cyc st (add_error m st1)"
  unfolding extends_def tidy_def by auto

lemma extends_add_warning:
  "is_warning m \<Longrightarrow> \<not> is_cycle m \<Longrightarrow> extends cyc st st1 \<Longrightarrow>
   extends cyc st (add_warning m st1)"
  unfolding extends_def tidy_def by auto

lemma extends_add_cycle:
  "extends True st st1 \<Longrightarrow>
   extends True st (add_warning (Relation (CircularDependency path)) st1)"
  unfolding extends_def tidy_def by auto

lemma extends_if_id:
  "(c \<Longrightarrow> extends cyc st (f st1)) \<Longrightarrow> extends cyc st st1 \<Longrightarrow>
   extends cyc st ((if c then f else id) st1)"
  by simp

lemma extends_errors: "extends cyc st st' \<Longrightarrow> m \<in> set (errors st) \<Longrightarrow> m \<in> set (errors st')"
  unfolding extends_def by blast

lemma extends_warnings:
  "extends cyc st st' \<Longrightarrow> m \<in> set (warnings st) \<Longrightarrow> m \<in> set (warnings st')"
  unfolding extends_def by blast

lemma tidy_no_findings [simp]: "tidy cyc no_findings"
  by (simp add: tidy_def no_findings_def)

lemma extends_tidy: "extends cyc no_findings st \<Longrightarrow> tidy cyc st"
  unfolding extends_def by simp

lemma tidy_finish:
  assumes "tidy cyc st" and "finish st = (ok, errs, warns)"
  shows "list_all (\<lambda>m. \<not> is_warning m) errs"
    and "list_all (\<lambda>m. is_warning m \<and> (cyc \<or> \<not> is_cycle m)) warns"
  using assms unfolding tidy_def finish_def by auto

lemma check_required_extends:
  assumes "\<And>f. \<not> is_warning (mk f)" and "extends cyc st st1"
  shows "extends cyc st (check_required mk req kvs st1)"
  unfolding check_required_def using assms(2)
proof (induction req arbitrary: st1)
  case Nil
  then show ?case by simp
next
  case (Cons a req)
  have "extends cyc st (if map_of kvs a = None then add_error (mk a) st1 else st1)"
    using Cons.prems extends_add_error[OF assms(1), of cyc st st1 a] by simp
  from Cons.IH[OF this] show ?case by simp
qed

text \<open>A loop extends the accumulators when its body does.\<close>

lemma for_enum_extends:
  assumes "for_enum body i xs s = Inr s'"
    and "\<And>k x t t'. body k x t = Inr t' \<Longrightarrow> extends cyc (proj t) (proj t')"
  shows "extends cyc (proj s) (proj s')"
proof (rule for_enum_invariant[OF assms(1), where P = "\<lambda>t. extends cyc (proj s) (proj t)"])
  show "extends cyc (proj s) (proj s)" by simp
next
  fix k x t t'
  assume "extends cyc (proj s) (proj t)" "body k x t = Inr t'"
  then show "extends cyc (proj s) (proj t')"
    using assms(2) extends_trans by blast
qed

text \<open>The step of a loop at one of the elements.\<close>

lemma for_enum_at:
  assumes "for_enum body i xs s = Inr s'" and "x \<in> set xs"
  obtains k t t' post where "for_enum body i (take (k - i) xs) s = Inr t"
    and "body k x t = Inr t'"
    and "for_enum body (Suc k) post t' = Inr s'"
proof -
  from assms(2) obtain pre post where xs: "xs = pre @ [x] @ post"
    by (auto dest: split_list)
  from assms(1) obtain t where
    l1: "for_enum body i pre s = Inr t"
    and l23: "for_enum body (i + length pre) ([x] @ post) t = Inr s'"
    unfolding xs for_enum_append_Inr by blast
  from l23 obtain t' where
    l2: "body (i + length pre) x t = Inr t'"
    and l3: "for_enum body (i + length pre + length [x]) post t' = Inr s'"
    unfolding for_enum_append_Inr for_enum_single by blast
  show thesis
  proof (rule that[of "i + length pre" t t' post])
    show "for_enum body i (take (i + length pre - i) xs) s = Inr t"
      using l1 by (simp add: xs)
    show "body (i + length pre) x t = Inr t'" by (rule l2)
    show "for_enum body (Suc (i + length pre)) post t' = Inr s'" using l3 by simp
  qed
qed

subsection \<open>The entity checkers\<close>

lemma entity_id_check_extends:
  assumes "entity_id_check kvs (st1, seen) = Inr (st', seen')" and "extends cyc st st1"
  shows "extends cyc st st'"
proof (cases "map_of kvs ''id''")
  case None
  then show ?thesis using assms unfolding entity_id_check_def by simp
next
  case (Some eid)
  from assms(1) Some obtain matches dup where
    "st' = (if dup then add_error (Entity (DuplicateId eid)) else id)
             ((if \<not> matches then add_error (Entity (InvalidIdFormat eid)) else id) st1)"
    unfolding entity_id_check_def by (auto simp: bnd_eq_Inr)
  then show ?thesis
    using assms(2) by (auto intro!: extends_add_error)
qed

lemma entity_type_check_extends:
  assumes "extends cyc st st1"
  shows "extends cyc st (entity_type_check types kvs st1)"
  using assms unfolding entity_type_check_def
  by (auto intro!: extends_add_warning split: option.splits)

lemma system_repositories_fold_extends:
  assumes "extends cyc st st1"
  shows "extends cyc st
     (fold (\<lambda>repo s. if \<not> list_member repo init_repos
                      then add_warning (Entity (RepositoryNotFound label repo)) s else s) rs st1)"
  using assms
proof (induction rs arbitrary: st1)
  case Nil
  then show ?case by simp
next
  case (Cons a rs)
  have "extends cyc st (if \<not> list_member a init_repos
                        then add_warning (Entity (RepositoryNotFound label a)) st1 else st1)"
    using Cons.prems by (auto intro: extends_add_warning)
  from Cons.IH[OF this] show ?case by simp
qed

lemma system_repositories_check_extends:
  assumes "extends cyc st st1"
  shows "extends cyc st (system_repositories_check init_repos idx kvs st1)"
proof (cases "map_of kvs ''repositories''")
  case None
  then show ?thesis using assms unfolding system_repositories_check_def by simp
next
  case (Some repos)
  show ?thesis
  proof (cases repos)
    case (JArr rs)
    then show ?thesis
      using assms Some system_repositories_fold_extends[OF assms]
      unfolding system_repositories_check_def
      by (auto intro!: extends_add_error)
  qed (use assms Some in \<open>auto simp: system_repositories_check_def intro!: extends_add_error\<close>)
qed

lemma system_step_extends:
  assumes "system_step init_repos idx system acc = Inr acc'"
  shows "extends cyc (fst acc) (fst acc')"
proof (cases system)
  case (JObj kvs)
  from assms obtain acc2 where
    a: "entity_id_check kvs
          (check_required (\<lambda>f. Entity (MissingRequiredField idx f))
             [''id'', ''name'', ''type'', ''repositories'', ''description'',
              ''observations'', ''relations''] kvs (fst acc), snd acc) = Inr acc2"
    and b: "acc' = (system_repositories_check init_repos idx kvs
                      (entity_type_check ALLOWED_SYSTEM_TYPES kvs (fst acc2)), snd acc2)"
    unfolding system_step_def JObj by (auto simp: bnd_eq_Inr)
  have "extends cyc (fst acc) (fst acc2)"
    by (rule entity_id_check_extends[of kvs _ "snd acc" "fst acc2" "snd acc2"])
       (use a in \<open>auto intro!: check_required_extends\<close>)
  then show ?thesis
    unfolding b by (auto intro!: system_repositories_check_extends entity_type_check_extends)
qed (use assms in \<open>auto simp: system_step_def intro!: extends_add_error\<close>)

lemma parent_id_check_extends:
  assumes "parent_id_check key ids idx kvs st1 = Inr st'" and "extends cyc st st1"
  shows "extends cyc st st'"
proof (cases "map_of kvs key")
  case None
  then show ?thesis using assms unfolding parent_id_check_def by simp
next
  case (Some pid)
  from assms(1) Some obtain found where f: "set_member pid ids = Inr found"
    unfolding parent_id_check_def by (auto simp: bnd_eq_Inr)
  show ?thesis
  proof (cases found)
    case True
    then show ?thesis using assms Some f unfolding parent_id_check_def by simp
  next
    case False
    then have "st' = add_error (Entity (AvailableLine ids))
                 (add_error (Entity (ParentEntityNotFound
                    (get_or kvs ''id'' (JNum (of_nat idx))) pid)) st1)"
      using assms(1) Some f unfolding parent_id_check_def available_line_def
      by (auto simp: bnd_eq_Inr split: if_splits)
    then show ?thesis using assms(2) by (auto intro!: extends_add_error)
  qed
qed

lemma container_technology_check_extends:
  assumes "extends cyc st st1"
  shows "extends cyc st (container_technology_check idx kvs st1)"
  using assms unfolding container_technology_check_def
  by (auto intro!: extends_add_error split: option.splits json.splits)

lemma container_runtime_check_extends:
  assumes "extends cyc st st1"
  shows "extends cyc st (container_runtime_check idx kvs st1)"
  using assms unfolding container_runtime_check_def
  by (auto intro!: extends_add_error extends_add_warning split: option.splits json.splits)

lemma container_step_extends:
  assumes "container_step ids idx container acc = Inr acc'"
  shows "extends cyc (fst acc) (fst acc')"
proof (cases container)
  case (JObj kvs)
  from assms obtain acc2 st4 where
    a: "entity_id_check kvs
          (check_required (\<lambda>f. Entity (MissingRequiredField idx f))
             [''id'', ''name'', ''type'', ''system_id'', ''responsibility'',
              ''technology'', ''runtime''] kvs (fst acc), snd acc) = Inr acc2"
    and p: "parent_id_check ''system_id'' ids idx kvs
              (entity_type_check ALLOWED_CONTAINER_TYPES kvs (fst acc2)) = Inr st4"
    and b: "acc' = (container_runtime_check idx kvs (container_technology_check idx kvs st4),
                    snd acc2)"
    unfolding container_step_def JObj by (auto simp: bnd_eq_Inr)
  have "extends cyc (fst acc) (fst acc2)"
    by (rule entity_id_check_extends[of kvs _ "snd acc" "fst acc2" "snd acc2"])
       (use a in \<open>auto intro!: check_required_extends\<close>)
  then have "extends cyc (fst acc) st4"
    by (auto intro!: parent_id_check_extends[OF p] entity_type_check_extends)
  then show ?thesis
    unfolding b
    by (auto intro!: container_runtime_check_extends container_technology_check_extends)
qed (use assms in \<open>auto simp: container_step_def intro!: extends_add_error\<close>)

lemma component_structure_check_extends:
  assumes "extends cyc st st1"
  shows "extends cyc st (component_structure_check idx kvs st1)"
  using assms unfolding component_structure_check_def
  by (auto intro!: extends_add_error extends_add_warning
      split: option.splits json.splits list.splits)

lemma component_step_extends:
  assumes "component_step ids idx component acc = Inr acc'"
  shows "extends cyc (fst acc) (fst acc')"
proof (cases component)
  case (JObj kvs)
  from assms obtain acc2 st4 where
    a: "entity_id_check kvs
          (check_required (\<lambda>f. Entity (MissingRequiredField idx f))
             [''id'', ''name'', ''type'', ''container_id'', ''responsibility'',
              ''structure''] kvs (fst acc), snd acc) = Inr acc2"
    and p: "parent_id_check ''container_id'' ids idx kvs
              (entity_type_check ALLOWED_COMPONENT_TYPES kvs (fst acc2)) = Inr st4"
    and b: "acc' = (component_structure_check idx kvs st4, snd acc2)"
    unfolding component_step_def JObj by (auto simp: bnd_eq_Inr)
  have "extends cyc (fst acc) (fst acc2)"
    by (rule entity_id_check_extends[of kvs _ "snd acc" "fst acc2" "snd acc2"])
       (use a in \<open>auto intro!: check_required_extends\<close>)
  then have "extends cyc (fst acc) st4"
    by (auto intro!: parent_id_check_extends[OF p] entity_type_check_extends)
  then show ?thesis
    unfolding b by (auto intro!: component_structure_check_extends)
qed (use assms in \<open>auto simp: component_step_def intro!: extends_add_error\<close>)

text \<open>What one element's step has found is still there when the loop ends.\<close>

lemma loop_keeps_error:
  assumes "for_enum body i xs s = Inr s'" and "x \<in> set xs"
    and "\<And>k t t'. body k x t = Inr t' \<Longrightarrow> \<exists>l. M l \<in> set (errors (proj t'))"
    and "\<And>k y t t'. body k y t = Inr t' \<Longrightarrow> extends cyc (proj t) (proj t')"
  shows "\<exists>l. M l \<in> set (errors (proj s'))"
proof -
  from assms(1,2) obtain k t t' post where
    b: "body k x t = Inr t'" and r: "for_enum body (Suc k) post t' = Inr s'"
    by (rule for_enum_at)
  from assms(3)[OF b] obtain l where "M l \<in> set (errors (proj t'))" by blast
  moreover have "extends cyc (proj t') (proj s')"
    using for_enum_extends[where proj = proj and cyc = cyc, OF r] assms(4) by blast
  ultimately show ?thesis using extends_errors by blast
qed

lemma loop_keeps_warning:
  assumes "for_enum body i xs s = Inr s'" and "x \<in> set xs"
    and "\<And>k t t'. body k x t = Inr t' \<Longrightarrow> \<exists>l. M l \<in> set (warnings (proj t'))"
    and "\<And>k y t t'. body k y t = Inr t' \<Longrightarrow> extends cyc (proj t) (proj t')"
  shows "\<exists>l. M l \<in> set (warnings (proj s'))"
proof -
  from assms(1,2) obtain k t t' post where
    b: "body k x t = Inr t'" and r: "for_enum body (Suc k) post t' = Inr s'"
    by (rule for_enum_at)
  from assms(3)[OF b] obtain l where "M l \<in> set (warnings (proj t'))" by blast
  moreover have "extends cyc (proj t') (proj s')"
    using for_enum_extends[where proj = proj and cyc = cyc, OF r] assms(4) by blast
  ultimately show ?thesis using extends_warnings by blast
qed

lemma finish_parts:
  assumes "finish st = (ok, errs, warns)"
  shows "errs = errors st" and "warns = warnings st" and "ok = (errors st = [])"
  using assms by (auto simp: finish_def)

text \<open>The three entity checkers, once past the early return, are their loop.\<close>

lemma validate_systems_loop:
  assumes "validate_systems (JArr (x # xs)) repos = Inr r"
  obtains acc where "for_enum (system_step repos) 0 (x # xs) (no_findings, []) = Inr acc"
    and "r = finish (fst acc)"
  using assms unfolding validate_systems_def by (auto simp: bnd_eq_Inr)

lemma validate_containers_loop:
  assumes "validate_containers (JArr (x # xs)) ids = Inr r"
  obtains acc where "for_enum (container_step ids) 0 (x # xs) (no_findings, []) = Inr acc"
    and "r = finish (fst acc)"
  using assms unfolding validate_containers_def by (auto simp: bnd_eq_Inr)

lemma validate_components_loop:
  assumes "validate_components (JArr (x # xs)) ids = Inr r"
  obtains acc where "for_enum (component_step ids) 0 (x # xs) (no_findings, []) = Inr acc"
    and "r = finish (fst acc)"
  using assms unfolding validate_components_def by (auto simp: bnd_eq_Inr)

text \<open>Their accumulators are tidy: no warning among the errors, no error among the
  warnings.\<close>

lemma early_return_tidy:
  "list_all (\<lambda>m. \<not> is_warning m) [Entity NoEntitiesFound]"
  by simp

lemma validate_systems_tidy:
  assumes "validate_systems systems repos = Inr (ok, errs, warns)"
  shows "list_all (\<lambda>m. \<not> is_warning m) errs" and "list_all is_warning warns"
proof -
  have "list_all (\<lambda>m. \<not> is_warning m) errs \<and> list_all is_warning warns"
  proof (cases "truthy systems")
    case False
    then show ?thesis using assms unfolding validate_systems_def by auto
  next
    case True
    with assms obtain ys acc where
      l: "for_enum (system_step repos) 0 ys (no_findings, []) = Inr acc"
      and f: "finish (fst acc) = (ok, errs, warns)"
      unfolding validate_systems_def by (auto simp: bnd_eq_Inr)
    have "extends False no_findings (fst acc)"
      using for_enum_extends[where proj = fst and cyc = False, OF l] system_step_extends
      by simp
    then have "tidy False (fst acc)" by (simp add: extends_tidy)
    then show ?thesis using tidy_finish[OF _ f] by (auto simp: list_all_iff)
  qed
  then show "list_all (\<lambda>m. \<not> is_warning m) errs" and "list_all is_warning warns" by simp_all
qed

lemma validate_containers_tidy:
  assumes "validate_containers containers ids = Inr (ok, errs, warns)"
  shows "list_all (\<lambda>m. \<not> is_warning m) errs" and "list_all is_warning warns"
proof -
  have "list_all (\<lambda>m. \<not> is_warning m) errs \<and> list_all is_warning warns"
  proof (cases "truthy containers")
    case False
    then show ?thesis using assms unfolding validate_containers_def by auto
  next
    case True
    with assms obtain ys acc where
      l: "for_enum (container_step ids) 0 ys (no_findings, []) = Inr acc"
      and f: "finish (fst acc) = (ok, errs, warns)"
      unfolding validate_containers_def by (auto simp: bnd_eq_Inr)
    have "extends False no_findings (fst acc)"
      using for_enum_extends[where proj = fst and cyc = False, OF l] container_step_extends
      by simp
    then have "tidy False (fst acc)" by (simp add: extends_tidy)
    then show ?thesis using tidy_finish[OF _ f] by (auto simp: list_all_iff)
  qed
  then show "list_all (\<lambda>m. \<not> is_warning m) errs" and "list_all is_warning warns" by simp_all
qed

lemma validate_components_tidy:
  assumes "validate_components components ids = Inr (ok, errs, warns)"
  shows "list_all (\<lambda>m. \<not> is_warning m) errs" and "list_all is_warning warns"
proof -
  have "list_all (\<lambda>m. \<not> is_warning m) errs \<and> list_all is_warning warns"
  proof (cases "truthy components")
    case False
    then show ?thesis using assms unfolding validate_components_def by auto
  next
    case True
    with assms obtain ys acc where
      l: "for_enum (component_step ids) 0 ys (no_findings, []) = Inr acc"
      and f: "finish (fst acc) = (ok, errs, warns)"
      unfolding validate_components_def by (auto simp: bnd_eq_Inr)
    have "extends False no_findings (fst acc)"
      using for_enum_extends[where proj = fst and cyc = False, OF l] component_step_extends
      by simp
    then have "tidy False (fst acc)" by (simp add: extends_tidy)
    then show ?thesis using tidy_finish[OF _ f] by (auto simp: list_all_iff)
  qed
  then show "list_all (\<lambda>m. \<not> is_warning m) errs" and "list_all is_warning warns" by simp_all
qed

lemma never_in:
  assumes "list_all P xs" and "\<not> P m"
  shows "m \<notin> set xs"
  using assms by (auto simp: list_all_iff)

subsection \<open>An unresolved parent reference\<close>

lemma parent_id_check_reports:
  assumes "parent_id_check key ids idx kvs st1 = Inr st'"
    and "map_of kvs key = Some pid" and "\<not> list_member pid ids"
  shows "Entity (ParentEntityNotFound (get_or kvs ''id'' (JNum (of_nat idx))) pid)
           \<in> set (errors st')"
proof -
  from assms(1,2) obtain found where f: "set_member pid ids = Inr found"
    unfolding parent_id_check_def by (auto simp: bnd_eq_Inr)
  then have "\<not> found" using assms(3) by (auto simp: set_member_def split: if_splits)
  then have "st' = add_error (Entity (AvailableLine ids))
               (add_error (Entity (ParentEntityNotFound
                  (get_or kvs ''id'' (JNum (of_nat idx))) pid)) st1)"
    using assms(1,2) f unfolding parent_id_check_def available_line_def
    by (auto simp: bnd_eq_Inr split: if_splits)
  then show ?thesis by simp
qed

lemma container_step_reports_parent:
  assumes "container_step ids idx (JObj kvs) acc = Inr acc'"
    and "map_of kvs ''system_id'' = Some pid" and "\<not> list_member pid ids"
  shows "\<exists>label. Entity (ParentEntityNotFound label pid) \<in> set (errors (fst acc'))"
proof -
  from assms(1) obtain acc2 st4 where
    p: "parent_id_check ''system_id'' ids idx kvs
              (entity_type_check ALLOWED_CONTAINER_TYPES kvs (fst acc2)) = Inr st4"
    and b: "acc' = (container_runtime_check idx kvs (container_technology_check idx kvs st4),
                    snd acc2)"
    unfolding container_step_def by (auto simp: bnd_eq_Inr)
  have "extends False st4 (fst acc')"
    unfolding b
    by (auto intro!: container_runtime_check_extends container_technology_check_extends)
  then show ?thesis
    using parent_id_check_reports[OF p assms(2,3)] extends_errors by blast
qed

lemma component_step_reports_parent:
  assumes "component_step ids idx (JObj kvs) acc = Inr acc'"
    and "map_of kvs ''container_id'' = Some pid" and "\<not> list_member pid ids"
  shows "\<exists>label. Entity (ParentEntityNotFound label pid) \<in> set (errors (fst acc'))"
proof -
  from assms(1) obtain acc2 st4 where
    p: "parent_id_check ''container_id'' ids idx kvs
              (entity_type_check ALLOWED_COMPONENT_TYPES kvs (fst acc2)) = Inr st4"
    and b: "acc' = (component_structure_check idx kvs st4, snd acc2)"
    unfolding component_step_def by (auto simp: bnd_eq_Inr)
  have "extends False st4 (fst acc')"
    unfolding b by (auto intro!: component_structure_check_extends)
  then show ?thesis
    using parent_id_check_reports[OF p assms(2,3)] extends_errors by blast
qed

lemma validate_containers_reports_parent:
  assumes "validate_containers (JArr cs) ids = Inr (ok, errs, warns)"
    and "JObj kvs \<in> set cs"
    and "map_of kvs ''system_id'' = Some pid" and "\<not> list_member pid ids"
  shows "(\<exists>label. Entity (ParentEntityNotFound label pid) \<in> set errs) \<and> \<not> ok \<and>
         (\<forall>label. Entity (ParentEntityNotFound label pid) \<notin> set warns)"
proof -
  from assms(2) obtain c cs' where cs: "cs = c # cs'" by (cases cs) auto
  from assms(1)[unfolded cs] obtain acc where
    l: "for_enum (container_step ids) 0 (c # cs') (no_findings, []) = Inr acc"
    and f: "(ok, errs, warns) = finish (fst acc)"
    by (rule validate_containers_loop)
  have "\<exists>label. Entity (ParentEntityNotFound label pid) \<in> set (errors (fst acc))"
    by (rule loop_keeps_error[OF l assms(2)[unfolded cs], where cyc = False and proj = fst])
       (auto intro: container_step_reports_parent[OF _ assms(3,4)] container_step_extends)
  moreover have "errs = errors (fst acc)" "ok = (errors (fst acc) = [])"
    using finish_parts[OF f[symmetric]] by simp_all
  moreover have "\<forall>label. Entity (ParentEntityNotFound label pid) \<notin> set warns"
    using never_in[OF validate_containers_tidy(2)[OF assms(1)]] by simp
  ultimately show ?thesis by auto
qed

lemma validate_components_reports_parent:
  assumes "validate_components (JArr cs) ids = Inr (ok, errs, warns)"
    and "JObj kvs \<in> set cs"
    and "map_of kvs ''container_id'' = Some pid" and "\<not> list_member pid ids"
  shows "(\<exists>label. Entity (ParentEntityNotFound label pid) \<in> set errs) \<and> \<not> ok \<and>
         (\<forall>label. Entity (ParentEntityNotFound label pid) \<notin> set warns)"
proof -
  from assms(2) obtain c cs' where cs: "cs = c # cs'" by (cases cs) auto
  from assms(1)[unfolded cs] obtain acc where
    l: "for_enum (component_step ids) 0 (c # cs') (no_findings, []) = Inr acc"
    and f: "(ok, errs, warns) = finish (fst acc)"
    by (rule validate_components_loop)
  have "\<exists>label. Entity (ParentEntityNotFound label pid) \<in> set (errors (fst acc))"
    by (rule loop_keeps_error[OF l assms(2)[unfolded cs], where cyc = False and proj = fst])
       (auto intro: component_step_reports_parent[OF _ assms(3,4)] component_step_extends)
  moreover have "errs = errors (fst acc)" "ok = (errors (fst acc) = [])"
    using finish_parts[OF f[symmetric]] by simp_all
  moreover have "\<forall>label. Entity (ParentEntityNotFound label pid) \<notin> set warns"
    using never_in[OF validate_components_tidy(2)[OF assms(1)]] by simp
  ultimately show ?thesis by auto
qed

lemma repositories_fold_reports:
  assumes "repo \<in> set rs" and "\<not> list_member repo init_repos"
  shows "Entity (RepositoryNotFound label repo)
     \<in> set (warnings (fold (\<lambda>repo s. if \<not> list_member repo init_repos
                      then add_warning (Entity (RepositoryNotFound label repo)) s else s) rs st))"
proof -
  from assms(1) obtain pre post where rs: "rs = pre @ repo # post" by (auto dest: split_list)
  let ?f = "\<lambda>repo s. if \<not> list_member repo init_repos
                      then add_warning (Entity (RepositoryNotFound label repo)) s else s"
  have "extends False (add_warning (Entity (RepositoryNotFound label repo)) (fold ?f pre st))
          (fold ?f post (add_warning (Entity (RepositoryNotFound label repo)) (fold ?f pre st)))"
    by (rule system_repositories_fold_extends) simp
  then show ?thesis
    unfolding rs using assms(2) by (auto intro: extends_warnings)
qed

lemma system_step_reports_repository:
  assumes "system_step init_repos idx (JObj kvs) acc = Inr acc'"
    and "map_of kvs ''repositories'' = Some (JArr rs)"
    and "repo \<in> set rs" and "\<not> list_member repo init_repos"
  shows "\<exists>label. Entity (RepositoryNotFound label repo) \<in> set (warnings (fst acc'))"
proof -
  from assms(1) obtain acc2 where
    b: "acc' = (system_repositories_check init_repos idx kvs
                      (entity_type_check ALLOWED_SYSTEM_TYPES kvs (fst acc2)), snd acc2)"
    unfolding system_step_def by (auto simp: bnd_eq_Inr)
  have "rs \<noteq> []" using assms(3) by auto
  then show ?thesis
    unfolding b system_repositories_check_def
    using repositories_fold_reports[OF assms(3,4)] by (auto simp: assms(2))
qed

lemma validate_systems_reports_repository:
  assumes "validate_systems (JArr ss) init_repos = Inr (ok, errs, warns)"
    and "JObj kvs \<in> set ss"
    and "map_of kvs ''repositories'' = Some (JArr rs)"
    and "repo \<in> set rs" and "\<not> list_member repo init_repos"
  shows "(\<exists>label. Entity (RepositoryNotFound label repo) \<in> set warns) \<and>
         (\<forall>label. Entity (RepositoryNotFound label repo) \<notin> set errs)"
proof -
  from assms(2) obtain c cs' where cs: "ss = c # cs'" by (cases ss) auto
  from assms(1)[unfolded cs] obtain acc where
    l: "for_enum (system_step init_repos) 0 (c # cs') (no_findings, []) = Inr acc"
    and f: "(ok, errs, warns) = finish (fst acc)"
    by (rule validate_systems_loop)
  have "\<exists>label. Entity (RepositoryNotFound label repo) \<in> set (warnings (fst acc))"
    by (rule loop_keeps_warning[OF l assms(2)[unfolded cs], where cyc = False and proj = fst])
       (auto intro: system_step_reports_repository[OF _ assms(3,4,5)] system_step_extends)
  moreover have "warns = warnings (fst acc)"
    using finish_parts[OF f[symmetric]] by simp
  moreover have "\<forall>label. Entity (RepositoryNotFound label repo) \<notin> set errs"
    using never_in[OF validate_systems_tidy(1)[OF assms(1)]] by simp
  ultimately show ?thesis by auto
qed

section \<open>Unresolved parent references\<close>

text \<open>
  C5 (as amended). The claim says that every unresolved parent reference is reported as
  an error: a container's \<^verbatim>\<open>system_id\<close>, a component's \<^verbatim>\<open>container_id\<close>, and a
  system's \<^verbatim>\<open>repositories\<close> entries. The first two are; a repository that is not in
  \<^verbatim>\<open>init.json\<close> is appended to \<^verbatim>\<open>warnings\<close>. What holds, whenever the checker
  returns: a container (component) whose \<^verbatim>\<open>system_id\<close> (\<^verbatim>\<open>container_id\<close>) is not
  among the parent layer's ids gives a not-found error, makes the list invalid, and gives
  no such warning; a repository of a system that is not among the repositories of
  \<^verbatim>\<open>init.json\<close> gives a not-found warning and no such error.
\<close>

theorem unresolved_parent_reference_findings:
  "(\<forall>cs ids ok errs warns kvs pid.
      validate_containers (JArr cs) ids = Inr (ok, errs, warns) \<and> JObj kvs \<in> set cs \<and>
      map_of kvs ''system_id'' = Some pid \<and> \<not> list_member pid ids
      \<longrightarrow> (\<exists>label. Entity (ParentEntityNotFound label pid) \<in> set errs) \<and> \<not> ok \<and>
          (\<forall>label. Entity (ParentEntityNotFound label pid) \<notin> set warns)) \<and>
   (\<forall>cs ids ok errs warns kvs pid.
      validate_components (JArr cs) ids = Inr (ok, errs, warns) \<and> JObj kvs \<in> set cs \<and>
      map_of kvs ''container_id'' = Some pid \<and> \<not> list_member pid ids
      \<longrightarrow> (\<exists>label. Entity (ParentEntityNotFound label pid) \<in> set errs) \<and> \<not> ok \<and>
          (\<forall>label. Entity (ParentEntityNotFound label pid) \<notin> set warns)) \<and>
   (\<forall>ss init_repos ok errs warns kvs rs repo.
      validate_systems (JArr ss) init_repos = Inr (ok, errs, warns) \<and> JObj kvs \<in> set ss \<and>
      map_of kvs ''repositories'' = Some (JArr rs) \<and> repo \<in> set rs \<and>
      \<not> list_member repo init_repos
      \<longrightarrow> (\<exists>label. Entity (RepositoryNotFound label repo) \<in> set warns) \<and>
          (\<forall>label. Entity (RepositoryNotFound label repo) \<notin> set errs))"
  by (intro conjI allI; rule impI; elim conjE;
      (rule validate_containers_reports_parent validate_components_reports_parent
         validate_systems_reports_repository; assumption))

text \<open>The theorem at scenario D.\<close>

theorem unresolved_parent_reference_witness:
  "validate_components (JArr [JObj demo_component_items]) [JStr ''api''] =
     Inr (False,
          [Entity (ParentEntityNotFound (JStr ''auth-service'') (JStr ''ghost'')),
           Entity (AvailableLine [JStr ''api''])], []) \<and>
   (\<exists>label. Entity (ParentEntityNotFound label (JStr ''ghost''))
      \<in> set [Entity (ParentEntityNotFound (JStr ''auth-service'') (JStr ''ghost'')),
              Entity (AvailableLine [JStr ''api''])])"
proof -
  have h: "validate_components (JArr [JObj demo_component_items]) [JStr ''api''] =
       Inr (False,
            [Entity (ParentEntityNotFound (JStr ''auth-service'') (JStr ''ghost'')),
             Entity (AvailableLine [JStr ''api''])], []) \<and>
     JObj demo_component_items \<in> set [JObj demo_component_items] \<and>
     map_of demo_component_items ''container_id'' = Some (JStr ''ghost'') \<and>
     \<not> list_member (JStr ''ghost'') [JStr ''api'']"
    by code_simp
  from unresolved_parent_reference_findings[THEN conjunct2, THEN conjunct1, rule_format, OF h]
  show ?thesis using h by blast
qed

text \<open>
  C5 as stated fails for repositories: the system's repository \<^verbatim>\<open>/ghost\<close> is not in
  \<^verbatim>\<open>init.json\<close>, and the checker returns valid, with no error and one warning.
\<close>

theorem unknown_repository_is_a_warning:
  "validate_systems (JArr [demo_system_unknown_repository])
     (load_init_repos (fs demo_env_c1) ''knowledge-base/init.json'') =
   Inr (True, [], [Entity (RepositoryNotFound (JStr ''a'') (JStr ''/ghost''))])"
  by code_simp

end
